theory Spec2Isabelle
  imports Complex_Main
begin

section \<open>The reformulated EIR chiller: data\<close>

text \<open>
  A shallow embedding of \<^verbatim>\<open>src/EnergyPlus/ChillerReformulatedEIR.cc\<close>: the
  condenser-temperature solver \<^verbatim>\<open>ControlReformEIRChillerModel\<close>, its residual
  \<^verbatim>\<open>CondOutTempResidual\<close>, the single-point evaluator
  \<^verbatim>\<open>CalcReformEIRChillerModel\<close>, the heat-recovery split
  \<^verbatim>\<open>ReformEIRChillerHeatRecovery\<close> and the boundary validator
  \<^verbatim>\<open>CheckMinMaxCurveBoundaries\<close>.

  \<^verbatim>\<open>Real64\<close> is modelled by \<open>real\<close>: rounding, infinities and NaN are
  outside the model. A division of the source is a division of HOL, and every
  denominator is also recorded in the state (field \<open>denominators\<close>), so that a run
  on which the source would divide by zero can be told from the others. The
  \<^verbatim>\<open>int\<close> counters are \<open>int\<close>; they only ever count warnings up.
\<close>

type_synonym Real64 = real

text \<open>Chiller type parameters, flow modes and part-load curve types (lines 117--131).\<close>

definition AirCooled :: int where "AirCooled = 1"
definition WaterCooled :: int where "WaterCooled = 2"
definition EvapCooled :: int where "EvapCooled = 3"

definition FlowModeNotSet :: int where "FlowModeNotSet = 200"
definition ConstantFlow :: int where "ConstantFlow = 201"
definition NotModulated :: int where "NotModulated = 202"
definition LeavingSetPointModulated :: int where "LeavingSetPointModulated = 203"

definition PLR_LeavingCondenserWaterTemperature :: int where
  "PLR_LeavingCondenserWaterTemperature = 1"
definition PLR_Lift :: int where "PLR_Lift = 2"

text \<open>
  \<^verbatim>\<open>DataPlant::PlantLoop(n).LoopDemandCalcScheme\<close>: the source handles the two
  schemes below and runs into \<^verbatim>\<open>assert(false)\<close> on any other value.
\<close>

datatype DemandCalcScheme = SingleSetPoint | DualSetPointDeadBand | OtherScheme

datatype error = AssertFailed

record NodeData =
  Temp :: Real64
  MassFlowRate :: Real64
  MassFlowRateMaxAvail :: Real64
  TempSetPoint :: Real64
  TempSetPointHi :: Real64
  TempMin :: Real64

text \<open>
  What the chiller reads of a plant loop. The loop side, branch and component that the
  chiller sits on are fixed per loop, so \<^verbatim>\<open>PlantLoop(n).LoopSide(s).FlowLock\<close>,
  \<^verbatim>\<open>...Branch(b).Comp(c).CurOpSchemeType\<close> and \<^verbatim>\<open>...Comp(c).FlowCtrl\<close>
  are fields of the loop here.
\<close>

record PlantLoopData =
  LoopDemandCalcScheme :: DemandCalcScheme
  FlowLock :: int
  CurOpSchemeType :: int
  FlowCtrl :: int
  TempSetPointNodeNum :: int

text \<open>
  The fields of \<^verbatim>\<open>ReformulatedEIRChillerSpecs\<close> that the modelled routines use, in
  two records. The first holds the fields that input, sizing and initialisation set and
  that the modelled routines only read. The second holds the fields that they assign:
  the results of an evaluation, the values kept from one call to the next, and the
  warning counters. The message indices that \<^verbatim>\<open>ShowRecurringWarningErrorAtEnd\<close> and
  \<^verbatim>\<open>PullCompInterconnectTrigger\<close> keep through a reference belong to those
  collaborators and are left out.
\<close>

record ReformulatedEIRChillerSpecs =
  CondenserType :: int
  FlowMode :: int
  PartLoadCurveType :: int
  RefCap :: Real64
  RefCOP :: Real64
  TempRefEvapOut :: Real64
  TempRefCondOut :: Real64
  MinPartLoadRat :: Real64
  MaxPartLoadRat :: Real64
  MinUnloadRat :: Real64
  TempLowLimitEvapOut :: Real64
  EvapMassFlowRateMax :: Real64
  CondMassFlowRateMax :: Real64
  CompPowerToCondenserFrac :: Real64
  ChillerCapFTIndex :: int
  ChillerEIRFTIndex :: int
  ChillerEIRFPLRIndex :: int
  ChillerCAPFTXTempMin :: Real64
  ChillerCAPFTXTempMax :: Real64
  ChillerCAPFTYTempMin :: Real64
  ChillerCAPFTYTempMax :: Real64
  ChillerEIRFTXTempMin :: Real64
  ChillerEIRFTXTempMax :: Real64
  ChillerEIRFTYTempMin :: Real64
  ChillerEIRFTYTempMax :: Real64
  ChillerEIRFPLRTempMin :: Real64
  ChillerEIRFPLRTempMax :: Real64
  ChillerEIRFPLRPLRMin :: Real64
  ChillerEIRFPLRPLRMax :: Real64
  CWLoopNum :: int
  CDLoopNum :: int
  HRLoopNum :: int
  EvapInletNodeNum :: int
  EvapOutletNodeNum :: int
  CondInletNodeNum :: int
  CondOutletNodeNum :: int
  HeatRecActive :: bool
  HeatRecInletNodeNum :: int
  HeatRecSetPointNodeNum :: int
  HeatRecInletLimitSchedNum :: int
  HeatRecCapacityFraction :: Real64
  HeatRecMaxCapacityLimit :: Real64
  FaultyChillerFoulingFlag :: bool
  FaultyChillerFoulingIndex :: int
  FaultyChillerSWTFlag :: bool
  FaultyChillerSWTIndex :: int

record ChillerState =
  FaultyChillerFoulingFactor :: Real64
  FaultyChillerSWTOffset :: Real64
  PossibleSubcooling :: bool
  EvapMassFlowRate :: Real64
  CondMassFlowRate :: Real64
  EvapOutletTemp :: Real64
  CondOutletTemp :: Real64
  HeatRecOutletTemp :: Real64
  ChillerCondAvgTemp :: Real64
  ChillerPartLoadRatio :: Real64
  ChillerCyclingRatio :: Real64
  ChillerFalseLoadRate :: Real64
  Power :: Real64
  QEvaporator :: Real64
  QCondenser :: Real64
  QHeatRecovery :: Real64
  ChillerCapFT :: Real64
  ChillerEIRFT :: Real64
  ChillerEIRFPLR :: Real64
  DeltaTErrCount :: int
  ChillerCapFTError :: int
  ChillerEIRFTError :: int
  ChillerEIRFPLRError :: int
  IterLimitExceededNum :: int
  IterFailed :: int
  CAPFTXIter :: int
  EIRFTXIter :: int
  CAPFTYIter :: int
  EIRFTYIter :: int
  EIRFPLRTIter :: int
  EIRFPLRPLRIter :: int

subsection \<open>Diagnostics\<close>

text \<open>
  A call of one of the \<^verbatim>\<open>Show...\<close> routines is recorded as a message: which
  routine, which diagnostic class of the chiller, and the numbers it reports. The
  wording of the texts is not modelled.
\<close>

datatype diag =
  DiagIterLimit | DiagIterFailed | DiagDeltaT | DiagCondFlowZero
  | DiagCAPFTX | DiagEIRFTX | DiagCAPFTY | DiagEIRFTY | DiagEIRFPLRT | DiagEIRFPLRPLR
  | DiagCapFTNegative | DiagEIRFTNegative | DiagEIRFPLRNegative

datatype message =
  ShowWarningError diag "Real64 list"
  | ShowContinueError diag "Real64 list"
  | ShowContinueErrorTimeStamp diag "Real64 list"
  | ShowRecurringWarningErrorAtEnd diag Real64 Real64
  | ShowSevereError diag

text \<open>What a recorded denominator measures.\<close>

datatype quantity = MassFlow | HeatCapacityRate | TempDifference | SpecificHeat | OtherQuantity

record sim =
  chiller :: ChillerState
  messages :: "message list"
  denominators :: "(quantity \<times> Real64) list"

definition say :: "message list \<Rightarrow> sim \<Rightarrow> sim" where
  "say ms s = s\<lparr>messages := messages s @ ms\<rparr>"

definition dividing :: "(quantity \<times> Real64) list \<Rightarrow> sim \<Rightarrow> sim" where
  "dividing ds s = s\<lparr>denominators := denominators s @ ds\<rparr>"

subsection \<open>The collaborators\<close>

text \<open>
  The root finder \<^verbatim>\<open>General::SolveRoot\<close> is not part of this file. It is taken
  as a parameter: any deterministic policy that, from the accuracy, the iteration
  limit, the two bounds and the residuals seen so far, either asks for the residual at
  one more point or stops with a flag and a result.
\<close>

datatype solver_step = Probe Real64 | Stop int Real64

type_synonym root_policy =
  "Real64 \<Rightarrow> nat \<Rightarrow> Real64 \<Rightarrow> Real64 \<Rightarrow> (Real64 \<times> Real64) list \<Rightarrow> solver_step"

text \<open>
  Everything else the routines read but do not own: the nodes and loops of the plant,
  the global flags, the constants of other modules (\<^verbatim>\<open>MassFlowTolerance\<close>,
  \<^verbatim>\<open>DeltaTempTol\<close>, \<^verbatim>\<open>SmallLoad\<close>, \<^verbatim>\<open>SensedNodeFlagValue\<close>,
  \<^verbatim>\<open>ControlType_SeriesActive\<close>, \<^verbatim>\<open>CompSetPtBasedSchemeType\<close>), the curve
  evaluator, the fluid properties, the schedules, the flow resolver and the fault
  models. All are parameters; the functions are pure, and the plant data does not
  change during one call of the solver.
\<close>

record env =
  Node :: "int \<Rightarrow> NodeData"
  PlantLoop :: "int \<Rightarrow> PlantLoopData"
  WarmupFlag :: bool
  DoingSizing :: bool
  KickOffSimulation :: bool
  MassFlowTolerance :: Real64
  DeltaTempTol :: Real64
  SmallLoad :: Real64
  SensedNodeFlagValue :: Real64
  ControlType_SeriesActive :: int
  CompSetPtBasedSchemeType :: int
  CurveValue :: "int \<Rightarrow> Real64 \<Rightarrow> Real64 \<Rightarrow> Real64"
  CurveValue3 :: "int \<Rightarrow> Real64 \<Rightarrow> Real64 \<Rightarrow> Real64 \<Rightarrow> Real64"
  GetSpecificHeatGlycol :: "int \<Rightarrow> Real64 \<Rightarrow> Real64"
  GetCurrentScheduleValue :: "int \<Rightarrow> Real64"
  SetComponentFlowRate :: "Real64 \<Rightarrow> int \<Rightarrow> int \<Rightarrow> int \<Rightarrow> Real64"
  CalFoulingFactor :: "int \<Rightarrow> Real64"
  CalFaultOffsetAct :: "int \<Rightarrow> Real64"
  CalFaultChillerSWT ::
    "int \<Rightarrow> bool \<Rightarrow> Real64 \<Rightarrow> Real64 \<Rightarrow> Real64 \<Rightarrow> Real64 \<Rightarrow> Real64 \<Rightarrow> Real64
      \<Rightarrow> Real64 \<times> Real64 \<times> Real64"
  SolveRootPolicy :: root_policy

section \<open>The heat-recovery split\<close>

text \<open>
  \<^verbatim>\<open>InitElecReformEIRChiller\<close>, lines 970--987: the overall capacity limit of the
  heat-recovery bundle.
\<close>

definition InitHeatRecMaxCapacityLimit ::
  "ReformulatedEIRChillerSpecs \<Rightarrow> ReformulatedEIRChillerSpecs" where
  "InitHeatRecMaxCapacityLimit k =
    (if HeatRecActive k
     then k\<lparr>HeatRecMaxCapacityLimit := HeatRecCapacityFraction k * (RefCap k + RefCap k / RefCOP k)\<rparr>
     else k)"

text \<open>
  \<^verbatim>\<open>ReformEIRChillerHeatRecovery\<close>, lines 1732--1812. \<open>QCond\<close> and
  \<open>QHeatRec\<close> are reference parameters of the source: \<open>QCond\<close> comes in and both
  go out. The first definition is the branch that blends the temperatures (lines
  1766--1774), the second the branch that meets the setpoint (lines 1776--1793).
\<close>

definition HeatRecBlend :: "Real64 \<Rightarrow> Real64 \<Rightarrow> Real64 \<Rightarrow> Real64 \<Rightarrow> Real64 \<Rightarrow> Real64 \<Rightarrow> Real64 \<Rightarrow> Real64 \<Rightarrow> Real64" where
  "HeatRecBlend HeatRecMassFlowRate CpHeatRec HeatRecInletTemp CondMassFlow CpCond CondInletTemp QTotal Limit =
    (let TAvgIn = (HeatRecMassFlowRate * CpHeatRec * HeatRecInletTemp + CondMassFlow * CpCond * CondInletTemp) /
                  (HeatRecMassFlowRate * CpHeatRec + CondMassFlow * CpCond);
         TAvgOut = QTotal / (HeatRecMassFlowRate * CpHeatRec + CondMassFlow * CpCond) + TAvgIn;
         QHeatRec = HeatRecMassFlowRate * CpHeatRec * (TAvgOut - HeatRecInletTemp);
         QHeatRec = max QHeatRec 0
     in min QHeatRec Limit)"

definition HeatRecToSetPoint :: "env \<Rightarrow> ReformulatedEIRChillerSpecs \<Rightarrow> Real64 \<Rightarrow> Real64 \<Rightarrow> Real64 \<Rightarrow> Real64 \<Rightarrow> error + Real64" where
  "HeatRecToSetPoint env k HeatRecMassFlowRate CpHeatRec HeatRecInletTemp QTotal =
    (case (case LoopDemandCalcScheme (PlantLoop env (HRLoopNum k)) of
             SingleSetPoint \<Rightarrow> Inr (TempSetPoint (Node env (HeatRecSetPointNodeNum k)))
           | DualSetPointDeadBand \<Rightarrow> Inr (TempSetPointHi (Node env (HeatRecSetPointNodeNum k)))
           | OtherScheme \<Rightarrow> Inl AssertFailed) of
       Inl e \<Rightarrow> Inl e
     | Inr THeatRecSetPoint \<Rightarrow>
         (let QHeatRecToSetPoint = HeatRecMassFlowRate * CpHeatRec * (THeatRecSetPoint - HeatRecInletTemp);
              QHeatRecToSetPoint = max QHeatRecToSetPoint 0;
              QHeatRec = min QTotal QHeatRecToSetPoint
          in Inr (min QHeatRec (HeatRecMaxCapacityLimit k))))"

definition ReformEIRChillerHeatRecovery ::
  "env \<Rightarrow> ReformulatedEIRChillerSpecs \<Rightarrow> sim \<Rightarrow> Real64 \<Rightarrow> Real64 \<Rightarrow> Real64 \<Rightarrow> error + (sim \<times> Real64 \<times> Real64)" where
  "ReformEIRChillerHeatRecovery env k s QCond CondMassFlow CondInletTemp =
    (let c = chiller s;
         HeatRecInletTemp = Temp (Node env (HeatRecInletNodeNum k));
         HeatRecMassFlowRate = MassFlowRate (Node env (HeatRecInletNodeNum k));
         CpHeatRec = GetSpecificHeatGlycol env (HRLoopNum k) HeatRecInletTemp;
         CpCond = GetSpecificHeatGlycol env (CDLoopNum k) CondInletTemp;
         QTotal = QCond
     in case (if HeatRecSetPointNodeNum k = 0
              then Inr (HeatRecBlend HeatRecMassFlowRate CpHeatRec HeatRecInletTemp CondMassFlow CpCond
                          CondInletTemp QTotal (HeatRecMaxCapacityLimit k),
                        dividing [(HeatCapacityRate, HeatRecMassFlowRate * CpHeatRec + CondMassFlow * CpCond),
                                  (HeatCapacityRate, HeatRecMassFlowRate * CpHeatRec + CondMassFlow * CpCond)] s)
              else (case HeatRecToSetPoint env k HeatRecMassFlowRate CpHeatRec HeatRecInletTemp QTotal of
                      Inl e \<Rightarrow> Inl e
                    | Inr q \<Rightarrow> Inr (q, s))) of
          Inl e \<Rightarrow> Inl e
        | Inr (QHeatRec0, s1) \<Rightarrow>
            (let QHeatRec =
                   (if HeatRecInletLimitSchedNum k > 0 \<and>
                       HeatRecInletTemp > GetCurrentScheduleValue env (HeatRecInletLimitSchedNum k)
                    then 0 else QHeatRec0);
                 QCond' = QTotal - QHeatRec;
                 s2 = (if HeatRecMassFlowRate > 0
                       then (dividing [(HeatCapacityRate, HeatRecMassFlowRate * CpHeatRec)] s1)
                              \<lparr>chiller := (chiller s1)
                                 \<lparr>HeatRecOutletTemp := QHeatRec / (HeatRecMassFlowRate * CpHeatRec) + HeatRecInletTemp\<rparr>\<rparr>
                       else s1\<lparr>chiller := (chiller s1)\<lparr>HeatRecOutletTemp := HeatRecInletTemp\<rparr>\<rparr>)
             in Inr (s2, QCond', QHeatRec)))"


section \<open>The single-point evaluator\<close>

text \<open>
  \<^verbatim>\<open>CalcReformEIRChillerModel\<close>, lines 1917--2435, block by block. The local
  variables of the source that one block hands to the next are arguments here.
  \<open>sign a b\<close> is the Fortran intrinsic \<^verbatim>\<open>SIGN\<close>: the magnitude of \<open>a\<close> with the
  sign of \<open>b\<close>.
\<close>

definition sign :: "Real64 \<Rightarrow> Real64 \<Rightarrow> Real64" where
  "sign a b = (if b \<ge> 0 then \<bar>a\<bar> else - \<bar>a\<bar>)"

text \<open>The guard of every fault model: not warming up, not sizing, not kicking off.\<close>

definition FaultsRun :: "env \<Rightarrow> bool" where
  "FaultsRun env = (\<not> WarmupFlag env \<and> \<not> DoingSizing env \<and> \<not> KickOffSimulation env)"

text \<open>Lines 1950--1967: the outputs are set to zero before anything is read.\<close>

definition CalcZeroOutputs :: "ChillerState \<Rightarrow> ChillerState" where
  "CalcZeroOutputs c =
    c\<lparr>ChillerPartLoadRatio := 0, ChillerCyclingRatio := 0, ChillerFalseLoadRate := 0,
      EvapMassFlowRate := 0, CondMassFlowRate := 0, Power := 0, QCondenser := 0,
      QEvaporator := 0, QHeatRecovery := 0,
      ChillerCapFT := 0, ChillerEIRFT := 0, ChillerEIRFPLR := 0\<rparr>"

text \<open>Lines 1976--1991: no load or chiller off.\<close>

definition CalcIdle :: "env \<Rightarrow> ReformulatedEIRChillerSpecs \<Rightarrow> ChillerState \<Rightarrow> int \<Rightarrow> ChillerState" where
  "CalcIdle env k c EquipFlowCtrl =
    (let c1 = (if EquipFlowCtrl = ControlType_SeriesActive env \<or> FlowLock (PlantLoop env (CWLoopNum k)) = 1
               then c\<lparr>EvapMassFlowRate := MassFlowRate (Node env (EvapInletNodeNum k))\<rparr> else c)
     in if CondenserType k = WaterCooled
        then (if FlowCtrl (PlantLoop env (CDLoopNum k)) = ControlType_SeriesActive env
              then c1\<lparr>CondMassFlowRate := MassFlowRate (Node env (CondInletNodeNum k))\<rparr> else c1)
        else c1)"

text \<open>
  Lines 1994--2024: the reference capacity and COP of this call, scaled by the fouling
  factor when the fouling fault runs (the local variables \<^verbatim>\<open>ChillerRefCap\<close> and
  \<^verbatim>\<open>ReferenceCOP\<close>), and the two assignments to the chiller.
\<close>

definition ChillerRefCap :: "env \<Rightarrow> ReformulatedEIRChillerSpecs \<Rightarrow> Real64" where
  "ChillerRefCap env k =
    (if FaultyChillerFoulingFlag k \<and> FaultsRun env
     then RefCap k * CalFoulingFactor env (FaultyChillerFoulingIndex k) else RefCap k)"

definition ReferenceCOP :: "env \<Rightarrow> ReformulatedEIRChillerSpecs \<Rightarrow> Real64" where
  "ReferenceCOP env k =
    (if FaultyChillerFoulingFlag k \<and> FaultsRun env
     then RefCOP k * CalFoulingFactor env (FaultyChillerFoulingIndex k) else RefCOP k)"

definition CalcFouling :: "env \<Rightarrow> ReformulatedEIRChillerSpecs \<Rightarrow> ChillerState \<Rightarrow> ChillerState" where
  "CalcFouling env k c =
    (let c1 = c\<lparr>EvapOutletTemp := Temp (Node env (EvapOutletNodeNum k))\<rparr>
     in if FaultyChillerFoulingFlag k \<and> FaultsRun env
        then c1\<lparr>FaultyChillerFoulingFactor := CalFoulingFactor env (FaultyChillerFoulingIndex k)\<rparr>
        else c1)"

text \<open>Lines 2028--2046: the condenser asks for its design flow and gets what the plant grants.\<close>

definition CalcCondenserFlow :: "env \<Rightarrow> ReformulatedEIRChillerSpecs \<Rightarrow> ChillerState \<Rightarrow> ChillerState" where
  "CalcCondenserFlow env k c =
    (if CondenserType k = WaterCooled
     then c\<lparr>CondMassFlowRate :=
            SetComponentFlowRate env (CondMassFlowRateMax k) (CondInletNodeNum k) (CondOutletNodeNum k) (CDLoopNum k)\<rparr>
     else c)"

text \<open>
  Lines 2050--2074 (and again 2652--2677 in the validator): the evaporator outlet
  setpoint of the plant.
\<close>

definition PlantSetPoint :: "env \<Rightarrow> ReformulatedEIRChillerSpecs \<Rightarrow> error + Real64" where
  "PlantSetPoint env k =
    (case LoopDemandCalcScheme (PlantLoop env (CWLoopNum k)) of
       SingleSetPoint \<Rightarrow>
         Inr (if FlowMode k = LeavingSetPointModulated \<or>
                 CurOpSchemeType (PlantLoop env (CWLoopNum k)) = CompSetPtBasedSchemeType env \<or>
                 TempSetPoint (Node env (EvapOutletNodeNum k)) \<noteq> SensedNodeFlagValue env
              then TempSetPoint (Node env (EvapOutletNodeNum k))
              else TempSetPoint (Node env (TempSetPointNodeNum (PlantLoop env (CWLoopNum k)))))
     | DualSetPointDeadBand \<Rightarrow>
         Inr (if FlowMode k = LeavingSetPointModulated \<or>
                 CurOpSchemeType (PlantLoop env (CWLoopNum k)) = CompSetPtBasedSchemeType env \<or>
                 TempSetPointHi (Node env (EvapOutletNodeNum k)) \<noteq> SensedNodeFlagValue env
              then TempSetPointHi (Node env (EvapOutletNodeNum k))
              else TempSetPointHi (Node env (TempSetPointNodeNum (PlantLoop env (CWLoopNum k)))))
     | OtherScheme \<Rightarrow> Inl AssertFailed)"

text \<open>Lines 2077--2088: the sensor fault moves the setpoint, and the offset in effect is stored.\<close>

definition CalcSWTSetPoint :: "env \<Rightarrow> ReformulatedEIRChillerSpecs \<Rightarrow> Real64 \<Rightarrow> Real64" where
  "CalcSWTSetPoint env k EvapOutletTempSetPoint_ff =
    (if FaultyChillerSWTFlag k \<and> FaultsRun env
     then max (TempLowLimitEvapOut k)
              (min (Temp (Node env (EvapInletNodeNum k)))
                   (EvapOutletTempSetPoint_ff - CalFaultOffsetAct env (FaultyChillerSWTIndex k)))
     else EvapOutletTempSetPoint_ff)"

definition CalcSWTOffset ::
  "env \<Rightarrow> ReformulatedEIRChillerSpecs \<Rightarrow> ChillerState \<Rightarrow> Real64 \<Rightarrow> Real64 \<Rightarrow> ChillerState" where
  "CalcSWTOffset env k c EvapOutletTempSetPoint_ff EvapOutletTempSetPoint =
    (if FaultyChillerSWTFlag k \<and> FaultsRun env
     then c\<lparr>FaultyChillerSWTOffset := EvapOutletTempSetPoint_ff - EvapOutletTempSetPoint\<rparr>
     else c)"

text \<open>Lines 2090--2103: the condenser temperature that the curves are read at.\<close>

definition CalcCondAvgTemp :: "ReformulatedEIRChillerSpecs \<Rightarrow> sim \<Rightarrow> Real64 \<Rightarrow> sim" where
  "CalcCondAvgTemp k s FalsiCondOutTemp =
    (let c = chiller s
     in if HeatRecActive k
        then (if QHeatRecovery c + QCondenser c > 0
              then (dividing [(OtherQuantity, QHeatRecovery c + QCondenser c)] s)
                     \<lparr>chiller := c\<lparr>ChillerCondAvgTemp :=
                          (QHeatRecovery c * HeatRecOutletTemp c + QCondenser c * CondOutletTemp c) /
                          (QHeatRecovery c + QCondenser c)\<rparr>\<rparr>
              else s\<lparr>chiller := c\<lparr>ChillerCondAvgTemp := FalsiCondOutTemp\<rparr>\<rparr>)
        else s\<lparr>chiller := c\<lparr>ChillerCondAvgTemp := FalsiCondOutTemp\<rparr>\<rparr>)"

text \<open>Lines 2105--2111: the capacity curve, the available capacity, the evaporator flow of the node.\<close>

definition CalcCapacity :: "env \<Rightarrow> ReformulatedEIRChillerSpecs \<Rightarrow> ChillerState \<Rightarrow> Real64 \<Rightarrow> ChillerState" where
  "CalcCapacity env k c EvapOutletTempSetPoint =
    c\<lparr>ChillerCapFT := max 0 (CurveValue env (ChillerCapFTIndex k) EvapOutletTempSetPoint (ChillerCondAvgTemp c)),
      EvapMassFlowRate := MassFlowRate (Node env (EvapInletNodeNum k))\<rparr>"

definition AvailChillerCap :: "env \<Rightarrow> ReformulatedEIRChillerSpecs \<Rightarrow> ChillerState \<Rightarrow> Real64" where
  "AvailChillerCap env k c = ChillerRefCap env k * ChillerCapFT c"

text \<open>Lines 2120--2146: the water-side load caps the load asked for; the part-load ratio.\<close>

definition EvapCp :: "env \<Rightarrow> ReformulatedEIRChillerSpecs \<Rightarrow> Real64" where
  "EvapCp env k = GetSpecificHeatGlycol env (CWLoopNum k) (Temp (Node env (EvapInletNodeNum k)))"

definition CalcLoad :: "env \<Rightarrow> ReformulatedEIRChillerSpecs \<Rightarrow> Real64 \<Rightarrow> Real64 \<Rightarrow> Real64 \<Rightarrow> Real64" where
  "CalcLoad env k EvapOutletTempSetPoint Cp MyLoad =
    (let TempLoad = MassFlowRateMaxAvail (Node env (EvapInletNodeNum k)) * Cp *
                    (Temp (Node env (EvapInletNodeNum k)) - EvapOutletTempSetPoint);
         TempLoad = max 0 TempLoad
     in if \<bar>MyLoad\<bar> > TempLoad then sign TempLoad MyLoad else MyLoad)"

definition CalcPartLoadRat :: "ReformulatedEIRChillerSpecs \<Rightarrow> Real64 \<Rightarrow> Real64 \<Rightarrow> Real64" where
  "CalcPartLoadRat k AvailCap MyLoad =
    (if AvailCap > 0 then max 0 (min (\<bar>MyLoad\<bar> / AvailCap) (MaxPartLoadRat k)) else 0)"

text \<open>
  Lines 2153--2247: the flow is not locked, the chiller asks for its flow. The result is
  the state and the local \<^verbatim>\<open>PartLoadRat\<close>.
\<close>

definition CalcUnlockedFlow :: "env \<Rightarrow> ReformulatedEIRChillerSpecs \<Rightarrow> sim \<Rightarrow> Real64 \<Rightarrow> Real64 \<Rightarrow> error + (sim \<times> Real64)" where
  "CalcUnlockedFlow env k s0 Cp PartLoadRat =
    (let s = s0\<lparr>chiller := (chiller s0)
                 \<lparr>PossibleSubcooling :=
                    (CurOpSchemeType (PlantLoop env (CWLoopNum k)) \<noteq> CompSetPtBasedSchemeType env)\<rparr>\<rparr>;
         c = chiller s;
         EvapInletTemp = Temp (Node env (EvapInletNodeNum k))
     in if FlowMode k = ConstantFlow \<or> FlowMode k = NotModulated
        then (let m = SetComponentFlowRate env (EvapMassFlowRateMax k) (EvapInletNodeNum k) (EvapOutletNodeNum k) (CWLoopNum k);
                  EvapDeltaTemp = (if m \<noteq> 0 then QEvaporator c / m / Cp else 0);
                  s1 = dividing (if m \<noteq> 0 then [(MassFlow, m), (SpecificHeat, Cp)] else []) s
              in Inr (s1\<lparr>chiller := c\<lparr>EvapMassFlowRate := m, EvapOutletTemp := EvapInletTemp - EvapDeltaTemp\<rparr>\<rparr>,
                      PartLoadRat))
        else if FlowMode k = LeavingSetPointModulated
        then (case (case LoopDemandCalcScheme (PlantLoop env (CWLoopNum k)) of
                      SingleSetPoint \<Rightarrow> Inr (EvapInletTemp - TempSetPoint (Node env (EvapOutletNodeNum k)))
                    | DualSetPointDeadBand \<Rightarrow> Inr (EvapInletTemp - TempSetPointHi (Node env (EvapOutletNodeNum k)))
                    | OtherScheme \<Rightarrow> Inl AssertFailed) of
                Inl e \<Rightarrow> Inl e
              | Inr EvapDeltaTemp \<Rightarrow>
                  if EvapDeltaTemp \<noteq> 0
                  then (let m0 = max 0 (QEvaporator c / Cp / EvapDeltaTemp);
                            sub = (if m0 - EvapMassFlowRateMax k > MassFlowTolerance env then True
                                   else PossibleSubcooling c);
                            m1 = min (EvapMassFlowRateMax k) m0;
                            m = SetComponentFlowRate env m1 (EvapInletNodeNum k) (EvapOutletNodeNum k) (CWLoopNum k);
                            Tout = (case LoopDemandCalcScheme (PlantLoop env (CWLoopNum k)) of
                                      SingleSetPoint \<Rightarrow> TempSetPoint (Node env (EvapOutletNodeNum k))
                                    | DualSetPointDeadBand \<Rightarrow> TempSetPointHi (Node env (EvapOutletNodeNum k))
                                    | OtherScheme \<Rightarrow> EvapOutletTemp c)
                        in Inr ((dividing [(SpecificHeat, Cp), (TempDifference, EvapDeltaTemp)] s)
                                  \<lparr>chiller := c\<lparr>PossibleSubcooling := sub, EvapMassFlowRate := m,
                                                 EvapOutletTemp := Tout,
                                                 QEvaporator := max 0 (m * Cp * EvapDeltaTemp)\<rparr>\<rparr>,
                                PartLoadRat))
                  else (let m = SetComponentFlowRate env 0 (EvapInletNodeNum k) (EvapOutletNodeNum k) (CWLoopNum k);
                            c1 = c\<lparr>EvapMassFlowRate := m, EvapOutletTemp := EvapInletTemp,
                                   QEvaporator := 0, ChillerPartLoadRatio := 0\<rparr>
                        in Inr (if DeltaTErrCount c1 < 1 \<and> \<not> WarmupFlag env
                                then say [ShowWarningError DiagDeltaT [], ShowContinueErrorTimeStamp DiagDeltaT []]
                                       (s\<lparr>chiller := c1\<lparr>DeltaTErrCount := DeltaTErrCount c1 + 1\<rparr>\<rparr>)
                                else if \<not> WarmupFlag env
                                then say [ShowRecurringWarningErrorAtEnd DiagDeltaT EvapDeltaTemp EvapDeltaTemp]
                                       (s\<lparr>chiller := c1\<lparr>ChillerCapFTError := ChillerCapFTError c1 + 1\<rparr>\<rparr>)
                                else s\<lparr>chiller := c1\<rparr>,
                                0)))
        else Inr (s, PartLoadRat))"

text \<open>
  Lines 2249--2267 (\<open>VarFlowFlag\<close> as the flow mode says) and 2329--2344
  (\<open>VarFlowFlag\<close> false): the sensor fault overrides outlet temperature, flow and heat
  flow.
\<close>

definition CalcFaultChillerSWT :: "env \<Rightarrow> ReformulatedEIRChillerSpecs \<Rightarrow> ChillerState \<Rightarrow> bool \<Rightarrow> Real64 \<Rightarrow> ChillerState" where
  "CalcFaultChillerSWT env k c VarFlowFlag Cp =
    (case CalFaultChillerSWT env (FaultyChillerSWTIndex k) VarFlowFlag (FaultyChillerSWTOffset c) Cp
            (Temp (Node env (EvapInletNodeNum k))) (EvapOutletTemp c) (EvapMassFlowRate c) (QEvaporator c) of
       (Tout, m, Q) \<Rightarrow> c\<lparr>EvapOutletTemp := Tout, EvapMassFlowRate := m, QEvaporator := Q\<rparr>)"

definition CalcUnlockedSWT :: "env \<Rightarrow> ReformulatedEIRChillerSpecs \<Rightarrow> sim \<Rightarrow> Real64 \<Rightarrow> Real64 \<Rightarrow> Real64 \<Rightarrow> sim \<times> Real64" where
  "CalcUnlockedSWT env k s Cp PartLoadRat AvailCap =
    (let c = chiller s
     in if FaultyChillerSWTFlag k \<and> FaultsRun env \<and> EvapMassFlowRate c > 0
        then (let c1 = CalcFaultChillerSWT env k c (FlowMode k = LeavingSetPointModulated) Cp;
                  PartLoadRat = (if AvailCap > 0 then QEvaporator c1 / AvailCap else 0);
                  PartLoadRat = max 0 (min PartLoadRat (MaxPartLoadRat k));
                  s1 = dividing (if AvailCap > 0 then [(OtherQuantity, AvailCap)] else []) s
              in (s1\<lparr>chiller := c1\<lparr>ChillerPartLoadRatio := PartLoadRat\<rparr>\<rparr>, PartLoadRat))
        else (s, PartLoadRat))"

text \<open>Lines 2270--2277: the flow is locked, the chiller takes the flow of its inlet node.\<close>

definition CalcLockedFlow :: "env \<Rightarrow> ReformulatedEIRChillerSpecs \<Rightarrow> ChillerState \<Rightarrow> ChillerState" where
  "CalcLockedFlow env k c =
    c\<lparr>EvapMassFlowRate :=
        SetComponentFlowRate env (MassFlowRate (Node env (EvapInletNodeNum k)))
          (EvapInletNodeNum k) (EvapOutletNodeNum k) (CWLoopNum k)\<rparr>"

text \<open>Lines 2284--2294: the heat flow and outlet temperature under locked flow.\<close>

definition CalcLockedLoad :: "env \<Rightarrow> ReformulatedEIRChillerSpecs \<Rightarrow> sim \<Rightarrow> Real64 \<Rightarrow> Real64 \<Rightarrow> Real64 \<Rightarrow> sim" where
  "CalcLockedLoad env k s Cp EvapOutletTempSetPoint MyLoad =
    (let c = chiller s;
         EvapInletTemp = Temp (Node env (EvapInletNodeNum k))
     in if PossibleSubcooling c
        then (let Q = \<bar>MyLoad\<bar>;
                  EvapDeltaTemp = Q / EvapMassFlowRate c / Cp
              in (dividing [(MassFlow, EvapMassFlowRate c), (SpecificHeat, Cp)] s)
                   \<lparr>chiller := c\<lparr>QEvaporator := Q, EvapOutletTemp := EvapInletTemp - EvapDeltaTemp\<rparr>\<rparr>)
        else (let EvapDeltaTemp = EvapInletTemp - EvapOutletTempSetPoint
              in s\<lparr>chiller := c\<lparr>QEvaporator := max 0 (EvapMassFlowRate c * Cp * EvapDeltaTemp),
                                 EvapOutletTemp := EvapOutletTempSetPoint\<rparr>\<rparr>))"

text \<open>
  Lines 2295--2305 with the chiller's low limit and lines 2306--2316 with the minimum
  temperature of the outlet node: the same clamp, written twice in the source.
\<close>

definition CalcLowLimit :: "env \<Rightarrow> ReformulatedEIRChillerSpecs \<Rightarrow> ChillerState \<Rightarrow> Real64 \<Rightarrow> Real64 \<Rightarrow> ChillerState" where
  "CalcLowLimit env k c Cp Limit =
    (let EvapInletTemp = Temp (Node env (EvapInletNodeNum k))
     in if EvapOutletTemp c < Limit
        then (if EvapInletTemp - Limit > DeltaTempTol env
              then c\<lparr>EvapOutletTemp := Limit,
                     QEvaporator := EvapMassFlowRate c * Cp * (EvapInletTemp - Limit)\<rparr>
              else c\<lparr>EvapOutletTemp := EvapInletTemp,
                     QEvaporator := EvapMassFlowRate c * Cp * (EvapInletTemp - EvapInletTemp)\<rparr>)
        else c)"

text \<open>
  Lines 2317--2327 with the load asked for and lines 2346--2357 with the machine limit:
  the heat flow may not exceed the bound.
\<close>

definition CalcLimitLoad :: "env \<Rightarrow> ReformulatedEIRChillerSpecs \<Rightarrow> sim \<Rightarrow> Real64 \<Rightarrow> Real64 \<Rightarrow> sim" where
  "CalcLimitLoad env k s Cp Bound =
    (let c = chiller s;
         EvapInletTemp = Temp (Node env (EvapInletNodeNum k))
     in if QEvaporator c > Bound
        then (if EvapMassFlowRate c > MassFlowTolerance env
              then (let EvapDeltaTemp = Bound / EvapMassFlowRate c / Cp
                    in (dividing [(MassFlow, EvapMassFlowRate c), (SpecificHeat, Cp)] s)
                         \<lparr>chiller := c\<lparr>QEvaporator := Bound, EvapOutletTemp := EvapInletTemp - EvapDeltaTemp\<rparr>\<rparr>)
              else s\<lparr>chiller := c\<lparr>QEvaporator := 0, EvapOutletTemp := EvapInletTemp\<rparr>\<rparr>)
        else s)"

definition CalcLockedSWT :: "env \<Rightarrow> ReformulatedEIRChillerSpecs \<Rightarrow> ChillerState \<Rightarrow> Real64 \<Rightarrow> ChillerState" where
  "CalcLockedSWT env k c Cp =
    (if FaultyChillerSWTFlag k \<and> FaultsRun env \<and> EvapMassFlowRate c > 0
     then CalcFaultChillerSWT env k c False Cp else c)"

text \<open>
  Lines 2359--2385: part-load ratio, cycling ratio \<^verbatim>\<open>FRAC\<close>, false loading. The
  result is the state and the locals \<^verbatim>\<open>PartLoadRat\<close> and \<^verbatim>\<open>FRAC\<close>.
\<close>

definition OperatingPartLoadRat :: "ReformulatedEIRChillerSpecs \<Rightarrow> ChillerState \<Rightarrow> Real64 \<Rightarrow> Real64" where
  "OperatingPartLoadRat k c AvailCap =
    (if AvailCap > 0 then max 0 (min (QEvaporator c / AvailCap) (MaxPartLoadRat k)) else 0)"

definition CalcCycling :: "env \<Rightarrow> ReformulatedEIRChillerSpecs \<Rightarrow> sim \<Rightarrow> Real64 \<Rightarrow> sim \<times> Real64 \<times> Real64" where
  "CalcCycling env k s AvailCap =
    (let c = chiller s;
         PartLoadRat = OperatingPartLoadRat k c AvailCap;
         s1 = dividing (if AvailCap > 0 then [(OtherQuantity, AvailCap)] else []) s;
         FRAC = (if PartLoadRat < MinPartLoadRat k then min 1 (PartLoadRat / MinPartLoadRat k) else 1);
         s2 = dividing (if PartLoadRat < MinPartLoadRat k then [(OtherQuantity, MinPartLoadRat k)] else []) s1;
         PartLoadRat = (if AvailCap > 0 then max PartLoadRat (MinUnloadRat k) else 0);
         FalseLoad = AvailCap * PartLoadRat * FRAC - QEvaporator c
     in (s2\<lparr>chiller := c\<lparr>ChillerCyclingRatio := FRAC, ChillerPartLoadRatio := PartLoadRat,
                          ChillerFalseLoadRate := (if FalseLoad < SmallLoad env then 0 else FalseLoad)\<rparr>\<rparr>,
         PartLoadRat, FRAC))"

text \<open>Lines 2389--2414: the two energy-input-ratio curves.\<close>

definition CalcEIRFT :: "env \<Rightarrow> ReformulatedEIRChillerSpecs \<Rightarrow> ChillerState \<Rightarrow> ChillerState" where
  "CalcEIRFT env k c =
    c\<lparr>ChillerEIRFT := max 0 (CurveValue env (ChillerEIRFTIndex k) (EvapOutletTemp c) (ChillerCondAvgTemp c))\<rparr>"

definition CalcEIRFPLR :: "env \<Rightarrow> ReformulatedEIRChillerSpecs \<Rightarrow> sim \<Rightarrow> Real64 \<Rightarrow> sim" where
  "CalcEIRFPLR env k s PartLoadRat =
    (let c = chiller s
     in if PartLoadCurveType k = PLR_LeavingCondenserWaterTemperature
        then s\<lparr>chiller := c\<lparr>ChillerEIRFPLR :=
                 max 0 (CurveValue env (ChillerEIRFPLRIndex k) (ChillerCondAvgTemp c) PartLoadRat)\<rparr>\<rparr>
        else if PartLoadCurveType k = PLR_Lift
        then (let ChillerLift = ChillerCondAvgTemp c - EvapOutletTemp c;
                  ChillerTdev = \<bar>EvapOutletTemp c - TempRefEvapOut k\<bar>;
                  ChillerLiftRef = TempRefCondOut k - TempRefEvapOut k;
                  ChillerLiftRef = (if ChillerLiftRef \<le> 0 then 35 - 6.67 else ChillerLiftRef);
                  ChillerLiftNom = ChillerLift / ChillerLiftRef;
                  ChillerTdevNom = ChillerTdev / ChillerLiftRef
              in (dividing [(TempDifference, ChillerLiftRef), (TempDifference, ChillerLiftRef)] s)
                   \<lparr>chiller := c\<lparr>ChillerEIRFPLR :=
                      max 0 (CurveValue3 env (ChillerEIRFPLRIndex k) ChillerLiftNom PartLoadRat ChillerTdevNom)\<rparr>\<rparr>)
        else s)"

text \<open>
  Lines 2416--2434: power, condenser heat, heat recovery, condenser outlet temperature,
  or the severe error when the condenser has no flow.
\<close>

definition CalcPower :: "env \<Rightarrow> ReformulatedEIRChillerSpecs \<Rightarrow> sim \<Rightarrow> Real64 \<Rightarrow> Real64 \<Rightarrow> sim" where
  "CalcPower env k s FRAC AvailCap =
    (let c = chiller s;
         COP = (if ReferenceCOP env k \<le> 0 then 5.5 else ReferenceCOP env k);
         P = (AvailCap / COP) * ChillerEIRFPLR c * ChillerEIRFT c * FRAC
     in (dividing [(OtherQuantity, COP)] s)
          \<lparr>chiller := c\<lparr>Power := P,
                         QCondenser := P * CompPowerToCondenserFrac k + QEvaporator c + ChillerFalseLoadRate c\<rparr>\<rparr>)"

definition CalcCondenser :: "env \<Rightarrow> ReformulatedEIRChillerSpecs \<Rightarrow> sim \<Rightarrow> error + sim" where
  "CalcCondenser env k s =
    (let c = chiller s;
         CondInletTemp = Temp (Node env (CondInletNodeNum k))
     in if CondMassFlowRate c > MassFlowTolerance env
        then (case (if HeatRecActive k
                    then (case ReformEIRChillerHeatRecovery env k s (QCondenser c) (CondMassFlowRate c) CondInletTemp of
                            Inl e \<Rightarrow> Inl e
                          | Inr (s1, QCond, QHeatRec) \<Rightarrow>
                              Inr (s1\<lparr>chiller := (chiller s1)\<lparr>QCondenser := QCond, QHeatRecovery := QHeatRec\<rparr>\<rparr>))
                    else Inr s) of
                Inl e \<Rightarrow> Inl e
              | Inr s2 \<Rightarrow>
                  (let c2 = chiller s2;
                       Cp = GetSpecificHeatGlycol env (CDLoopNum k) CondInletTemp
                   in Inr ((dividing [(MassFlow, CondMassFlowRate c2), (SpecificHeat, Cp)] s2)
                             \<lparr>chiller := c2\<lparr>CondOutletTemp :=
                                  QCondenser c2 / CondMassFlowRate c2 / Cp + CondInletTemp\<rparr>\<rparr>)))
        else Inr (say [ShowSevereError DiagCondFlowZero, ShowContinueErrorTimeStamp DiagCondFlowZero []] s))"

definition CalcEnergyBalance :: "env \<Rightarrow> ReformulatedEIRChillerSpecs \<Rightarrow> sim \<Rightarrow> Real64 \<Rightarrow> Real64 \<Rightarrow> Real64 \<Rightarrow> error + sim" where
  "CalcEnergyBalance env k s PartLoadRat FRAC AvailCap =
    CalcCondenser env k
      (CalcPower env k (CalcEIRFPLR env k (s\<lparr>chiller := CalcEIRFT env k (chiller s)\<rparr>) PartLoadRat) FRAC AvailCap)"

text \<open>Lines 2153--2268 and 2389--2434: the evaluation with the flow not locked; \<^verbatim>\<open>FRAC\<close> stays 1.\<close>

definition CalcUnlocked :: "env \<Rightarrow> ReformulatedEIRChillerSpecs \<Rightarrow> sim \<Rightarrow> Real64 \<Rightarrow> Real64 \<Rightarrow> Real64 \<Rightarrow> Real64 \<Rightarrow> error + (sim \<times> Real64)" where
  "CalcUnlocked env k s Cp PartLoadRat AvailCap MyLoad =
    (case CalcUnlockedFlow env k s Cp PartLoadRat of
       Inl e \<Rightarrow> Inl e
     | Inr (s1, PartLoadRat1) \<Rightarrow>
         (case CalcUnlockedSWT env k s1 Cp PartLoadRat1 AvailCap of
            (s2, PartLoadRat2) \<Rightarrow>
              (case CalcEnergyBalance env k s2 PartLoadRat2 1 AvailCap of
                 Inl e \<Rightarrow> Inl e
               | Inr s3 \<Rightarrow> Inr (s3, MyLoad))))"

text \<open>Lines 2269--2387 and 2389--2434: the evaluation with the flow locked.\<close>

definition CalcLockedClamps :: "env \<Rightarrow> ReformulatedEIRChillerSpecs \<Rightarrow> sim \<Rightarrow> Real64 \<Rightarrow> Real64 \<Rightarrow> Real64 \<Rightarrow> Real64 \<Rightarrow> sim" where
  "CalcLockedClamps env k s Cp EvapOutletTempSetPoint AvailCap MyLoad =
    (let s3 = CalcLockedLoad env k s Cp EvapOutletTempSetPoint MyLoad;
         c4 = CalcLowLimit env k (chiller s3) Cp (TempLowLimitEvapOut k);
         c5 = CalcLowLimit env k c4 Cp (TempMin (Node env (EvapOutletNodeNum k)));
         s5 = CalcLimitLoad env k (s3\<lparr>chiller := c5\<rparr>) Cp \<bar>MyLoad\<bar>;
         s6 = s5\<lparr>chiller := CalcLockedSWT env k (chiller s5) Cp\<rparr>
     in CalcLimitLoad env k s6 Cp (AvailCap * MaxPartLoadRat k))"

definition CalcLocked :: "env \<Rightarrow> ReformulatedEIRChillerSpecs \<Rightarrow> sim \<Rightarrow> Real64 \<Rightarrow> Real64 \<Rightarrow> Real64 \<Rightarrow> Real64 \<Rightarrow> error + (sim \<times> Real64)" where
  "CalcLocked env k s Cp EvapOutletTempSetPoint AvailCap MyLoad =
    (let s2 = s\<lparr>chiller := CalcLockedFlow env k (chiller s)\<rparr>
     in if EvapMassFlowRate (chiller s2) = 0 then Inr (s2, 0)
        else (case CalcCycling env k (CalcLockedClamps env k s2 Cp EvapOutletTempSetPoint AvailCap MyLoad) AvailCap of
                (s8, PartLoadRat, FRAC) \<Rightarrow>
                  (case CalcEnergyBalance env k s8 PartLoadRat FRAC AvailCap of
                     Inl e \<Rightarrow> Inl e
                   | Inr s9 \<Rightarrow> Inr (s9, MyLoad))))"

text \<open>Lines 2140--2150: the evaporator heat flow and part-load ratio before the flow is settled.\<close>

definition CalcEvaporatorLoad :: "env \<Rightarrow> ReformulatedEIRChillerSpecs \<Rightarrow> sim \<Rightarrow> Real64 \<Rightarrow> Real64 \<Rightarrow> sim" where
  "CalcEvaporatorLoad env k s AvailCap MyLoad =
    (let PartLoadRat = CalcPartLoadRat k AvailCap MyLoad
     in (dividing (if AvailCap > 0 then [(OtherQuantity, AvailCap)] else []) s)
          \<lparr>chiller := (chiller s)\<lparr>QEvaporator := AvailCap * PartLoadRat, ChillerPartLoadRatio := PartLoadRat\<rparr>\<rparr>)"

text \<open>Lines 2118--2153: from the water-side load to the branch on the flow lock.\<close>

definition CalcLoaded :: "env \<Rightarrow> ReformulatedEIRChillerSpecs \<Rightarrow> sim \<Rightarrow> Real64 \<Rightarrow> Real64 \<Rightarrow> error + (sim \<times> Real64)" where
  "CalcLoaded env k s EvapOutletTempSetPoint MyLoad0 =
    (let AvailCap = AvailChillerCap env k (chiller s);
         Cp = EvapCp env k;
         MyLoad = CalcLoad env k EvapOutletTempSetPoint Cp MyLoad0;
         s1 = CalcEvaporatorLoad env k s AvailCap MyLoad
     in if FlowLock (PlantLoop env (CWLoopNum k)) = 0
        then CalcUnlocked env k s1 Cp (CalcPartLoadRat k AvailCap MyLoad) AvailCap MyLoad
        else CalcLocked env k s1 Cp EvapOutletTempSetPoint AvailCap MyLoad)"

text \<open>Lines 2076--2111: sensor offset, condenser temperature for the curves, capacity curve.\<close>

definition CalcAvailable :: "env \<Rightarrow> ReformulatedEIRChillerSpecs \<Rightarrow> sim \<Rightarrow> Real64 \<Rightarrow> Real64 \<Rightarrow> Real64 \<Rightarrow> sim" where
  "CalcAvailable env k s EvapOutletTempSetPoint_ff EvapOutletTempSetPoint FalsiCondOutTemp =
    (let c2 = CalcSWTOffset env k (chiller s) EvapOutletTempSetPoint_ff EvapOutletTempSetPoint;
         s3 = CalcCondAvgTemp k (s\<lparr>chiller := c2\<rparr>) FalsiCondOutTemp
     in s3\<lparr>chiller := CalcCapacity env k (chiller s3) EvapOutletTempSetPoint\<rparr>)"

text \<open>Lines 1993--2116: the running chiller up to the check of the evaporator flow.\<close>

definition CalcRunning :: "env \<Rightarrow> ReformulatedEIRChillerSpecs \<Rightarrow> sim \<Rightarrow> Real64 \<Rightarrow> Real64 \<Rightarrow> error + (sim \<times> Real64)" where
  "CalcRunning env k s MyLoad FalsiCondOutTemp =
    (let c1 = CalcCondenserFlow env k (CalcFouling env k (chiller s))
     in if CondenserType k = WaterCooled \<and> CondMassFlowRate c1 < MassFlowTolerance env
        then Inr (s\<lparr>chiller := c1\<rparr>, MyLoad)
        else (case PlantSetPoint env k of
                Inl e \<Rightarrow> Inl e
              | Inr EvapOutletTempSetPoint_ff \<Rightarrow>
                  (let EvapOutletTempSetPoint = CalcSWTSetPoint env k EvapOutletTempSetPoint_ff;
                       s4 = CalcAvailable env k (s\<lparr>chiller := c1\<rparr>) EvapOutletTempSetPoint_ff
                              EvapOutletTempSetPoint FalsiCondOutTemp
                   in if EvapMassFlowRate (chiller s4) = 0 then Inr (s4, 0)
                      else CalcLoaded env k s4 EvapOutletTempSetPoint MyLoad)))"

text \<open>
  \<^verbatim>\<open>CalcReformEIRChillerModel\<close>. \<open>MyLoad\<close> is a reference parameter: it comes in
  and goes out beside the state.
\<close>

definition CalcReformEIRChillerModel ::
  "env \<Rightarrow> ReformulatedEIRChillerSpecs \<Rightarrow> sim \<Rightarrow> Real64 \<Rightarrow> bool \<Rightarrow> bool \<Rightarrow> int \<Rightarrow> Real64 \<Rightarrow> error + (sim \<times> Real64)" where
  "CalcReformEIRChillerModel env k s MyLoad RunFlag FirstIteration EquipFlowCtrl FalsiCondOutTemp =
    (let c0 = CalcZeroOutputs (chiller s)
     in if MyLoad \<ge> 0 \<or> \<not> RunFlag
        then Inr (s\<lparr>chiller := CalcIdle env k c0 EquipFlowCtrl\<rparr>, MyLoad)
        else CalcRunning env k (s\<lparr>chiller := c0\<rparr>) MyLoad FalsiCondOutTemp)"

section \<open>The boundary validator\<close>

text \<open>
  \<^verbatim>\<open>CheckMinMaxCurveBoundaries\<close>, lines 2437--2766. The six range checks share one
  shape: the counter of the check goes up, the first violation is reported in full and
  registers the recurring message, every later one only adds to the recurring message.
\<close>

definition RangeMessages :: "diag \<Rightarrow> int \<Rightarrow> Real64 \<Rightarrow> Real64 \<Rightarrow> Real64 \<Rightarrow> message list" where
  "RangeMessages d n v lo hi =
    (if n = 1
     then [ShowWarningError d [v], ShowContinueErrorTimeStamp d [lo, hi], ShowRecurringWarningErrorAtEnd d v v]
     else [ShowRecurringWarningErrorAtEnd d v v])"

definition CheckCAPFTX :: "ReformulatedEIRChillerSpecs \<Rightarrow> sim \<Rightarrow> sim" where
  "CheckCAPFTX k s =
    (let c = chiller s
     in if EvapOutletTemp c < ChillerCAPFTXTempMin k \<or> EvapOutletTemp c > ChillerCAPFTXTempMax k
        then say (RangeMessages DiagCAPFTX (CAPFTXIter c + 1) (EvapOutletTemp c)
                    (ChillerCAPFTXTempMin k) (ChillerCAPFTXTempMax k))
               (s\<lparr>chiller := c\<lparr>CAPFTXIter := CAPFTXIter c + 1\<rparr>\<rparr>)
        else s)"

definition CheckEIRFTX :: "ReformulatedEIRChillerSpecs \<Rightarrow> sim \<Rightarrow> sim" where
  "CheckEIRFTX k s =
    (let c = chiller s
     in if EvapOutletTemp c < ChillerEIRFTXTempMin k \<or> EvapOutletTemp c > ChillerEIRFTXTempMax k
        then say (RangeMessages DiagEIRFTX (EIRFTXIter c + 1) (EvapOutletTemp c)
                    (ChillerEIRFTXTempMin k) (ChillerEIRFTXTempMax k))
               (s\<lparr>chiller := c\<lparr>EIRFTXIter := EIRFTXIter c + 1\<rparr>\<rparr>)
        else s)"

definition CheckCAPFTY :: "ReformulatedEIRChillerSpecs \<Rightarrow> sim \<Rightarrow> sim" where
  "CheckCAPFTY k s =
    (let c = chiller s
     in if CondOutletTemp c < ChillerCAPFTYTempMin k \<or> CondOutletTemp c > ChillerCAPFTYTempMax k
        then say (RangeMessages DiagCAPFTY (CAPFTYIter c + 1) (CondOutletTemp c)
                    (ChillerCAPFTYTempMin k) (ChillerCAPFTYTempMax k))
               (s\<lparr>chiller := c\<lparr>CAPFTYIter := CAPFTYIter c + 1\<rparr>\<rparr>)
        else s)"

definition CheckEIRFTY :: "ReformulatedEIRChillerSpecs \<Rightarrow> sim \<Rightarrow> sim" where
  "CheckEIRFTY k s =
    (let c = chiller s
     in if CondOutletTemp c < ChillerEIRFTYTempMin k \<or> CondOutletTemp c > ChillerEIRFTYTempMax k
        then say (RangeMessages DiagEIRFTY (EIRFTYIter c + 1) (CondOutletTemp c)
                    (ChillerEIRFTYTempMin k) (ChillerEIRFTYTempMax k))
               (s\<lparr>chiller := c\<lparr>EIRFTYIter := EIRFTYIter c + 1\<rparr>\<rparr>)
        else s)"

definition CheckEIRFPLRT :: "ReformulatedEIRChillerSpecs \<Rightarrow> sim \<Rightarrow> sim" where
  "CheckEIRFPLRT k s =
    (let c = chiller s
     in if PartLoadCurveType k = PLR_LeavingCondenserWaterTemperature
        then (if CondOutletTemp c < ChillerEIRFPLRTempMin k \<or> CondOutletTemp c > ChillerEIRFPLRTempMax k
              then say (RangeMessages DiagEIRFPLRT (EIRFPLRTIter c + 1) (CondOutletTemp c)
                          (ChillerEIRFPLRTempMin k) (ChillerEIRFPLRTempMax k))
                     (s\<lparr>chiller := c\<lparr>EIRFPLRTIter := EIRFPLRTIter c + 1\<rparr>\<rparr>)
              else s)
        else s)"

definition CheckEIRFPLRPLR :: "ReformulatedEIRChillerSpecs \<Rightarrow> sim \<Rightarrow> sim" where
  "CheckEIRFPLRPLR k s =
    (let c = chiller s
     in if ChillerPartLoadRatio c < ChillerEIRFPLRPLRMin k \<or> ChillerPartLoadRatio c > ChillerEIRFPLRPLRMax k
        then say (RangeMessages DiagEIRFPLRPLR (EIRFPLRPLRIter c + 1) (ChillerPartLoadRatio c)
                    (ChillerEIRFPLRPLRMin k) (ChillerEIRFPLRPLRMax k))
               (s\<lparr>chiller := c\<lparr>EIRFPLRPLRIter := EIRFPLRPLRIter c + 1\<rparr>\<rparr>)
        else s)"

text \<open>
  Lines 2679--2765: the three curves are evaluated again, at the condenser outlet
  temperature, stored without the clamp, and a negative output is reported.
\<close>

definition CheckCapFT :: "env \<Rightarrow> ReformulatedEIRChillerSpecs \<Rightarrow> sim \<Rightarrow> Real64 \<Rightarrow> sim" where
  "CheckCapFT env k s0 EvapOutletTempSetPoint =
    (let c0 = chiller s0;
         c = c0\<lparr>ChillerCapFT := CurveValue env (ChillerCapFTIndex k) EvapOutletTempSetPoint (CondOutletTemp c0)\<rparr>;
         s = s0\<lparr>chiller := c\<rparr>
     in if ChillerCapFT c < 0
        then (if ChillerCapFTError c < 1 \<and> FlowLock (PlantLoop env (CWLoopNum k)) \<noteq> 0 \<and> \<not> WarmupFlag env
              then say [ShowWarningError DiagCapFTNegative [],
                        ShowContinueError DiagCapFTNegative [ChillerCapFT c],
                        ShowContinueError DiagCapFTNegative [EvapOutletTempSetPoint, CondOutletTemp c],
                        ShowContinueErrorTimeStamp DiagCapFTNegative []]
                     (s\<lparr>chiller := c\<lparr>ChillerCapFTError := ChillerCapFTError c + 1\<rparr>\<rparr>)
              else if FlowLock (PlantLoop env (CWLoopNum k)) \<noteq> 0 \<and> \<not> WarmupFlag env
              then say [ShowRecurringWarningErrorAtEnd DiagCapFTNegative (ChillerCapFT c) (ChillerCapFT c)]
                     (s\<lparr>chiller := c\<lparr>ChillerCapFTError := ChillerCapFTError c + 1\<rparr>\<rparr>)
              else s)
        else s)"

definition CheckEIRFT :: "env \<Rightarrow> ReformulatedEIRChillerSpecs \<Rightarrow> sim \<Rightarrow> sim" where
  "CheckEIRFT env k s0 =
    (let c0 = chiller s0;
         c = c0\<lparr>ChillerEIRFT := CurveValue env (ChillerEIRFTIndex k) (EvapOutletTemp c0) (CondOutletTemp c0)\<rparr>;
         s = s0\<lparr>chiller := c\<rparr>
     in if ChillerEIRFT c < 0
        then (if ChillerEIRFTError c < 1 \<and> FlowLock (PlantLoop env (CWLoopNum k)) \<noteq> 0 \<and> \<not> WarmupFlag env
              then say [ShowWarningError DiagEIRFTNegative [],
                        ShowContinueError DiagEIRFTNegative [ChillerEIRFT c],
                        ShowContinueError DiagEIRFTNegative [EvapOutletTemp c, CondOutletTemp c],
                        ShowContinueErrorTimeStamp DiagEIRFTNegative []]
                     (s\<lparr>chiller := c\<lparr>ChillerEIRFTError := ChillerEIRFTError c + 1\<rparr>\<rparr>)
              else if FlowLock (PlantLoop env (CWLoopNum k)) \<noteq> 0 \<and> \<not> WarmupFlag env
              then say [ShowRecurringWarningErrorAtEnd DiagEIRFTNegative (ChillerEIRFT c) (ChillerEIRFT c)]
                     (s\<lparr>chiller := c\<lparr>ChillerEIRFTError := ChillerEIRFTError c + 1\<rparr>\<rparr>)
              else s)
        else s)"

definition CheckEIRFPLRValue :: "env \<Rightarrow> ReformulatedEIRChillerSpecs \<Rightarrow> sim \<Rightarrow> sim" where
  "CheckEIRFPLRValue env k s =
    (let c = chiller s
     in if PartLoadCurveType k = PLR_LeavingCondenserWaterTemperature
        then s\<lparr>chiller := c\<lparr>ChillerEIRFPLR :=
                 CurveValue env (ChillerEIRFPLRIndex k) (CondOutletTemp c) (ChillerPartLoadRatio c)\<rparr>\<rparr>
        else if PartLoadCurveType k = PLR_Lift
        then (let ChillerLift = CondOutletTemp c - EvapOutletTemp c;
                  ChillerTdev = \<bar>EvapOutletTemp c - TempRefEvapOut k\<bar>;
                  ChillerLiftRef = TempRefCondOut k - TempRefEvapOut k;
                  ChillerLiftRef = (if ChillerLiftRef \<le> 0 then 35 - 6.67 else ChillerLiftRef);
                  ChillerLiftNom = ChillerLift / ChillerLiftRef;
                  ChillerTdevNom = ChillerTdev / ChillerLiftRef
              in (dividing [(TempDifference, ChillerLiftRef), (TempDifference, ChillerLiftRef)] s)
                   \<lparr>chiller := c\<lparr>ChillerEIRFPLR :=
                      CurveValue3 env (ChillerEIRFPLRIndex k) ChillerLiftNom (ChillerPartLoadRatio c) ChillerTdevNom\<rparr>\<rparr>)
        else s)"

definition CheckEIRFPLR :: "env \<Rightarrow> ReformulatedEIRChillerSpecs \<Rightarrow> sim \<Rightarrow> sim" where
  "CheckEIRFPLR env k s0 =
    (let s = CheckEIRFPLRValue env k s0;
         c = chiller s
     in if ChillerEIRFPLR c < 0
        then (if ChillerEIRFPLRError c < 1 \<and> FlowLock (PlantLoop env (CWLoopNum k)) \<noteq> 0 \<and> \<not> WarmupFlag env
              then say [ShowWarningError DiagEIRFPLRNegative [],
                        ShowContinueError DiagEIRFPLRNegative [ChillerEIRFPLR c],
                        ShowContinueError DiagEIRFPLRNegative [ChillerPartLoadRatio c, CondOutletTemp c],
                        ShowContinueErrorTimeStamp DiagEIRFPLRNegative []]
                     (s\<lparr>chiller := c\<lparr>ChillerEIRFPLRError := ChillerEIRFPLRError c + 1\<rparr>\<rparr>)
              else if FlowLock (PlantLoop env (CWLoopNum k)) \<noteq> 0 \<and> \<not> WarmupFlag env
              then say [ShowRecurringWarningErrorAtEnd DiagEIRFPLRNegative (ChillerEIRFPLR c) (ChillerEIRFPLR c)]
                     (s\<lparr>chiller := c\<lparr>ChillerEIRFPLRError := ChillerEIRFPLRError c + 1\<rparr>\<rparr>)
              else s)
        else s)"

definition CheckRanges :: "ReformulatedEIRChillerSpecs \<Rightarrow> sim \<Rightarrow> sim" where
  "CheckRanges k s =
    CheckEIRFPLRPLR k (CheckEIRFPLRT k (CheckEIRFTY k (CheckCAPFTY k (CheckEIRFTX k (CheckCAPFTX k s)))))"

definition CheckMinMaxCurveBoundaries :: "env \<Rightarrow> ReformulatedEIRChillerSpecs \<Rightarrow> sim \<Rightarrow> bool \<Rightarrow> error + sim" where
  "CheckMinMaxCurveBoundaries env k s FirstIteration =
    (if FirstIteration \<or> WarmupFlag env \<or> FlowLock (PlantLoop env (CWLoopNum k)) = 0
     then Inr s
     else (let s1 = CheckRanges k s
           in case PlantSetPoint env k of
                Inl e \<Rightarrow> Inl e
              | Inr EvapOutletTempSetPoint \<Rightarrow>
                  Inr (CheckEIRFPLR env k (CheckEIRFT env k (CheckCapFT env k s1 EvapOutletTempSetPoint)))))"

section \<open>The condenser-temperature solver\<close>

text \<open>
  What the solver does is observed through a trace: every call of the evaluator with
  the condenser temperature it is given, and every call of the root finder with its
  accuracy, iteration limit and bounds. The trace is kept beside the state.
\<close>

datatype call = CalcCall Real64 | SolveRootCall Real64 nat Real64 Real64

type_synonym traced = "sim \<times> call list"

definition CalcTraced ::
  "env \<Rightarrow> ReformulatedEIRChillerSpecs \<Rightarrow> traced \<Rightarrow> Real64 \<Rightarrow> bool \<Rightarrow> bool \<Rightarrow> int \<Rightarrow> Real64 \<Rightarrow> error + (traced \<times> Real64)" where
  "CalcTraced env k st MyLoad RunFlag FirstIteration EquipFlowCtrl FalsiCondOutTemp =
    (case CalcReformEIRChillerModel env k (fst st) MyLoad RunFlag FirstIteration EquipFlowCtrl FalsiCondOutTemp of
       Inl e \<Rightarrow> Inl e
     | Inr (s, MyLoad') \<Rightarrow> Inr ((s, snd st @ [CalcCall FalsiCondOutTemp]), MyLoad'))"

text \<open>
  \<^verbatim>\<open>CondOutTempResidual\<close>, lines 1887--1915. The parameters travel in an array of
  \<^verbatim>\<open>Real64\<close>; \<open>Par2\<close> is the load, \<open>Par3\<close> the run flag, \<open>Par4\<close> the
  first-iteration flag, \<open>Par6\<close> the flow control mode. \<open>trunc\<close> is the conversion
  \<^verbatim>\<open>int(x)\<close>. The source reads the flow control mode into a \<^verbatim>\<open>bool\<close> and hands
  that to the evaluator, which therefore sees 1 for every mode other than 0. The load
  is a local copy: what the evaluator does to it is dropped.
\<close>

record Par =
  Par2 :: Real64
  Par3 :: Real64
  Par4 :: Real64
  Par6 :: Real64

definition trunc :: "Real64 \<Rightarrow> int" where
  "trunc x = (if x \<ge> 0 then \<lfloor>x\<rfloor> else \<lceil>x\<rceil>)"

definition CondOutTempResidual :: "env \<Rightarrow> ReformulatedEIRChillerSpecs \<Rightarrow> Par \<Rightarrow> Real64 \<Rightarrow> traced \<Rightarrow> error + (Real64 \<times> traced)" where
  "CondOutTempResidual env k P FalsiCondOutTemp st =
    (let MyLoad = Par2 P;
         RunFlag = (trunc (Par3 P) = 1);
         FirstIteration = (trunc (Par4 P) = 1);
         EquipFlowCtrl = (trunc (Par6 P) \<noteq> 0)
     in case CalcTraced env k st MyLoad RunFlag FirstIteration (if EquipFlowCtrl then 1 else 0) FalsiCondOutTemp of
          Inl e \<Rightarrow> Inl e
        | Inr (st', MyLoad') \<Rightarrow> Inr (FalsiCondOutTemp - CondOutletTemp (chiller (fst st')), st'))"

text \<open>
  Modelled from the spec: \<^verbatim>\<open>General::SolveRoot\<close> is not among the sources. The spec
  has it as a generic bracketed solver that is given a residual function and an
  interval and returns a value with a status (converged, iteration limit, no root in
  the bracket). Here the policy of the environment chooses the points; the residual is
  evaluated at each, in the state the evaluation before left; after the two bounds and
  the iterations the limit allows, the run ends with the flag -1 of the iteration limit.
\<close>

fun SolveRootRun ::
  "nat \<Rightarrow> ((Real64 \<times> Real64) list \<Rightarrow> solver_step) \<Rightarrow> (Real64 \<Rightarrow> 'st \<Rightarrow> error + (Real64 \<times> 'st))
    \<Rightarrow> (Real64 \<times> Real64) list \<Rightarrow> 'st \<Rightarrow> error + (int \<times> Real64 \<times> 'st)" where
  "SolveRootRun 0 policy f seen st = Inr (- 1, (case seen of [] \<Rightarrow> 0 | _ \<Rightarrow> fst (last seen)), st)"
| "SolveRootRun (Suc n) policy f seen st =
    (case policy seen of
       Stop Flag XRes \<Rightarrow> Inr (Flag, XRes, st)
     | Probe X \<Rightarrow>
         (case f X st of
            Inl e \<Rightarrow> Inl e
          | Inr (Y, st') \<Rightarrow> SolveRootRun n policy f (seen @ [(X, Y)]) st'))"

definition SolveRoot ::
  "env \<Rightarrow> Real64 \<Rightarrow> nat \<Rightarrow> (Real64 \<Rightarrow> 'st \<Rightarrow> error + (Real64 \<times> 'st)) \<Rightarrow> Real64 \<Rightarrow> Real64 \<Rightarrow> 'st
    \<Rightarrow> error + (int \<times> Real64 \<times> 'st)" where
  "SolveRoot env Epsilon MaxIte f X_0 X_1 st =
    SolveRootRun (MaxIte + 3) (SolveRootPolicy env Epsilon MaxIte X_0 X_1) f [] st"

text \<open>Lines 1620--1650: the condenser temperatures that the curves allow.\<close>

definition CondTempMinAllowed :: "ReformulatedEIRChillerSpecs \<Rightarrow> Real64" where
  "CondTempMinAllowed k =
    (if PartLoadCurveType k = PLR_LeavingCondenserWaterTemperature
     then min (ChillerCAPFTYTempMin k) (min (ChillerEIRFTYTempMin k) (ChillerEIRFPLRTempMin k))
     else if PartLoadCurveType k = PLR_Lift
     then min (ChillerCAPFTYTempMin k) (ChillerEIRFTYTempMin k)
     else - 99)"

definition CondTempMaxAllowed :: "ReformulatedEIRChillerSpecs \<Rightarrow> Real64" where
  "CondTempMaxAllowed k =
    (if PartLoadCurveType k = PLR_LeavingCondenserWaterTemperature
     then max (ChillerCAPFTYTempMax k) (max (ChillerEIRFTYTempMax k) (ChillerEIRFPLRTempMax k))
     else if PartLoadCurveType k = PLR_Lift
     then max (ChillerCAPFTYTempMax k) (ChillerEIRFTYTempMax k)
     else - 99)"

text \<open>Lines 1686--1717: the two warnings after the root finder.\<close>

definition WarnIterLimit :: "env \<Rightarrow> sim \<Rightarrow> sim" where
  "WarnIterLimit env s =
    (let c = chiller s
     in if \<not> WarmupFlag env
        then say (if IterLimitExceededNum c + 1 = 1
                  then [ShowWarningError DiagIterLimit []]
                  else [ShowRecurringWarningErrorAtEnd DiagIterLimit (CondOutletTemp c) (CondOutletTemp c)])
               (s\<lparr>chiller := c\<lparr>IterLimitExceededNum := IterLimitExceededNum c + 1\<rparr>\<rparr>)
        else s)"

definition WarnIterFailed :: "env \<Rightarrow> sim \<Rightarrow> sim" where
  "WarnIterFailed env s =
    (let c = chiller s
     in if \<not> WarmupFlag env
        then say (if IterFailed c + 1 = 1
                  then [ShowWarningError DiagIterFailed [], ShowContinueError DiagIterFailed []]
                  else [ShowRecurringWarningErrorAtEnd DiagIterFailed (CondOutletTemp c) (CondOutletTemp c)])
               (s\<lparr>chiller := c\<lparr>IterFailed := IterFailed c + 1\<rparr>\<rparr>)
        else s)"

text \<open>Lines 1662--1720: the root finder and what follows from its flag.\<close>

definition ControlSolve ::
  "env \<Rightarrow> ReformulatedEIRChillerSpecs \<Rightarrow> traced \<Rightarrow> Real64 \<Rightarrow> bool \<Rightarrow> bool \<Rightarrow> int \<Rightarrow> Real64 \<Rightarrow> Real64 \<Rightarrow> error + (traced \<times> Real64)" where
  "ControlSolve env k st MyLoad RunFlag FirstIteration EquipFlowCtrl Tmin Tmax =
    (let Acc = 0.0001;
         MaxIter = 500;
         P = \<lparr>Par2 = MyLoad, Par3 = (if RunFlag then 1 else 0), Par4 = (if FirstIteration then 1 else 0),
              Par6 = real_of_int EquipFlowCtrl\<rparr>
     in case SolveRoot env Acc MaxIter (CondOutTempResidual env k P) Tmin Tmax
               (fst st, snd st @ [SolveRootCall Acc MaxIter Tmin Tmax]) of
          Inl e \<Rightarrow> Inl e
        | Inr (SolFla, FalsiCondOutTemp, st1) \<Rightarrow>
            if SolFla = - 1 then Inr ((WarnIterLimit env (fst st1), snd st1), MyLoad)
            else if SolFla = - 2
            then CalcTraced env k (WarnIterFailed env (fst st1), snd st1) MyLoad RunFlag FirstIteration EquipFlowCtrl
                   (Temp (Node env (CondInletNodeNum k)))
            else Inr (st1, MyLoad))"

text \<open>Lines 1721--1725: no iteration is possible.\<close>

definition ControlAverage ::
  "env \<Rightarrow> ReformulatedEIRChillerSpecs \<Rightarrow> traced \<Rightarrow> Real64 \<Rightarrow> bool \<Rightarrow> bool \<Rightarrow> int \<Rightarrow> Real64 \<Rightarrow> Real64 \<Rightarrow> error + (traced \<times> Real64)" where
  "ControlAverage env k st MyLoad RunFlag FirstIteration EquipFlowCtrl CondTempMin CondTempMax =
    (case CalcTraced env k st MyLoad RunFlag FirstIteration EquipFlowCtrl ((CondTempMin + CondTempMax) / 2) of
       Inl e \<Rightarrow> Inl e
     | Inr (st1, MyLoad1) \<Rightarrow>
         CalcTraced env k st1 MyLoad1 RunFlag FirstIteration EquipFlowCtrl (CondOutletTemp (chiller (fst st1))))"

text \<open>\<^verbatim>\<open>ControlReformEIRChillerModel\<close>, lines 1586--1730.\<close>

definition ControlReformEIRChillerModel ::
  "env \<Rightarrow> ReformulatedEIRChillerSpecs \<Rightarrow> traced \<Rightarrow> Real64 \<Rightarrow> bool \<Rightarrow> bool \<Rightarrow> int \<Rightarrow> error + (traced \<times> Real64)" where
  "ControlReformEIRChillerModel env k st MyLoad RunFlag FirstIteration EquipFlowCtrl =
    (if MyLoad \<ge> 0 \<or> \<not> RunFlag
     then CalcTraced env k st MyLoad RunFlag FirstIteration EquipFlowCtrl
            (Temp (Node env (CondInletNodeNum k)))
     else (let Tmin = CondTempMinAllowed k;
               Tmax = CondTempMaxAllowed k
           in case CalcTraced env k st MyLoad RunFlag FirstIteration EquipFlowCtrl Tmin of
                Inl e \<Rightarrow> Inl e
              | Inr (st1, MyLoad1) \<Rightarrow>
                  (let CondTempMin = CondOutletTemp (chiller (fst st1))
                   in case CalcTraced env k st1 MyLoad1 RunFlag FirstIteration EquipFlowCtrl Tmax of
                        Inl e \<Rightarrow> Inl e
                      | Inr (st2, MyLoad2) \<Rightarrow>
                          (let CondTempMax = CondOutletTemp (chiller (fst st2))
                           in case (if CondTempMin > Tmin \<and> CondTempMax < Tmax
                                    then ControlSolve env k st2 MyLoad2 RunFlag FirstIteration EquipFlowCtrl Tmin Tmax
                                    else ControlAverage env k st2 MyLoad2 RunFlag FirstIteration EquipFlowCtrl
                                           CondTempMin CondTempMax) of
                                Inl e \<Rightarrow> Inl e
                              | Inr (st3, MyLoad3) \<Rightarrow>
                                  (case CheckMinMaxCurveBoundaries env k (fst st3) FirstIteration of
                                     Inl e \<Rightarrow> Inl e
                                   | Inr s4 \<Rightarrow> Inr ((s4, snd st3), MyLoad3))))))"

section \<open>A concrete plant\<close>

text \<open>
  One chiller on a small plant, for evaluating the model: a capacity of 100 kW at a COP
  of 5, 12 C entering the evaporator at 5 kg/s with a setpoint of 7 C, 30 C entering
  the condenser at 8 kg/s, water of 4000 J/(kg K). The energy-input curve of the
  temperatures (curve 2) is the condenser temperature over 25, curve 4 is -1 everywhere,
  every other curve is constant 1. The
  argument of \<open>demo_env\<close> is the flow lock of the loops. Under a lock the flow resolver
  returns the flow of the inlet node, otherwise it grants the request. The root-finder
  policy probes the two bounds, stops with -2 when the residuals have one sign, and
  otherwise takes one false-position step.
\<close>

definition demo_chiller :: ReformulatedEIRChillerSpecs where
  "demo_chiller =
    \<lparr>CondenserType = WaterCooled, FlowMode = ConstantFlow,
     PartLoadCurveType = PLR_LeavingCondenserWaterTemperature,
     RefCap = 100000, RefCOP = 5, TempRefEvapOut = 7, TempRefCondOut = 35,
     MinPartLoadRat = 0.1, MaxPartLoadRat = 1, MinUnloadRat = 0.2, TempLowLimitEvapOut = 2,
     EvapMassFlowRateMax = 5, CondMassFlowRateMax = 8, CompPowerToCondenserFrac = 1,
     ChillerCapFTIndex = 1, ChillerEIRFTIndex = 2, ChillerEIRFPLRIndex = 3,
     ChillerCAPFTXTempMin = 5, ChillerCAPFTXTempMax = 10,
     ChillerCAPFTYTempMin = 10, ChillerCAPFTYTempMax = 40,
     ChillerEIRFTXTempMin = 5, ChillerEIRFTXTempMax = 10,
     ChillerEIRFTYTempMin = 10, ChillerEIRFTYTempMax = 40,
     ChillerEIRFPLRTempMin = 10, ChillerEIRFPLRTempMax = 40,
     ChillerEIRFPLRPLRMin = 0.1, ChillerEIRFPLRPLRMax = 1,
     CWLoopNum = 1, CDLoopNum = 2, HRLoopNum = 3,
     EvapInletNodeNum = 1, EvapOutletNodeNum = 2, CondInletNodeNum = 3, CondOutletNodeNum = 4,
     HeatRecActive = False, HeatRecInletNodeNum = 5, HeatRecSetPointNodeNum = 0,
     HeatRecInletLimitSchedNum = 0, HeatRecCapacityFraction = 1, HeatRecMaxCapacityLimit = 120000,
     FaultyChillerFoulingFlag = False, FaultyChillerFoulingIndex = 0,
     FaultyChillerSWTFlag = False, FaultyChillerSWTIndex = 0\<rparr>"

definition demo_state :: ChillerState where
  "demo_state =
    \<lparr>FaultyChillerFoulingFactor = 1, FaultyChillerSWTOffset = 0,
     PossibleSubcooling = False,
     EvapMassFlowRate = 0, CondMassFlowRate = 0, EvapOutletTemp = 0, CondOutletTemp = 0,
     HeatRecOutletTemp = 0, ChillerCondAvgTemp = 0,
     ChillerPartLoadRatio = 0, ChillerCyclingRatio = 0, ChillerFalseLoadRate = 0,
     Power = 0, QEvaporator = 0, QCondenser = 0, QHeatRecovery = 0,
     ChillerCapFT = 0, ChillerEIRFT = 0, ChillerEIRFPLR = 0,
     DeltaTErrCount = 0, ChillerCapFTError = 0, ChillerEIRFTError = 0, ChillerEIRFPLRError = 0,
     IterLimitExceededNum = 0, IterFailed = 0,
     CAPFTXIter = 0, EIRFTXIter = 0, CAPFTYIter = 0, EIRFTYIter = 0, EIRFPLRTIter = 0,
     EIRFPLRPLRIter = 0\<rparr>"

definition demo_Node :: "int \<Rightarrow> NodeData" where
  "demo_Node n =
    (if n = 1 then \<lparr>Temp = 12, MassFlowRate = 5, MassFlowRateMaxAvail = 5, TempSetPoint = 7, TempSetPointHi = 7, TempMin = 0\<rparr>
     else if n = 2 then \<lparr>Temp = 7, MassFlowRate = 5, MassFlowRateMaxAvail = 5, TempSetPoint = 7, TempSetPointHi = 7, TempMin = 0\<rparr>
     else if n = 3 then \<lparr>Temp = 30, MassFlowRate = 8, MassFlowRateMaxAvail = 8, TempSetPoint = 0, TempSetPointHi = 0, TempMin = 0\<rparr>
     else if n = 5 then \<lparr>Temp = 20, MassFlowRate = 1, MassFlowRateMaxAvail = 1, TempSetPoint = 45, TempSetPointHi = 45, TempMin = 0\<rparr>
     else \<lparr>Temp = 0, MassFlowRate = 0, MassFlowRateMaxAvail = 0, TempSetPoint = 45, TempSetPointHi = 45, TempMin = 0\<rparr>)"

definition demo_PlantLoop :: "int \<Rightarrow> int \<Rightarrow> PlantLoopData" where
  "demo_PlantLoop lock n =
    \<lparr>LoopDemandCalcScheme = SingleSetPoint, FlowLock = lock, CurOpSchemeType = 0, FlowCtrl = 0,
     TempSetPointNodeNum = 2\<rparr>"

definition demo_policy :: root_policy where
  "demo_policy eps maxite x0 x1 seen =
    (case seen of
       [] \<Rightarrow> Probe x0
     | [p] \<Rightarrow> Probe x1
     | [(a, ya), (b, yb)] \<Rightarrow> if ya * yb > 0 then Stop (- 2) x0 else Probe ((ya * b - yb * a) / (ya - yb))
     | _ \<Rightarrow> (if \<bar>snd (last seen)\<bar> < eps then Stop (int (length seen) - 2) (fst (last seen))
              else Stop (- 1) (fst (last seen))))"

definition demo_env :: "int \<Rightarrow> env" where
  "demo_env lock =
    \<lparr>Node = demo_Node, PlantLoop = demo_PlantLoop lock,
     WarmupFlag = False, DoingSizing = False, KickOffSimulation = False,
     MassFlowTolerance = 1 / 1000000000, DeltaTempTol = 1 / 10000, SmallLoad = 1,
     SensedNodeFlagValue = - 999, ControlType_SeriesActive = 3, CompSetPtBasedSchemeType = 2,
     CurveValue = (\<lambda>i x y. if i = 2 then y / 25 else if i = 4 then - 1 else 1), CurveValue3 = (\<lambda>i x y z. 1),
     GetSpecificHeatGlycol = (\<lambda>l T. 4000), GetCurrentScheduleValue = (\<lambda>i. 0),
     SetComponentFlowRate = (\<lambda>req inlet outlet l. if lock = 0 then req else MassFlowRate (demo_Node inlet)),
     CalFoulingFactor = (\<lambda>i. 1), CalFaultOffsetAct = (\<lambda>i. 0),
     CalFaultChillerSWT = (\<lambda>i v off cp tin tout m q. (tout, m, q)),
     SolveRootPolicy = demo_policy\<rparr>"

definition demo_sim :: sim where
  "demo_sim = \<lparr>chiller = demo_state, messages = [], denominators = []\<rparr>"

text \<open>
  The same chiller with heat recovery: the bundle is active, blends the temperatures
  (no setpoint node), has no inlet limit, and takes water of 20 C at 1 kg/s.
\<close>

definition demo_hr_config :: ReformulatedEIRChillerSpecs where
  "demo_hr_config = demo_chiller\<lparr>HeatRecActive := True\<rparr>"

definition demo_hr_chiller :: ReformulatedEIRChillerSpecs where
  "demo_hr_chiller = InitHeatRecMaxCapacityLimit demo_hr_config"



definition demo_dry_chiller :: ReformulatedEIRChillerSpecs where
  "demo_dry_chiller = demo_chiller\<lparr>CondMassFlowRateMax := 0\<rparr>"

definition demo_tol_chiller :: ReformulatedEIRChillerSpecs where
  "demo_tol_chiller = demo_chiller\<lparr>CondMassFlowRateMax := 1 / 1000000000\<rparr>"

definition demo_narrow_chiller :: ReformulatedEIRChillerSpecs where
  "demo_narrow_chiller =
    demo_chiller\<lparr>ChillerCAPFTYTempMax := 30, ChillerEIRFTYTempMax := 30, ChillerEIRFPLRTempMax := 30\<rparr>"

text \<open>Lines 1797--1799: the inlet limit of the heat recovery is present and exceeded.\<close>

definition HeatRecShutDown :: "env \<Rightarrow> ReformulatedEIRChillerSpecs \<Rightarrow> bool" where
  "HeatRecShutDown env k =
    (HeatRecInletLimitSchedNum k > 0 \<and>
     Temp (Node env (HeatRecInletNodeNum k)) > GetCurrentScheduleValue env (HeatRecInletLimitSchedNum k))"

text \<open>
  The flows that the plant grants: to the condenser asking for its design flow (lines
  2029--2036), and to the evaporator under a flow lock (lines 2270--2277).
\<close>

definition CondenserFlowGranted :: "env \<Rightarrow> ReformulatedEIRChillerSpecs \<Rightarrow> Real64" where
  "CondenserFlowGranted env k =
    SetComponentFlowRate env (CondMassFlowRateMax k) (CondInletNodeNum k) (CondOutletNodeNum k) (CDLoopNum k)"

definition EvaporatorFlowLocked :: "env \<Rightarrow> ReformulatedEIRChillerSpecs \<Rightarrow> Real64" where
  "EvaporatorFlowLocked env k =
    SetComponentFlowRate env (MassFlowRate (Node env (EvapInletNodeNum k)))
      (EvapInletNodeNum k) (EvapOutletNodeNum k) (CWLoopNum k)"

text \<open>
  Stations of one evaluation of a running chiller, as functions of what goes in: the
  state when the evaporator flow of the node is checked (line 2113), the available
  capacity, the load capped by the water-side load (line 2137), and the state at the
  branch on the flow lock (line 2153). \<open>sp_ff\<close> is the setpoint of the plant.
\<close>

definition StateAtFlowCheck :: "env \<Rightarrow> ReformulatedEIRChillerSpecs \<Rightarrow> sim \<Rightarrow> Real64 \<Rightarrow> Real64 \<Rightarrow> sim" where
  "StateAtFlowCheck env k s sp_ff FalsiCondOutTemp =
    CalcAvailable env k
      (s\<lparr>chiller := CalcCondenserFlow env k (CalcFouling env k (CalcZeroOutputs (chiller s)))\<rparr>)
      sp_ff (CalcSWTSetPoint env k sp_ff) FalsiCondOutTemp"

definition AvailCapAt :: "env \<Rightarrow> ReformulatedEIRChillerSpecs \<Rightarrow> sim \<Rightarrow> Real64 \<Rightarrow> Real64 \<Rightarrow> Real64" where
  "AvailCapAt env k s sp_ff FalsiCondOutTemp =
    AvailChillerCap env k (chiller (StateAtFlowCheck env k s sp_ff FalsiCondOutTemp))"

definition LoadCapped :: "env \<Rightarrow> ReformulatedEIRChillerSpecs \<Rightarrow> Real64 \<Rightarrow> Real64 \<Rightarrow> Real64" where
  "LoadCapped env k sp_ff MyLoad = CalcLoad env k (CalcSWTSetPoint env k sp_ff) (EvapCp env k) MyLoad"

definition StateAtLockBranch :: "env \<Rightarrow> ReformulatedEIRChillerSpecs \<Rightarrow> sim \<Rightarrow> Real64 \<Rightarrow> Real64 \<Rightarrow> Real64 \<Rightarrow> sim" where
  "StateAtLockBranch env k s sp_ff FalsiCondOutTemp MyLoad =
    CalcEvaporatorLoad env k (StateAtFlowCheck env k s sp_ff FalsiCondOutTemp)
      (AvailCapAt env k s sp_ff FalsiCondOutTemp) (LoadCapped env k sp_ff MyLoad)"

text \<open>
  Fields that no block between the zeroing of the outputs (line 1967) and the cycling
  ratio (line 2366) assigns, and the condenser flow with them once it is granted.
\<close>

definition LaterOutputs :: "ChillerState \<Rightarrow> Real64 \<times> Real64 \<times> Real64 \<times> Real64 \<times> Real64 \<times> Real64 \<times> Real64" where
  "LaterOutputs c =
    (ChillerFalseLoadRate c, Power c, QCondenser c, ChillerEIRFT c, ChillerEIRFPLR c, CondOutletTemp c,
     HeatRecOutletTemp c)"

text \<open>
  The state in which the flow-locked branch computes the cycling ratio (line 2359), the
  evaporator having flow.
\<close>

definition StateAtCycling :: "env \<Rightarrow> ReformulatedEIRChillerSpecs \<Rightarrow> sim \<Rightarrow> Real64 \<Rightarrow> Real64 \<Rightarrow> Real64 \<Rightarrow> sim" where
  "StateAtCycling env k s sp_ff FalsiCondOutTemp MyLoad =
    CalcLockedClamps env k
      ((StateAtLockBranch env k s sp_ff FalsiCondOutTemp MyLoad)
         \<lparr>chiller := CalcLockedFlow env k (chiller (StateAtLockBranch env k s sp_ff FalsiCondOutTemp MyLoad))\<rparr>)
      (EvapCp env k) (CalcSWTSetPoint env k sp_ff) (AvailCapAt env k s sp_ff FalsiCondOutTemp)
      (LoadCapped env k sp_ff MyLoad)"

text \<open>
  The heat balance of the condenser side: what leaves through the condenser and the
  heat-recovery bundle is at least what the evaporator takes up and the false load adds,
  and only a chiller with heat recovery recovers heat.
\<close>

definition HeatBalanced :: "ReformulatedEIRChillerSpecs \<Rightarrow> ChillerState \<Rightarrow> bool" where
  "HeatBalanced k c \<longleftrightarrow>
    QEvaporator c + ChillerFalseLoadRate c \<le> QCondenser c + QHeatRecovery c \<and> (HeatRecActive k \<or> QHeatRecovery c = 0)"

text \<open>
  The state in which one evaluation of the chiller with heat recovery (a load of
  -60 kW, curves read at 25 C, flow not locked) leaves the chiller.
\<close>

definition demo_hr_sim :: sim where
  "demo_hr_sim =
    demo_sim\<lparr>chiller := demo_state
      \<lparr>PossibleSubcooling := True, EvapMassFlowRate := 5, CondMassFlowRate := 8, EvapOutletTemp := 9,
        CondOutletTemp := 280 / 9, HeatRecOutletTemp := 280 / 9, ChillerCondAvgTemp := 25,
        ChillerPartLoadRatio := 3 / 5, Power := 20000, QEvaporator := 60000, QCondenser := 320000 / 9,
        QHeatRecovery := 400000 / 9, ChillerCapFT := 1, ChillerEIRFT := 1, ChillerEIRFPLR := 1\<rparr>\<rparr>"

text \<open>No division that the log of the state records was made with a denominator of zero.\<close>

definition NonzeroDenominators :: "sim \<Rightarrow> bool" where
  "NonzeroDenominators s = list_all (\<lambda>d. snd d \<noteq> 0) (denominators s)"

text \<open>
  An evaluation with this load and run flag cannot end in the return of line 2279 (flow
  locked, none granted to the evaporator): the chiller is idle, or the condenser is
  granted less than the tolerance (the return of line 2047 comes first), or the flow is
  not locked, or the evaporator is granted a flow.
\<close>

definition NoLockedReturn :: "env \<Rightarrow> ReformulatedEIRChillerSpecs \<Rightarrow> Real64 \<Rightarrow> bool \<Rightarrow> bool" where
  "NoLockedReturn env k MyLoad RunFlag \<longleftrightarrow>
    MyLoad \<ge> 0 \<or> \<not> RunFlag
    \<or> (CondenserType k = WaterCooled \<and> CondenserFlowGranted env k < MassFlowTolerance env)
    \<or> FlowLock (PlantLoop env (CWLoopNum k)) = 0 \<or> EvaporatorFlowLocked env k \<noteq> 0"






section \<open>Evaluating the concrete plant\<close>

lemmas consts_defs = WaterCooled_def ConstantFlow_def NotModulated_def LeavingSetPointModulated_def
  PLR_LeavingCondenserWaterTemperature_def PLR_Lift_def

lemmas calc_defs = CalcReformEIRChillerModel_def CalcRunning_def CalcZeroOutputs_def CalcIdle_def
  CalcFouling_def CalcCondenserFlow_def PlantSetPoint_def CalcSWTSetPoint_def CalcSWTOffset_def
  CalcCondAvgTemp_def CalcCapacity_def AvailChillerCap_def ChillerRefCap_def ReferenceCOP_def EvapCp_def
  CalcLoad_def CalcPartLoadRat_def CalcLoaded_def CalcEvaporatorLoad_def CalcAvailable_def CalcUnlocked_def CalcUnlockedFlow_def CalcUnlockedSWT_def
  CalcLocked_def CalcLockedFlow_def CalcLockedClamps_def CalcLockedLoad_def CalcLowLimit_def CalcLimitLoad_def
  CalcLockedSWT_def CalcCycling_def OperatingPartLoadRat_def CalcEnergyBalance_def CalcEIRFT_def CalcEIRFPLR_def
  CalcPower_def CalcCondenser_def FaultsRun_def sign_def say_def dividing_def

lemma demo_chiller_fields [simp]:
  "CondenserType demo_chiller = 2" "FlowMode demo_chiller = 201" "PartLoadCurveType demo_chiller = 1"
  "RefCap demo_chiller = 100000" "RefCOP demo_chiller = 5" "TempRefEvapOut demo_chiller = 7"
  "TempRefCondOut demo_chiller = 35" "MinPartLoadRat demo_chiller = 1 / 10" "MaxPartLoadRat demo_chiller = 1"
  "MinUnloadRat demo_chiller = 1 / 5" "TempLowLimitEvapOut demo_chiller = 2" "EvapMassFlowRateMax demo_chiller = 5"
  "CondMassFlowRateMax demo_chiller = 8" "CompPowerToCondenserFrac demo_chiller = 1"
  "ChillerCapFTIndex demo_chiller = 1" "ChillerEIRFTIndex demo_chiller = 2" "ChillerEIRFPLRIndex demo_chiller = 3"
  "ChillerCAPFTXTempMin demo_chiller = 5" "ChillerCAPFTXTempMax demo_chiller = 10"
  "ChillerCAPFTYTempMin demo_chiller = 10" "ChillerCAPFTYTempMax demo_chiller = 40"
  "ChillerEIRFTXTempMin demo_chiller = 5" "ChillerEIRFTXTempMax demo_chiller = 10"
  "ChillerEIRFTYTempMin demo_chiller = 10" "ChillerEIRFTYTempMax demo_chiller = 40"
  "ChillerEIRFPLRTempMin demo_chiller = 10" "ChillerEIRFPLRTempMax demo_chiller = 40"
  "ChillerEIRFPLRPLRMin demo_chiller = 1 / 10" "ChillerEIRFPLRPLRMax demo_chiller = 1"
  "CWLoopNum demo_chiller = 1" "CDLoopNum demo_chiller = 2" "HRLoopNum demo_chiller = 3"
  "EvapInletNodeNum demo_chiller = 1" "EvapOutletNodeNum demo_chiller = 2"
  "CondInletNodeNum demo_chiller = 3" "CondOutletNodeNum demo_chiller = 4"
  "HeatRecActive demo_chiller = False" "HeatRecInletNodeNum demo_chiller = 5"
  "HeatRecSetPointNodeNum demo_chiller = 0" "HeatRecInletLimitSchedNum demo_chiller = 0"
  "HeatRecCapacityFraction demo_chiller = 1" "HeatRecMaxCapacityLimit demo_chiller = 120000"
  "FaultyChillerFoulingFlag demo_chiller = False" "FaultyChillerSWTFlag demo_chiller = False"
  by (simp_all add: demo_chiller_def consts_defs)

lemma demo_state_fields [simp]:
  "PossibleSubcooling demo_state = False"
  "EvapMassFlowRate demo_state = 0" "CondMassFlowRate demo_state = 0" "EvapOutletTemp demo_state = 0"
  "CondOutletTemp demo_state = 0" "HeatRecOutletTemp demo_state = 0" "ChillerCondAvgTemp demo_state = 0"
  "QCondenser demo_state = 0" "QHeatRecovery demo_state = 0" "QEvaporator demo_state = 0"
  "DeltaTErrCount demo_state = 0" "ChillerCapFTError demo_state = 0" "ChillerEIRFTError demo_state = 0"
  "ChillerEIRFPLRError demo_state = 0" "IterLimitExceededNum demo_state = 0" "IterFailed demo_state = 0"
  "CAPFTXIter demo_state = 0" "EIRFTXIter demo_state = 0" "CAPFTYIter demo_state = 0" "EIRFTYIter demo_state = 0"
  "EIRFPLRTIter demo_state = 0" "EIRFPLRPLRIter demo_state = 0"
  by (simp_all add: demo_state_def)

lemma demo_env_fields [simp]:
  "Node (demo_env lock) = demo_Node" "PlantLoop (demo_env lock) = demo_PlantLoop lock"
  "WarmupFlag (demo_env lock) = False" "DoingSizing (demo_env lock) = False" "KickOffSimulation (demo_env lock) = False"
  "MassFlowTolerance (demo_env lock) = 1 / 1000000000" "DeltaTempTol (demo_env lock) = 1 / 10000"
  "SmallLoad (demo_env lock) = 1" "SensedNodeFlagValue (demo_env lock) = - 999"
  "ControlType_SeriesActive (demo_env lock) = 3" "CompSetPtBasedSchemeType (demo_env lock) = 2"
  "CurveValue (demo_env lock) = (\<lambda>i x y. if i = 2 then y / 25 else if i = 4 then - 1 else 1)" "CurveValue3 (demo_env lock) = (\<lambda>i x y z. 1)"
  "GetSpecificHeatGlycol (demo_env lock) = (\<lambda>l T. 4000)" "GetCurrentScheduleValue (demo_env lock) = (\<lambda>i. 0)"
  "SetComponentFlowRate (demo_env lock) = (\<lambda>req inlet outlet l. if lock = 0 then req else MassFlowRate (demo_Node inlet))"
  "CalFoulingFactor (demo_env lock) = (\<lambda>i. 1)" "CalFaultOffsetAct (demo_env lock) = (\<lambda>i. 0)"
  "SolveRootPolicy (demo_env lock) = demo_policy"
  by (simp_all add: demo_env_def)

lemma demo_plant_fields [simp]:
  "demo_Node 1 = \<lparr>Temp = 12, MassFlowRate = 5, MassFlowRateMaxAvail = 5, TempSetPoint = 7, TempSetPointHi = 7, TempMin = 0\<rparr>"
  "demo_Node 2 = \<lparr>Temp = 7, MassFlowRate = 5, MassFlowRateMaxAvail = 5, TempSetPoint = 7, TempSetPointHi = 7, TempMin = 0\<rparr>"
  "demo_Node 3 = \<lparr>Temp = 30, MassFlowRate = 8, MassFlowRateMaxAvail = 8, TempSetPoint = 0, TempSetPointHi = 0, TempMin = 0\<rparr>"
  "demo_Node 5 = \<lparr>Temp = 20, MassFlowRate = 1, MassFlowRateMaxAvail = 1, TempSetPoint = 45, TempSetPointHi = 45, TempMin = 0\<rparr>"
  "LoopDemandCalcScheme (demo_PlantLoop lock n) = SingleSetPoint" "FlowLock (demo_PlantLoop lock n) = lock"
  "CurOpSchemeType (demo_PlantLoop lock n) = 0" "FlowCtrl (demo_PlantLoop lock n) = 0"
  "TempSetPointNodeNum (demo_PlantLoop lock n) = 2"
  by (simp_all add: demo_Node_def demo_PlantLoop_def)

lemma demo_hr_chiller_eq:
  "demo_hr_chiller = demo_chiller\<lparr>HeatRecActive := True, HeatRecMaxCapacityLimit := 120000\<rparr>"
  by (simp add: demo_hr_chiller_def demo_hr_config_def InitHeatRecMaxCapacityLimit_def)

section \<open>The idle path\<close>

lemma CalcIdle_zero:
  "Power (CalcIdle env k (CalcZeroOutputs c) e) = 0"
  "QEvaporator (CalcIdle env k (CalcZeroOutputs c) e) = 0"
  "QCondenser (CalcIdle env k (CalcZeroOutputs c) e) = 0"
  "ChillerPartLoadRatio (CalcIdle env k (CalcZeroOutputs c) e) = 0"
  by (simp_all add: CalcIdle_def CalcZeroOutputs_def Let_def)

text \<open>
  Claim C5. With a load that is zero or positive, or with the run flag false, the
  evaluator returns normally with the load untouched and with power, evaporator heat
  flow, condenser heat flow and part-load ratio exactly 0; so does the solver, which
  then makes this one call of the evaluator.
\<close>

theorem idle_outputs_zero:
  assumes "MyLoad \<ge> 0 \<or> \<not> RunFlag"
  shows "\<exists>s' st'.
      CalcReformEIRChillerModel env k s MyLoad RunFlag FirstIteration EquipFlowCtrl FalsiCondOutTemp = Inr (s', MyLoad)
    \<and> Power (chiller s') = 0 \<and> QEvaporator (chiller s') = 0 \<and> QCondenser (chiller s') = 0
    \<and> ChillerPartLoadRatio (chiller s') = 0
    \<and> ControlReformEIRChillerModel env k (s, tr) MyLoad RunFlag FirstIteration EquipFlowCtrl = Inr (st', MyLoad)
    \<and> Power (chiller (fst st')) = 0 \<and> QEvaporator (chiller (fst st')) = 0 \<and> QCondenser (chiller (fst st')) = 0
    \<and> ChillerPartLoadRatio (chiller (fst st')) = 0"
  using assms
  by (auto simp add: CalcReformEIRChillerModel_def ControlReformEIRChillerModel_def CalcTraced_def
      CalcIdle_zero Let_def)

theorem idle_outputs_zero_witness:
  "(0::real) \<ge> 0 \<and>
   (\<exists>s' st'.
      CalcReformEIRChillerModel (demo_env 1) demo_chiller demo_sim 0 True False 0 25 = Inr (s', 0)
    \<and> Power (chiller s') = 0 \<and> QEvaporator (chiller s') = 0 \<and> QCondenser (chiller s') = 0
    \<and> ChillerPartLoadRatio (chiller s') = 0
    \<and> ControlReformEIRChillerModel (demo_env 1) demo_chiller (demo_sim, []) 0 True False 0 = Inr (st', 0)
    \<and> Power (chiller (fst st')) = 0 \<and> QEvaporator (chiller (fst st')) = 0 \<and> QCondenser (chiller (fst st')) = 0
    \<and> ChillerPartLoadRatio (chiller (fst st')) = 0)"
  using idle_outputs_zero [where MyLoad = 0 and RunFlag = True and env = "demo_env 1" and k = demo_chiller
      and s = demo_sim and FirstIteration = False and EquipFlowCtrl = 0 and FalsiCondOutTemp = 25 and tr = "[]"]
  by simp

section \<open>The heat-recovery split\<close>

lemma HeatRecBlend_le_limit: "HeatRecBlend m cp t mc cc tc q l \<le> l"
  by (simp add: HeatRecBlend_def Let_def)

lemma HeatRecToSetPoint_le:
  assumes "HeatRecToSetPoint env k m cp t q = Inr r"
  shows "r \<le> HeatRecMaxCapacityLimit k \<and> r \<le> q"
  using assms
  by (auto simp add: HeatRecToSetPoint_def Let_def split: DemandCalcScheme.splits)

lemma demo_heat_recovery:
  "ReformEIRChillerHeatRecovery (demo_env 0) demo_hr_chiller demo_sim 4000 8 30 =
    Inr (demo_sim\<lparr>chiller := demo_state\<lparr>HeatRecOutletTemp := 29\<rparr>,
                  denominators := [(HeatCapacityRate, 36000), (HeatCapacityRate, 36000), (HeatCapacityRate, 4000)]\<rparr>,
         - 32000, 36000)"
  by (simp add: ReformEIRChillerHeatRecovery_def HeatRecBlend_def demo_sim_def demo_hr_chiller_eq dividing_def Let_def)

text \<open>
  Claim C8, as amended. On return from the heat-recovery split the condenser heat is the
  total less the recovered heat. When an inlet-limit schedule is configured and its
  current value is below the heat-recovery inlet temperature, the recovered heat is
  exactly 0 under both policies. Otherwise the recovered heat is at most the capacity
  limit set at initialisation, HeatRecCapacityFraction * (RefCap + RefCap / RefCOP),
  under both policies, and at most the total condenser heat entering the split under
  the setpoint policy. The blending policy does not bound it by the total condenser
  heat.
\<close>

theorem heat_recovery_bounds:
  assumes run: "ReformEIRChillerHeatRecovery env k s QCond CondMassFlow CondInletTemp = Inr (s', QCond', QHeatRec)"
    and init: "k = InitHeatRecMaxCapacityLimit k0"
    and active: "HeatRecActive k0"
    and cop: "RefCOP k0 \<noteq> 0"
  shows "QCond' = QCond - QHeatRec
    \<and> (if HeatRecShutDown env k then QHeatRec = 0
        else QHeatRec \<le> HeatRecCapacityFraction k0 * (RefCap k0 + RefCap k0 / RefCOP k0)
           \<and> (if HeatRecSetPointNodeNum k = 0 then True else QHeatRec \<le> QCond))"
proof -
  have lim: "HeatRecMaxCapacityLimit k = HeatRecCapacityFraction k0 * (RefCap k0 + RefCap k0 / RefCOP k0)"
    using init active by (simp add: InitHeatRecMaxCapacityLimit_def)
  show ?thesis
  proof (cases "HeatRecSetPointNodeNum k = 0")
    case True
    with run show ?thesis
      using HeatRecBlend_le_limit [of "MassFlowRate (Node env (HeatRecInletNodeNum k))"]
      by (auto simp add: ReformEIRChillerHeatRecovery_def HeatRecShutDown_def Let_def lim [symmetric] split: if_splits)
  next
    case False
    with run show ?thesis
      by (auto simp add: ReformEIRChillerHeatRecovery_def HeatRecShutDown_def Let_def lim [symmetric]
          split: if_splits sum.splits dest: HeatRecToSetPoint_le)
  qed
qed

theorem heat_recovery_bounds_witness:
  "ReformEIRChillerHeatRecovery (demo_env 0) demo_hr_chiller demo_sim 4000 8 30 =
    Inr (demo_sim\<lparr>chiller := demo_state\<lparr>HeatRecOutletTemp := 29\<rparr>,
                  denominators := [(HeatCapacityRate, 36000), (HeatCapacityRate, 36000), (HeatCapacityRate, 4000)]\<rparr>,
         - 32000, 36000)
   \<and> demo_hr_chiller = InitHeatRecMaxCapacityLimit demo_hr_config
   \<and> HeatRecActive demo_hr_config \<and> RefCOP demo_hr_config \<noteq> 0
   \<and> (- 32000::real) = 4000 - 36000
   \<and> \<not> HeatRecShutDown (demo_env 0) demo_hr_chiller
   \<and> (36000::real) \<le> HeatRecCapacityFraction demo_hr_config *
        (RefCap demo_hr_config + RefCap demo_hr_config / RefCOP demo_hr_config)"
proof -
  have init: "demo_hr_chiller = InitHeatRecMaxCapacityLimit demo_hr_config"
    by (simp add: demo_hr_chiller_def)
  have active: "HeatRecActive demo_hr_config" and cop: "RefCOP demo_hr_config \<noteq> 0"
    by (simp_all add: demo_hr_config_def)
  have live: "\<not> HeatRecShutDown (demo_env 0) demo_hr_chiller"
    by (simp add: HeatRecShutDown_def demo_hr_chiller_eq)
  from heat_recovery_bounds [OF demo_heat_recovery init active cop] live demo_heat_recovery init active cop
  show ?thesis by simp
qed

text \<open>
  Claim C8 as stated fails under the blending policy: with the condenser inlet (30 C)
  warmer than the heat-recovery inlet (20 C), 4000 W of condenser heat and no shut-down,
  the split recovers 36000 W, more than the total, and leaves the condenser -32000 W.
\<close>

theorem heat_recovery_exceeds_total_counterexample:
  "ReformEIRChillerHeatRecovery (demo_env 0) demo_hr_chiller demo_sim 4000 8 30 =
    Inr (demo_sim\<lparr>chiller := demo_state\<lparr>HeatRecOutletTemp := 29\<rparr>,
                  denominators := [(HeatCapacityRate, 36000), (HeatCapacityRate, 36000), (HeatCapacityRate, 4000)]\<rparr>,
         - 32000, 36000)
   \<and> HeatRecSetPointNodeNum demo_hr_chiller = 0
   \<and> \<not> (36000::real) \<le> min 4000 (HeatRecCapacityFraction demo_hr_config *
          (RefCap demo_hr_config + RefCap demo_hr_config / RefCOP demo_hr_config))"
  using demo_heat_recovery by (simp add: demo_hr_chiller_eq demo_hr_config_def)

section \<open>The paths of one evaluation\<close>

lemma Calc_paths:
  assumes run: "CalcReformEIRChillerModel env k s MyLoad RunFlag FirstIteration EquipFlowCtrl T = Inr (s', MyLoad')"
    and on: "MyLoad < 0" "RunFlag"
  shows
    "(CondenserType k = WaterCooled \<and> CondenserFlowGranted env k < MassFlowTolerance env
       \<and> s' = s\<lparr>chiller := CalcCondenserFlow env k (CalcFouling env k (CalcZeroOutputs (chiller s)))\<rparr>
       \<and> MyLoad' = MyLoad)
   \<or> (\<exists>sp_ff. \<not> (CondenserType k = WaterCooled \<and> CondenserFlowGranted env k < MassFlowTolerance env)
       \<and> PlantSetPoint env k = Inr sp_ff
       \<and> ((MassFlowRate (Node env (EvapInletNodeNum k)) = 0
            \<and> s' = StateAtFlowCheck env k s sp_ff T \<and> MyLoad' = 0)
         \<or> (MassFlowRate (Node env (EvapInletNodeNum k)) \<noteq> 0
            \<and> FlowLock (PlantLoop env (CWLoopNum k)) = 0
            \<and> CalcUnlocked env k (StateAtLockBranch env k s sp_ff T MyLoad) (EvapCp env k)
                 (CalcPartLoadRat k (AvailCapAt env k s sp_ff T) (LoadCapped env k sp_ff MyLoad))
                 (AvailCapAt env k s sp_ff T) (LoadCapped env k sp_ff MyLoad) = Inr (s', MyLoad'))
         \<or> (MassFlowRate (Node env (EvapInletNodeNum k)) \<noteq> 0
            \<and> FlowLock (PlantLoop env (CWLoopNum k)) \<noteq> 0
            \<and> CalcLocked env k (StateAtLockBranch env k s sp_ff T MyLoad) (EvapCp env k)
                 (CalcSWTSetPoint env k sp_ff) (AvailCapAt env k s sp_ff T) (LoadCapped env k sp_ff MyLoad)
                = Inr (s', MyLoad'))))"
proof -
  have m: "EvapMassFlowRate (chiller (StateAtFlowCheck env k s sp_ff T)) = MassFlowRate (Node env (EvapInletNodeNum k))"
    for sp_ff
    by (simp add: StateAtFlowCheck_def CalcAvailable_def CalcCapacity_def Let_def)
  have c: "CondMassFlowRate (CalcCondenserFlow env k c) = CondenserFlowGranted env k" if "CondenserType k = WaterCooled" for c
    using that by (simp add: CalcCondenserFlow_def CondenserFlowGranted_def)
  from run on show ?thesis
    unfolding CalcReformEIRChillerModel_def CalcRunning_def Let_def
    by (auto simp add: c m CalcLoaded_def Let_def StateAtLockBranch_def AvailCapAt_def LoadCapped_def
        StateAtFlowCheck_def [symmetric] split: if_splits sum.splits)
qed

lemma CalcUnlocked_path:
  assumes "CalcUnlocked env k s Cp p a l = Inr (s', l')"
  shows "l' = l \<and> (\<exists>s6 p6. CalcUnlockedFlow env k s Cp p = Inr (s6, p6)
      \<and> CalcEnergyBalance env k (fst (CalcUnlockedSWT env k s6 Cp p6 a)) (snd (CalcUnlockedSWT env k s6 Cp p6 a)) 1 a
          = Inr s')"
  using assms by (auto simp add: CalcUnlocked_def split: sum.splits prod.splits)

lemma CalcLocked_path:
  assumes "CalcLocked env k s Cp sp a l = Inr (s', l')"
  shows "(EvaporatorFlowLocked env k = 0 \<and> s' = s\<lparr>chiller := CalcLockedFlow env k (chiller s)\<rparr> \<and> l' = 0)
    \<or> (EvaporatorFlowLocked env k \<noteq> 0 \<and> l' = l
       \<and> CalcEnergyBalance env k
            (fst (CalcCycling env k (CalcLockedClamps env k (s\<lparr>chiller := CalcLockedFlow env k (chiller s)\<rparr>) Cp sp a l) a))
            (fst (snd (CalcCycling env k (CalcLockedClamps env k (s\<lparr>chiller := CalcLockedFlow env k (chiller s)\<rparr>) Cp sp a l) a)))
            (snd (snd (CalcCycling env k (CalcLockedClamps env k (s\<lparr>chiller := CalcLockedFlow env k (chiller s)\<rparr>) Cp sp a l) a)))
            a = Inr s')"
proof -
  have m: "EvapMassFlowRate (CalcLockedFlow env k c) = EvaporatorFlowLocked env k" for c
    by (simp add: CalcLockedFlow_def EvaporatorFlowLocked_def)
  from assms show ?thesis
    by (auto simp add: CalcLocked_def Let_def m split: if_splits sum.splits prod.splits)
qed

lemmas chiller_block_defs = CalcFouling_def CalcCondenserFlow_def CalcSWTOffset_def CalcCapacity_def
  CalcFaultChillerSWT_def CalcLockedFlow_def CalcLowLimit_def CalcLockedSWT_def CalcEIRFT_def

lemmas sim_block_defs = say_def dividing_def CalcCondAvgTemp_def CalcLockedLoad_def CalcLimitLoad_def
  CalcEIRFPLR_def CalcPower_def CalcEvaporatorLoad_def

lemma CyclingRatio_kept [simp]:
  "ChillerCyclingRatio (CalcFouling env k c) = ChillerCyclingRatio c"
  "ChillerCyclingRatio (CalcCondenserFlow env k c) = ChillerCyclingRatio c"
  "ChillerCyclingRatio (CalcSWTOffset env k c a b) = ChillerCyclingRatio c"
  "ChillerCyclingRatio (CalcCapacity env k c sp) = ChillerCyclingRatio c"
  "ChillerCyclingRatio (CalcFaultChillerSWT env k c v Cp) = ChillerCyclingRatio c"
  "ChillerCyclingRatio (CalcLockedFlow env k c) = ChillerCyclingRatio c"
  "ChillerCyclingRatio (CalcLowLimit env k c Cp L) = ChillerCyclingRatio c"
  "ChillerCyclingRatio (CalcLockedSWT env k c Cp) = ChillerCyclingRatio c"
  "ChillerCyclingRatio (CalcEIRFT env k c) = ChillerCyclingRatio c"
  "ChillerCyclingRatio (chiller (say ms s)) = ChillerCyclingRatio (chiller s)"
  "ChillerCyclingRatio (chiller (dividing ds s)) = ChillerCyclingRatio (chiller s)"
  "ChillerCyclingRatio (chiller (CalcCondAvgTemp k s T)) = ChillerCyclingRatio (chiller s)"
  "ChillerCyclingRatio (chiller (CalcEvaporatorLoad env k s a l)) = ChillerCyclingRatio (chiller s)"
  "ChillerCyclingRatio (chiller (CalcLockedLoad env k s Cp sp l)) = ChillerCyclingRatio (chiller s)"
  "ChillerCyclingRatio (chiller (CalcLimitLoad env k s Cp B)) = ChillerCyclingRatio (chiller s)"
  "ChillerCyclingRatio (chiller (CalcEIRFPLR env k s p)) = ChillerCyclingRatio (chiller s)"
  "ChillerCyclingRatio (chiller (CalcPower env k s f a)) = ChillerCyclingRatio (chiller s)"
  by (simp_all add: chiller_block_defs sim_block_defs Let_def split: prod.splits)

lemma CapFT_kept [simp]:
  "ChillerCapFT (CalcFaultChillerSWT env k c v Cp) = ChillerCapFT c"
  "ChillerCapFT (CalcLockedFlow env k c) = ChillerCapFT c"
  "ChillerCapFT (CalcLowLimit env k c Cp L) = ChillerCapFT c"
  "ChillerCapFT (CalcLockedSWT env k c Cp) = ChillerCapFT c"
  "ChillerCapFT (CalcEIRFT env k c) = ChillerCapFT c"
  "ChillerCapFT (chiller (say ms s)) = ChillerCapFT (chiller s)"
  "ChillerCapFT (chiller (dividing ds s)) = ChillerCapFT (chiller s)"
  "ChillerCapFT (chiller (CalcEvaporatorLoad env k s a l)) = ChillerCapFT (chiller s)"
  "ChillerCapFT (chiller (CalcLockedLoad env k s Cp sp l)) = ChillerCapFT (chiller s)"
  "ChillerCapFT (chiller (CalcLimitLoad env k s Cp B)) = ChillerCapFT (chiller s)"
  "ChillerCapFT (chiller (CalcEIRFPLR env k s p)) = ChillerCapFT (chiller s)"
  "ChillerCapFT (chiller (CalcPower env k s f a)) = ChillerCapFT (chiller s)"
  by (simp_all add: chiller_block_defs sim_block_defs Let_def split: prod.splits)

lemma CondAvgTemp_kept [simp]:
  "ChillerCondAvgTemp (CalcCapacity env k c sp) = ChillerCondAvgTemp c"
  "ChillerCondAvgTemp (CalcFaultChillerSWT env k c v Cp) = ChillerCondAvgTemp c"
  "ChillerCondAvgTemp (CalcLockedFlow env k c) = ChillerCondAvgTemp c"
  "ChillerCondAvgTemp (CalcLowLimit env k c Cp L) = ChillerCondAvgTemp c"
  "ChillerCondAvgTemp (CalcLockedSWT env k c Cp) = ChillerCondAvgTemp c"
  "ChillerCondAvgTemp (CalcEIRFT env k c) = ChillerCondAvgTemp c"
  "ChillerCondAvgTemp (chiller (say ms s)) = ChillerCondAvgTemp (chiller s)"
  "ChillerCondAvgTemp (chiller (dividing ds s)) = ChillerCondAvgTemp (chiller s)"
  "ChillerCondAvgTemp (chiller (CalcEvaporatorLoad env k s a l)) = ChillerCondAvgTemp (chiller s)"
  "ChillerCondAvgTemp (chiller (CalcLockedLoad env k s Cp sp l)) = ChillerCondAvgTemp (chiller s)"
  "ChillerCondAvgTemp (chiller (CalcLimitLoad env k s Cp B)) = ChillerCondAvgTemp (chiller s)"
  "ChillerCondAvgTemp (chiller (CalcEIRFPLR env k s p)) = ChillerCondAvgTemp (chiller s)"
  "ChillerCondAvgTemp (chiller (CalcPower env k s f a)) = ChillerCondAvgTemp (chiller s)"
  by (simp_all add: chiller_block_defs sim_block_defs Let_def split: prod.splits)

lemma QHeatRecovery_kept [simp]:
  "QHeatRecovery (CalcFouling env k c) = QHeatRecovery c"
  "QHeatRecovery (CalcCondenserFlow env k c) = QHeatRecovery c"
  "QHeatRecovery (CalcSWTOffset env k c a b) = QHeatRecovery c"
  "QHeatRecovery (CalcCapacity env k c sp) = QHeatRecovery c"
  "QHeatRecovery (CalcFaultChillerSWT env k c v Cp) = QHeatRecovery c"
  "QHeatRecovery (CalcLockedFlow env k c) = QHeatRecovery c"
  "QHeatRecovery (CalcLowLimit env k c Cp L) = QHeatRecovery c"
  "QHeatRecovery (CalcLockedSWT env k c Cp) = QHeatRecovery c"
  "QHeatRecovery (CalcEIRFT env k c) = QHeatRecovery c"
  "QHeatRecovery (chiller (say ms s)) = QHeatRecovery (chiller s)"
  "QHeatRecovery (chiller (dividing ds s)) = QHeatRecovery (chiller s)"
  "QHeatRecovery (chiller (CalcCondAvgTemp k s T)) = QHeatRecovery (chiller s)"
  "QHeatRecovery (chiller (CalcEvaporatorLoad env k s a l)) = QHeatRecovery (chiller s)"
  "QHeatRecovery (chiller (CalcLockedLoad env k s Cp sp l)) = QHeatRecovery (chiller s)"
  "QHeatRecovery (chiller (CalcLimitLoad env k s Cp B)) = QHeatRecovery (chiller s)"
  "QHeatRecovery (chiller (CalcEIRFPLR env k s p)) = QHeatRecovery (chiller s)"
  "QHeatRecovery (chiller (CalcPower env k s f a)) = QHeatRecovery (chiller s)"
  by (simp_all add: chiller_block_defs sim_block_defs Let_def split: prod.splits)

lemma CalcLockedClamps_kept [simp]:
  "ChillerCyclingRatio (chiller (CalcLockedClamps env k s Cp sp a l)) = ChillerCyclingRatio (chiller s)"
  "ChillerCapFT (chiller (CalcLockedClamps env k s Cp sp a l)) = ChillerCapFT (chiller s)"
  "ChillerCondAvgTemp (chiller (CalcLockedClamps env k s Cp sp a l)) = ChillerCondAvgTemp (chiller s)"
  "QHeatRecovery (chiller (CalcLockedClamps env k s Cp sp a l)) = QHeatRecovery (chiller s)"
  by (simp_all add: CalcLockedClamps_def Let_def)

lemma CalcCycling_kept [simp]:
  "ChillerCapFT (chiller (fst (CalcCycling env k s a))) = ChillerCapFT (chiller s)"
  "ChillerCondAvgTemp (chiller (fst (CalcCycling env k s a))) = ChillerCondAvgTemp (chiller s)"
  "QHeatRecovery (chiller (fst (CalcCycling env k s a))) = QHeatRecovery (chiller s)"
  "QEvaporator (chiller (fst (CalcCycling env k s a))) = QEvaporator (chiller s)"
  by (simp_all add: CalcCycling_def Let_def dividing_def)

lemma CalcCycling_ratio:
  "ChillerCyclingRatio (chiller (fst (CalcCycling env k s a))) =
    (if OperatingPartLoadRat k (chiller s) a < MinPartLoadRat k
     then min 1 (OperatingPartLoadRat k (chiller s) a / MinPartLoadRat k) else 1)"
  "snd (snd (CalcCycling env k s a)) = ChillerCyclingRatio (chiller (fst (CalcCycling env k s a)))"
  by (simp_all add: CalcCycling_def Let_def dividing_def)

lemma HeatRecovery_kept:
  assumes "ReformEIRChillerHeatRecovery env k s q m T = Inr (s', q', r)"
  shows "ChillerCyclingRatio (chiller s') = ChillerCyclingRatio (chiller s)"
    "ChillerCapFT (chiller s') = ChillerCapFT (chiller s)"
    "ChillerCondAvgTemp (chiller s') = ChillerCondAvgTemp (chiller s)"
    "QEvaporator (chiller s') = QEvaporator (chiller s)"
    "ChillerFalseLoadRate (chiller s') = ChillerFalseLoadRate (chiller s)"
    "ChillerPartLoadRatio (chiller s') = ChillerPartLoadRatio (chiller s)"
    "Power (chiller s') = Power (chiller s)"
    "CondOutletTemp (chiller s') = CondOutletTemp (chiller s)"
    "messages s' = messages s"
  using assms
  by (auto simp add: ReformEIRChillerHeatRecovery_def Let_def dividing_def split: if_splits sum.splits)

lemma CalcCondenser_kept:
  assumes "CalcCondenser env k s = Inr s'"
  shows "ChillerCyclingRatio (chiller s') = ChillerCyclingRatio (chiller s)"
    "ChillerCapFT (chiller s') = ChillerCapFT (chiller s)"
    "ChillerCondAvgTemp (chiller s') = ChillerCondAvgTemp (chiller s)"
    "QEvaporator (chiller s') = QEvaporator (chiller s)"
    "ChillerFalseLoadRate (chiller s') = ChillerFalseLoadRate (chiller s)"
    "ChillerPartLoadRatio (chiller s') = ChillerPartLoadRatio (chiller s)"
    "Power (chiller s') = Power (chiller s)"
  using assms
  by (auto simp add: CalcCondenser_def Let_def dividing_def say_def split: if_splits sum.splits
      dest: HeatRecovery_kept)

lemma energy_inputs_kept [simp]:
  "QEvaporator (CalcEIRFT env k c) = QEvaporator c"
  "ChillerFalseLoadRate (CalcEIRFT env k c) = ChillerFalseLoadRate c"
  "ChillerPartLoadRatio (CalcEIRFT env k c) = ChillerPartLoadRatio c"
  "QEvaporator (chiller (CalcEIRFPLR env k s p)) = QEvaporator (chiller s)"
  "ChillerFalseLoadRate (chiller (CalcEIRFPLR env k s p)) = ChillerFalseLoadRate (chiller s)"
  "ChillerPartLoadRatio (chiller (CalcEIRFPLR env k s p)) = ChillerPartLoadRatio (chiller s)"
  "QEvaporator (chiller (CalcPower env k s f a)) = QEvaporator (chiller s)"
  "ChillerFalseLoadRate (chiller (CalcPower env k s f a)) = ChillerFalseLoadRate (chiller s)"
  "ChillerPartLoadRatio (chiller (CalcPower env k s f a)) = ChillerPartLoadRatio (chiller s)"
  by (simp_all add: CalcEIRFT_def CalcEIRFPLR_def CalcPower_def dividing_def Let_def)

lemma CalcEnergyBalance_kept:
  assumes "CalcEnergyBalance env k s p f a = Inr s'"
  shows "ChillerCyclingRatio (chiller s') = ChillerCyclingRatio (chiller s)"
    "ChillerCapFT (chiller s') = ChillerCapFT (chiller s)"
    "ChillerCondAvgTemp (chiller s') = ChillerCondAvgTemp (chiller s)"
    "QEvaporator (chiller s') = QEvaporator (chiller s)"
    "ChillerFalseLoadRate (chiller s') = ChillerFalseLoadRate (chiller s)"
    "ChillerPartLoadRatio (chiller s') = ChillerPartLoadRatio (chiller s)"
proof -
  let ?s = "CalcPower env k (CalcEIRFPLR env k (s\<lparr>chiller := CalcEIRFT env k (chiller s)\<rparr>) p) f a"
  have c: "CalcCondenser env k ?s = Inr s'"
    using assms by (simp add: CalcEnergyBalance_def)
  show "ChillerCyclingRatio (chiller s') = ChillerCyclingRatio (chiller s)"
    using CalcCondenser_kept(1) [OF c] by simp
  show "ChillerCapFT (chiller s') = ChillerCapFT (chiller s)"
    using CalcCondenser_kept(2) [OF c] by simp
  show "ChillerCondAvgTemp (chiller s') = ChillerCondAvgTemp (chiller s)"
    using CalcCondenser_kept(3) [OF c] by simp
  show "QEvaporator (chiller s') = QEvaporator (chiller s)"
    using CalcCondenser_kept(4) [OF c] by simp
  show "ChillerFalseLoadRate (chiller s') = ChillerFalseLoadRate (chiller s)"
    using CalcCondenser_kept(5) [OF c] by simp
  show "ChillerPartLoadRatio (chiller s') = ChillerPartLoadRatio (chiller s)"
    using CalcCondenser_kept(6) [OF c] by simp
qed

lemma CalcUnlockedSWT_kept [simp]:
  "ChillerCyclingRatio (chiller (fst (CalcUnlockedSWT env k s Cp p a))) = ChillerCyclingRatio (chiller s)"
  "ChillerCapFT (chiller (fst (CalcUnlockedSWT env k s Cp p a))) = ChillerCapFT (chiller s)"
  "ChillerCondAvgTemp (chiller (fst (CalcUnlockedSWT env k s Cp p a))) = ChillerCondAvgTemp (chiller s)"
  "QHeatRecovery (chiller (fst (CalcUnlockedSWT env k s Cp p a))) = QHeatRecovery (chiller s)"
  by (simp_all add: CalcUnlockedSWT_def Let_def dividing_def CalcFaultChillerSWT_def split: prod.splits)

lemma StateAtFlowCheck_fields [simp]:
  "ChillerCyclingRatio (chiller (StateAtFlowCheck env k s sp_ff T)) = 0"
  "QHeatRecovery (chiller (StateAtFlowCheck env k s sp_ff T)) = 0"
  "ChillerCondAvgTemp (chiller (StateAtFlowCheck env k s sp_ff T)) = T"
  "Power (chiller (StateAtFlowCheck env k s sp_ff T)) = 0"
  "QEvaporator (chiller (StateAtFlowCheck env k s sp_ff T)) = 0"
  "QCondenser (chiller (StateAtFlowCheck env k s sp_ff T)) = 0"
  "ChillerPartLoadRatio (chiller (StateAtFlowCheck env k s sp_ff T)) = 0"
  "ChillerFalseLoadRate (chiller (StateAtFlowCheck env k s sp_ff T)) = 0"
  "EvapMassFlowRate (chiller (StateAtFlowCheck env k s sp_ff T)) = MassFlowRate (Node env (EvapInletNodeNum k))"
  "messages (StateAtFlowCheck env k s sp_ff T) = messages s"
  by (simp_all add: StateAtFlowCheck_def CalcAvailable_def CalcCapacity_def CalcCondAvgTemp_def CalcSWTOffset_def
      CalcCondenserFlow_def CalcFouling_def CalcZeroOutputs_def Let_def)

lemma StateAtLockBranch_fields [simp]:
  "ChillerCyclingRatio (chiller (StateAtLockBranch env k s sp_ff T l)) = 0"
  "QHeatRecovery (chiller (StateAtLockBranch env k s sp_ff T l)) = 0"
  "ChillerCondAvgTemp (chiller (StateAtLockBranch env k s sp_ff T l)) = T"
  "ChillerCapFT (chiller (StateAtLockBranch env k s sp_ff T l)) = ChillerCapFT (chiller (StateAtFlowCheck env k s sp_ff T))"
  "messages (StateAtLockBranch env k s sp_ff T l) = messages s"
  by (simp_all add: StateAtLockBranch_def CalcEvaporatorLoad_def dividing_def Let_def)

lemma AvailChillerCap_cong: "ChillerCapFT c' = ChillerCapFT c \<Longrightarrow> AvailChillerCap env k c' = AvailChillerCap env k c"
  by (simp add: AvailChillerCap_def)

lemma CalcUnlockedFlow_kept_aux:
  "case CalcUnlockedFlow env k s Cp p of
     Inl e \<Rightarrow> True
   | Inr (s', p') \<Rightarrow>
       ChillerCyclingRatio (chiller s') = ChillerCyclingRatio (chiller s)
     \<and> ChillerCapFT (chiller s') = ChillerCapFT (chiller s)
     \<and> ChillerCondAvgTemp (chiller s') = ChillerCondAvgTemp (chiller s)
     \<and> QHeatRecovery (chiller s') = QHeatRecovery (chiller s)"
  by (simp add: CalcUnlockedFlow_def Let_def dividing_def say_def split: DemandCalcScheme.split)

lemma CalcUnlockedFlow_kept:
  assumes "CalcUnlockedFlow env k s Cp p = Inr (s', p')"
  shows "ChillerCyclingRatio (chiller s') = ChillerCyclingRatio (chiller s)
    \<and> ChillerCapFT (chiller s') = ChillerCapFT (chiller s)
    \<and> ChillerCondAvgTemp (chiller s') = ChillerCondAvgTemp (chiller s)
    \<and> QHeatRecovery (chiller s') = QHeatRecovery (chiller s)"
  using CalcUnlockedFlow_kept_aux [where env = env and k = k and s = s and Cp = Cp and p = p] assms by simp

lemma LaterOutputsD:
  assumes "LaterOutputs c' = LaterOutputs c"
  shows "ChillerFalseLoadRate c' = ChillerFalseLoadRate c" "Power c' = Power c" "QCondenser c' = QCondenser c"
    "ChillerEIRFT c' = ChillerEIRFT c" "ChillerEIRFPLR c' = ChillerEIRFPLR c" "CondOutletTemp c' = CondOutletTemp c"
    "HeatRecOutletTemp c' = HeatRecOutletTemp c"
  using assms by (simp_all add: LaterOutputs_def)

lemma LaterOutputs_kept [simp]:
  "LaterOutputs (CalcFouling env k c) = LaterOutputs c"
  "LaterOutputs (CalcCondenserFlow env k c) = LaterOutputs c"
  "LaterOutputs (CalcSWTOffset env k c a b) = LaterOutputs c"
  "LaterOutputs (CalcCapacity env k c sp) = LaterOutputs c"
  "LaterOutputs (CalcFaultChillerSWT env k c v Cp) = LaterOutputs c"
  "LaterOutputs (CalcLockedFlow env k c) = LaterOutputs c"
  "LaterOutputs (CalcLowLimit env k c Cp L) = LaterOutputs c"
  "LaterOutputs (CalcLockedSWT env k c Cp) = LaterOutputs c"
  "LaterOutputs (chiller (say ms s)) = LaterOutputs (chiller s)"
  "LaterOutputs (chiller (dividing ds s)) = LaterOutputs (chiller s)"
  "LaterOutputs (chiller (CalcCondAvgTemp k s T)) = LaterOutputs (chiller s)"
  "LaterOutputs (chiller (CalcEvaporatorLoad env k s a l)) = LaterOutputs (chiller s)"
  "LaterOutputs (chiller (CalcLockedLoad env k s Cp sp l)) = LaterOutputs (chiller s)"
  "LaterOutputs (chiller (CalcLimitLoad env k s Cp B)) = LaterOutputs (chiller s)"
  by (simp_all add: LaterOutputs_def chiller_block_defs sim_block_defs Let_def split: prod.splits)

lemma LaterOutputs_kept2 [simp]:
  "LaterOutputs (chiller (CalcLockedClamps env k s Cp sp a l)) = LaterOutputs (chiller s)"
  "LaterOutputs (chiller (fst (CalcUnlockedSWT env k s Cp p a))) = LaterOutputs (chiller s)"
  "LaterOutputs (chiller (CalcAvailable env k s sp_ff sp T)) = LaterOutputs (chiller s)"
  by (simp_all add: CalcLockedClamps_def CalcAvailable_def Let_def)
    (simp add: CalcUnlockedSWT_def LaterOutputs_def dividing_def CalcFaultChillerSWT_def Let_def split: prod.splits)

lemma CalcUnlockedFlow_later_aux:
  "case CalcUnlockedFlow env k s Cp p of
     Inl e \<Rightarrow> True
   | Inr (s', p') \<Rightarrow> LaterOutputs (chiller s') = LaterOutputs (chiller s)
       \<and> CondMassFlowRate (chiller s') = CondMassFlowRate (chiller s)"
  by (simp add: CalcUnlockedFlow_def Let_def dividing_def say_def LaterOutputs_def split: DemandCalcScheme.split)

lemma CalcUnlockedFlow_later:
  assumes "CalcUnlockedFlow env k s Cp p = Inr (s', p')"
  shows "LaterOutputs (chiller s') = LaterOutputs (chiller s)"
    "CondMassFlowRate (chiller s') = CondMassFlowRate (chiller s)"
  using CalcUnlockedFlow_later_aux [where env = env and k = k and s = s and Cp = Cp and p = p] assms by simp_all

lemma CondMassFlowRate_kept [simp]:
  "CondMassFlowRate (CalcSWTOffset env k c a b) = CondMassFlowRate c"
  "CondMassFlowRate (CalcCapacity env k c sp) = CondMassFlowRate c"
  "CondMassFlowRate (CalcFaultChillerSWT env k c v Cp) = CondMassFlowRate c"
  "CondMassFlowRate (CalcLockedFlow env k c) = CondMassFlowRate c"
  "CondMassFlowRate (CalcLowLimit env k c Cp L) = CondMassFlowRate c"
  "CondMassFlowRate (CalcLockedSWT env k c Cp) = CondMassFlowRate c"
  "CondMassFlowRate (CalcEIRFT env k c) = CondMassFlowRate c"
  "CondMassFlowRate (chiller (say ms s)) = CondMassFlowRate (chiller s)"
  "CondMassFlowRate (chiller (dividing ds s)) = CondMassFlowRate (chiller s)"
  "CondMassFlowRate (chiller (CalcCondAvgTemp k s T)) = CondMassFlowRate (chiller s)"
  "CondMassFlowRate (chiller (CalcEvaporatorLoad env k s a l)) = CondMassFlowRate (chiller s)"
  "CondMassFlowRate (chiller (CalcLockedLoad env k s Cp sp l)) = CondMassFlowRate (chiller s)"
  "CondMassFlowRate (chiller (CalcLimitLoad env k s Cp B)) = CondMassFlowRate (chiller s)"
  "CondMassFlowRate (chiller (CalcEIRFPLR env k s p)) = CondMassFlowRate (chiller s)"
  "CondMassFlowRate (chiller (CalcPower env k s f a)) = CondMassFlowRate (chiller s)"
  "CondMassFlowRate (chiller (fst (CalcCycling env k s a))) = CondMassFlowRate (chiller s)"
  by (simp_all add: chiller_block_defs sim_block_defs CalcCycling_def Let_def split: prod.splits)

lemma CondMassFlowRate_kept2 [simp]:
  "CondMassFlowRate (chiller (CalcLockedClamps env k s Cp sp a l)) = CondMassFlowRate (chiller s)"
  "CondMassFlowRate (chiller (CalcAvailable env k s sp_ff sp T)) = CondMassFlowRate (chiller s)"
  "CondMassFlowRate (chiller (fst (CalcUnlockedSWT env k s Cp p a))) = CondMassFlowRate (chiller s)"
  by (simp_all add: CalcLockedClamps_def CalcAvailable_def Let_def)
    (simp add: CalcUnlockedSWT_def dividing_def CalcFaultChillerSWT_def Let_def split: prod.splits)

lemma StateAtLockBranch_later [simp]:
  "LaterOutputs (chiller (StateAtLockBranch env k s sp_ff T l)) = (0, 0, 0, 0, 0, CondOutletTemp (chiller s), HeatRecOutletTemp (chiller s))"
  "LaterOutputs (chiller (StateAtFlowCheck env k s sp_ff T)) = (0, 0, 0, 0, 0, CondOutletTemp (chiller s), HeatRecOutletTemp (chiller s))"
  by (simp_all add: StateAtLockBranch_def StateAtFlowCheck_def)
    (simp_all add: LaterOutputs_def CalcZeroOutputs_def CalcFouling_def CalcCondenserFlow_def)

lemma StateAtLockBranch_cond_flow [simp]:
  "CondenserType k = WaterCooled \<Longrightarrow>
    CondMassFlowRate (chiller (StateAtLockBranch env k s sp_ff T l)) = CondenserFlowGranted env k"
  by (simp add: StateAtLockBranch_def StateAtFlowCheck_def CalcCondenserFlow_def CondenserFlowGranted_def)

lemma Calc_cases [consumes 3, case_names NoCondFlow NoEvapFlow Unlocked LockedNoFlow Locked]:
  assumes run: "CalcReformEIRChillerModel env k s MyLoad RunFlag FirstIteration EquipFlowCtrl T = Inr (s', MyLoad')"
    and on: "MyLoad < 0" "RunFlag"
  obtains
    (NoCondFlow) "CondenserType k = WaterCooled" "CondenserFlowGranted env k < MassFlowTolerance env"
      "s' = s\<lparr>chiller := CalcCondenserFlow env k (CalcFouling env k (CalcZeroOutputs (chiller s)))\<rparr>"
      "MyLoad' = MyLoad"
  | (NoEvapFlow) sp_ff where
      "\<not> (CondenserType k = WaterCooled \<and> CondenserFlowGranted env k < MassFlowTolerance env)"
      "PlantSetPoint env k = Inr sp_ff" "MassFlowRate (Node env (EvapInletNodeNum k)) = 0"
      "s' = StateAtFlowCheck env k s sp_ff T" "MyLoad' = 0"
  | (Unlocked) sp_ff s6 p6 where
      "\<not> (CondenserType k = WaterCooled \<and> CondenserFlowGranted env k < MassFlowTolerance env)"
      "PlantSetPoint env k = Inr sp_ff" "MassFlowRate (Node env (EvapInletNodeNum k)) \<noteq> 0"
      "FlowLock (PlantLoop env (CWLoopNum k)) = 0" "MyLoad' = LoadCapped env k sp_ff MyLoad"
      "CalcUnlockedFlow env k (StateAtLockBranch env k s sp_ff T MyLoad) (EvapCp env k)
         (CalcPartLoadRat k (AvailCapAt env k s sp_ff T) (LoadCapped env k sp_ff MyLoad)) = Inr (s6, p6)"
      "CalcEnergyBalance env k (fst (CalcUnlockedSWT env k s6 (EvapCp env k) p6 (AvailCapAt env k s sp_ff T)))
         (snd (CalcUnlockedSWT env k s6 (EvapCp env k) p6 (AvailCapAt env k s sp_ff T))) 1
         (AvailCapAt env k s sp_ff T) = Inr s'"
  | (LockedNoFlow) sp_ff where
      "\<not> (CondenserType k = WaterCooled \<and> CondenserFlowGranted env k < MassFlowTolerance env)"
      "PlantSetPoint env k = Inr sp_ff" "MassFlowRate (Node env (EvapInletNodeNum k)) \<noteq> 0"
      "FlowLock (PlantLoop env (CWLoopNum k)) \<noteq> 0" "EvaporatorFlowLocked env k = 0"
      "s' = (StateAtLockBranch env k s sp_ff T MyLoad)
              \<lparr>chiller := CalcLockedFlow env k (chiller (StateAtLockBranch env k s sp_ff T MyLoad))\<rparr>"
      "MyLoad' = 0"
  | (Locked) sp_ff where
      "\<not> (CondenserType k = WaterCooled \<and> CondenserFlowGranted env k < MassFlowTolerance env)"
      "PlantSetPoint env k = Inr sp_ff" "MassFlowRate (Node env (EvapInletNodeNum k)) \<noteq> 0"
      "FlowLock (PlantLoop env (CWLoopNum k)) \<noteq> 0" "EvaporatorFlowLocked env k \<noteq> 0"
      "MyLoad' = LoadCapped env k sp_ff MyLoad"
      "CalcEnergyBalance env k
         (fst (CalcCycling env k (StateAtCycling env k s sp_ff T MyLoad) (AvailCapAt env k s sp_ff T)))
         (fst (snd (CalcCycling env k (StateAtCycling env k s sp_ff T MyLoad) (AvailCapAt env k s sp_ff T))))
         (snd (snd (CalcCycling env k (StateAtCycling env k s sp_ff T MyLoad) (AvailCapAt env k s sp_ff T))))
         (AvailCapAt env k s sp_ff T) = Inr s'"
proof -
  from Calc_paths [OF run on] consider
    (a) "CondenserType k = WaterCooled \<and> CondenserFlowGranted env k < MassFlowTolerance env
       \<and> s' = s\<lparr>chiller := CalcCondenserFlow env k (CalcFouling env k (CalcZeroOutputs (chiller s)))\<rparr>
       \<and> MyLoad' = MyLoad"
  | (b) sp_ff where "\<not> (CondenserType k = WaterCooled \<and> CondenserFlowGranted env k < MassFlowTolerance env)"
      "PlantSetPoint env k = Inr sp_ff" "MassFlowRate (Node env (EvapInletNodeNum k)) = 0"
      "s' = StateAtFlowCheck env k s sp_ff T" "MyLoad' = 0"
  | (c) sp_ff where "\<not> (CondenserType k = WaterCooled \<and> CondenserFlowGranted env k < MassFlowTolerance env)"
      "PlantSetPoint env k = Inr sp_ff" "MassFlowRate (Node env (EvapInletNodeNum k)) \<noteq> 0"
      "FlowLock (PlantLoop env (CWLoopNum k)) = 0"
      "CalcUnlocked env k (StateAtLockBranch env k s sp_ff T MyLoad) (EvapCp env k)
                 (CalcPartLoadRat k (AvailCapAt env k s sp_ff T) (LoadCapped env k sp_ff MyLoad))
                 (AvailCapAt env k s sp_ff T) (LoadCapped env k sp_ff MyLoad) = Inr (s', MyLoad')"
  | (d) sp_ff where "\<not> (CondenserType k = WaterCooled \<and> CondenserFlowGranted env k < MassFlowTolerance env)"
      "PlantSetPoint env k = Inr sp_ff" "MassFlowRate (Node env (EvapInletNodeNum k)) \<noteq> 0"
      "FlowLock (PlantLoop env (CWLoopNum k)) \<noteq> 0"
      "CalcLocked env k (StateAtLockBranch env k s sp_ff T MyLoad) (EvapCp env k)
                 (CalcSWTSetPoint env k sp_ff) (AvailCapAt env k s sp_ff T) (LoadCapped env k sp_ff MyLoad)
                = Inr (s', MyLoad')"
    by blast
  then show thesis
  proof cases
    case a
    then show thesis using NoCondFlow by blast
  next
    case b
    then show thesis using NoEvapFlow by blast
  next
    case c
    from CalcUnlocked_path [OF c(5)] c(1-4) show thesis using Unlocked by blast
  next
    case d
    from CalcLocked_path [OF d(5)] d(1-4) show thesis
      using LockedNoFlow [of sp_ff] Locked [of sp_ff] unfolding StateAtCycling_def by blast
  qed
qed

lemma StateAtCycling_fields [simp]:
  "ChillerCyclingRatio (chiller (StateAtCycling env k s sp_ff T l)) = 0"
  "QHeatRecovery (chiller (StateAtCycling env k s sp_ff T l)) = 0"
  "ChillerCondAvgTemp (chiller (StateAtCycling env k s sp_ff T l)) = T"
  "ChillerCapFT (chiller (StateAtCycling env k s sp_ff T l)) = ChillerCapFT (chiller (StateAtFlowCheck env k s sp_ff T))"
  "LaterOutputs (chiller (StateAtCycling env k s sp_ff T l)) = (0, 0, 0, 0, 0, CondOutletTemp (chiller s), HeatRecOutletTemp (chiller s))"
  by (simp_all add: StateAtCycling_def)

lemma StateAtCycling_cond_flow [simp]:
  "CondenserType k = WaterCooled \<Longrightarrow>
    CondMassFlowRate (chiller (StateAtCycling env k s sp_ff T l)) = CondenserFlowGranted env k"
  by (simp add: StateAtCycling_def)

section \<open>The cycling ratio\<close>

text \<open>
  Claim C9, as the code has it. An evaluation of a running chiller that completes with
  flow in the condenser and the evaporator stores a cycling ratio that depends on the
  flow lock of the chilled-water loop. With the flow locked it is the operating part-load
  ratio (the evaporator heat flow over the available capacity, between 0 and the maximum
  part-load ratio, before the minimum unloading ratio is applied) divided by the minimum
  part-load ratio and capped at 1 when that ratio is below the minimum, and 1 otherwise.
  With the flow not locked the cycling ratio is the 0 that the evaluation starts from.
\<close>

theorem cycling_ratio_by_flow_lock:
  assumes run: "CalcReformEIRChillerModel env k s MyLoad RunFlag FirstIteration EquipFlowCtrl FalsiCondOutTemp = Inr (s', MyLoad')"
    and on: "MyLoad < 0" "RunFlag"
    and cond: "CondenserType k = WaterCooled" "CondenserFlowGranted env k > MassFlowTolerance env"
    and evap: "MassFlowRate (Node env (EvapInletNodeNum k)) \<noteq> 0"
    and locked: "FlowLock (PlantLoop env (CWLoopNum k)) = 0 \<or> EvaporatorFlowLocked env k \<noteq> 0"
  shows "ChillerCyclingRatio (chiller s') =
    (if FlowLock (PlantLoop env (CWLoopNum k)) = 0 then 0
     else if OperatingPartLoadRat k (chiller s') (AvailChillerCap env k (chiller s')) < MinPartLoadRat k
     then min 1 (OperatingPartLoadRat k (chiller s') (AvailChillerCap env k (chiller s')) / MinPartLoadRat k)
     else 1)"
  using run on
proof (cases rule: Calc_cases)
  case NoCondFlow
  with cond show ?thesis by simp
next
  case (NoEvapFlow sp_ff)
  with evap show ?thesis by simp
next
  case (Unlocked sp_ff s6 p6)
  have "ChillerCyclingRatio (chiller s') = 0"
    using CalcEnergyBalance_kept(1) [OF Unlocked(7)] CalcUnlockedFlow_kept [OF Unlocked(6)] by simp
  with Unlocked(4) show ?thesis by simp
next
  case (LockedNoFlow sp_ff)
  with locked show ?thesis by simp
next
  case (Locked sp_ff)
  let ?a = "AvailCapAt env k s sp_ff FalsiCondOutTemp"
  let ?s7 = "StateAtCycling env k s sp_ff FalsiCondOutTemp MyLoad"
  note b = Locked(7)
  have cap: "ChillerCapFT (chiller s') = ChillerCapFT (chiller (StateAtFlowCheck env k s sp_ff FalsiCondOutTemp))"
    using CalcEnergyBalance_kept(2) [OF b] by simp
  have av: "AvailChillerCap env k (chiller s') = ?a"
    unfolding AvailCapAt_def by (rule AvailChillerCap_cong [OF cap])
  have q: "QEvaporator (chiller s') = QEvaporator (chiller ?s7)"
    using CalcEnergyBalance_kept(4) [OF b] by simp
  have op: "OperatingPartLoadRat k (chiller s') ?a = OperatingPartLoadRat k (chiller ?s7) ?a"
    using q by (simp add: OperatingPartLoadRat_def)
  have "ChillerCyclingRatio (chiller s') = ChillerCyclingRatio (chiller (fst (CalcCycling env k ?s7 ?a)))"
    using CalcEnergyBalance_kept(1) [OF b] .
  then show ?thesis using Locked(4) by (simp add: CalcCycling_ratio av op)
qed

section \<open>The condenser temperature of the curves\<close>

text \<open>
  Claim C3 has the curves read at a blend of the heat-recovery outlet temperature and the
  condenser outlet temperature of the previous call when heat recovery is active and the
  previous call recovered heat. The code sets the two heat flows of the previous call to
  zero (lines 1956--1958) before it tests their sum (line 2093), so the blend is never
  taken: every evaluation of a running chiller that gets past the check of the condenser
  flow reads the curves at the assumed condenser outlet temperature that was passed in,
  with heat recovery active or not, whatever the previous call left behind.
\<close>

theorem cond_avg_temp_is_assumed_temp:
  assumes run: "CalcReformEIRChillerModel env k s MyLoad RunFlag FirstIteration EquipFlowCtrl FalsiCondOutTemp = Inr (s', MyLoad')"
    and on: "MyLoad < 0" "RunFlag"
    and flow: "\<not> (CondenserType k = WaterCooled \<and> CondenserFlowGranted env k < MassFlowTolerance env)"
  shows "ChillerCondAvgTemp (chiller s') = FalsiCondOutTemp"
  using run on
proof (cases rule: Calc_cases)
  case NoCondFlow
  with flow show ?thesis by simp
next
  case (NoEvapFlow sp_ff)
  then show ?thesis by simp
next
  case (Unlocked sp_ff s6 p6)
  show ?thesis
    using CalcEnergyBalance_kept(3) [OF Unlocked(7)] CalcUnlockedFlow_kept [OF Unlocked(6)] by simp
next
  case (LockedNoFlow sp_ff)
  then show ?thesis by simp
next
  case (Locked sp_ff)
  show ?thesis
    using CalcEnergyBalance_kept(3) [OF Locked(7)] by simp
qed

lemma CalcEnergyBalance_messages:
  assumes b: "CalcEnergyBalance env k s p f a = Inr s'"
  shows "CondMassFlowRate (chiller s) > MassFlowTolerance env \<Longrightarrow> messages s' = messages s"
    "\<not> CondMassFlowRate (chiller s) > MassFlowTolerance env \<Longrightarrow>
      messages s' = messages s @ [ShowSevereError DiagCondFlowZero, ShowContinueErrorTimeStamp DiagCondFlowZero []]"
    "\<not> CondMassFlowRate (chiller s) > MassFlowTolerance env \<Longrightarrow> CondOutletTemp (chiller s') = CondOutletTemp (chiller s)"
proof -
  let ?s = "CalcPower env k (CalcEIRFPLR env k (s\<lparr>chiller := CalcEIRFT env k (chiller s)\<rparr>) p) f a"
  have c: "CalcCondenser env k ?s = Inr s'"
    using b by (simp add: CalcEnergyBalance_def)
  have m: "messages ?s = messages s"
    by (simp add: CalcPower_def CalcEIRFPLR_def dividing_def Let_def)
  have f: "CondMassFlowRate (chiller ?s) = CondMassFlowRate (chiller s)"
    by simp
  have t: "CondOutletTemp (chiller ?s) = CondOutletTemp (chiller s)"
    by (simp add: CalcPower_def CalcEIRFPLR_def CalcEIRFT_def dividing_def Let_def)
  show "messages s' = messages s" if "CondMassFlowRate (chiller s) > MassFlowTolerance env"
    using c that f m
    by (auto simp add: CalcCondenser_def Let_def dividing_def split: if_splits sum.splits dest: HeatRecovery_kept(9))
  show "messages s' = messages s @ [ShowSevereError DiagCondFlowZero, ShowContinueErrorTimeStamp DiagCondFlowZero []]"
    if "\<not> CondMassFlowRate (chiller s) > MassFlowTolerance env"
    using c that f m by (auto simp add: CalcCondenser_def Let_def say_def)
  show "CondOutletTemp (chiller s') = CondOutletTemp (chiller s)"
    if "\<not> CondMassFlowRate (chiller s) > MassFlowTolerance env"
    using c that f t by (auto simp add: CalcCondenser_def Let_def say_def)
qed

lemma CalcUnlockedSWT_cond_out [simp]:
  "CondOutletTemp (chiller (fst (CalcUnlockedSWT env k s Cp p a))) = CondOutletTemp (chiller s)"
  using LaterOutputsD(6) [OF LaterOutputs_kept2(2)] .

lemma CalcCycling_cond_out [simp]:
  "CondOutletTemp (chiller (fst (CalcCycling env k s a))) = CondOutletTemp (chiller s)"
  by (simp add: CalcCycling_def Let_def dividing_def)

lemma StateAtCycling_cond_out [simp]:
  "CondOutletTemp (chiller (StateAtCycling env k s sp_ff T l)) = CondOutletTemp (chiller s)"
  "CondOutletTemp (chiller (StateAtLockBranch env k s sp_ff T l)) = CondOutletTemp (chiller s)"
  using StateAtCycling_fields(5) [of env k s sp_ff T l, unfolded LaterOutputs_def]
    StateAtLockBranch_later(1) [of env k s sp_ff T l, unfolded LaterOutputs_def]
  by simp_all

lemma messages_kept [simp]:
  "messages (dividing ds s) = messages s"
  "messages (CalcCondAvgTemp k s T) = messages s"
  "messages (CalcEvaporatorLoad env k s a l) = messages s"
  "messages (CalcLockedLoad env k s Cp sp l) = messages s"
  "messages (CalcLimitLoad env k s Cp B) = messages s"
  "messages (CalcEIRFPLR env k s p) = messages s"
  "messages (CalcPower env k s f a) = messages s"
  "messages (fst (CalcCycling env k s a)) = messages s"
  "messages (fst (CalcUnlockedSWT env k s Cp p a)) = messages s"
  by (simp_all add: sim_block_defs CalcCycling_def CalcUnlockedSWT_def Let_def split: prod.splits)

lemma messages_kept2 [simp]:
  "messages (CalcLockedClamps env k s Cp sp a l) = messages s"
  "messages (StateAtCycling env k s sp_ff T l) = messages s"
  by (simp_all add: CalcLockedClamps_def StateAtCycling_def Let_def)

lemma CalcUnlockedFlow_messages_aux:
  "case CalcUnlockedFlow env k s Cp p of
     Inl e \<Rightarrow> True
   | Inr (s', p') \<Rightarrow> \<exists>ms. messages s' = messages s @ ms"
  by (simp add: CalcUnlockedFlow_def Let_def dividing_def say_def split: DemandCalcScheme.split)

lemma CalcUnlockedFlow_messages:
  assumes "CalcUnlockedFlow env k s Cp p = Inr (s', p')"
  shows "\<exists>ms. messages s' = messages s @ ms"
  using CalcUnlockedFlow_messages_aux [where env = env and k = k and s = s and Cp = Cp and p = p] assms by simp

lemma PlantSetPoint_returns:
  "LoopDemandCalcScheme (PlantLoop env (CWLoopNum k)) \<noteq> OtherScheme \<Longrightarrow> \<exists>sp. PlantSetPoint env k = Inr sp"
  by (cases "LoopDemandCalcScheme (PlantLoop env (CWLoopNum k))") (simp_all add: PlantSetPoint_def)

lemma CalcUnlockedFlow_returns:
  "LoopDemandCalcScheme (PlantLoop env (CWLoopNum k)) \<noteq> OtherScheme \<Longrightarrow>
    \<exists>s' p'. CalcUnlockedFlow env k s Cp p = Inr (s', p')"
  by (cases "LoopDemandCalcScheme (PlantLoop env (CWLoopNum k))") (simp_all add: CalcUnlockedFlow_def Let_def)

lemma CalcEnergyBalance_returns:
  assumes "\<not> CondMassFlowRate (chiller s) > MassFlowTolerance env"
  shows "\<exists>s'. CalcEnergyBalance env k s p f a = Inr s'"
proof -
  have "CondMassFlowRate (chiller (CalcPower env k (CalcEIRFPLR env k (s\<lparr>chiller := CalcEIRFT env k (chiller s)\<rparr>) p) f a))
      = CondMassFlowRate (chiller s)"
    by simp
  with assms show ?thesis
    by (simp add: CalcEnergyBalance_def CalcCondenser_def Let_def)
qed

lemma CalcUnlocked_returns:
  assumes scheme: "LoopDemandCalcScheme (PlantLoop env (CWLoopNum k)) \<noteq> OtherScheme"
    and low: "\<not> CondMassFlowRate (chiller s) > MassFlowTolerance env"
  shows "\<exists>s' l'. CalcUnlocked env k s Cp p a l = Inr (s', l')"
proof -
  from CalcUnlockedFlow_returns [OF scheme] obtain s6 p6 where
    f: "CalcUnlockedFlow env k s Cp p = Inr (s6, p6)"
    by blast
  have "\<not> CondMassFlowRate (chiller (fst (CalcUnlockedSWT env k s6 Cp p6 a))) > MassFlowTolerance env"
    using low CalcUnlockedFlow_later(2) [OF f] by simp
  from CalcEnergyBalance_returns [OF this] obtain s' where
    "CalcEnergyBalance env k (fst (CalcUnlockedSWT env k s6 Cp p6 a)) (snd (CalcUnlockedSWT env k s6 Cp p6 a)) 1 a = Inr s'"
    by blast
  with f show ?thesis
    by (auto simp add: CalcUnlocked_def split: prod.splits)
qed

lemma CalcLocked_returns:
  assumes low: "\<not> CondMassFlowRate (chiller s) > MassFlowTolerance env"
  shows "\<exists>s' l'. CalcLocked env k s Cp sp a l = Inr (s', l')"
proof (cases "EvapMassFlowRate (CalcLockedFlow env k (chiller s)) = 0")
  case True
  then show ?thesis by (simp add: CalcLocked_def Let_def)
next
  case False
  let ?s7 = "CalcLockedClamps env k (s\<lparr>chiller := CalcLockedFlow env k (chiller s)\<rparr>) Cp sp a l"
  have "\<not> CondMassFlowRate (chiller (fst (CalcCycling env k ?s7 a))) > MassFlowTolerance env"
    using low by simp
  from CalcEnergyBalance_returns [OF this] obtain s' where
    "CalcEnergyBalance env k (fst (CalcCycling env k ?s7 a)) (fst (snd (CalcCycling env k ?s7 a)))
       (snd (snd (CalcCycling env k ?s7 a))) a = Inr s'"
    by blast
  with False show ?thesis
    by (auto simp add: CalcLocked_def Let_def split: prod.splits)
qed

lemma Calc_returns_at_tolerance:
  assumes on: "MyLoad < 0" "RunFlag"
    and wc: "CondenserType k = WaterCooled"
    and low: "CondenserFlowGranted env k \<le> MassFlowTolerance env"
    and scheme: "LoopDemandCalcScheme (PlantLoop env (CWLoopNum k)) \<noteq> OtherScheme"
  shows "\<exists>s' MyLoad'. CalcReformEIRChillerModel env k s MyLoad RunFlag FirstIteration EquipFlowCtrl T = Inr (s', MyLoad')"
proof -
  from PlantSetPoint_returns [OF scheme] obtain sp where sp: "PlantSetPoint env k = Inr sp"
    by blast
  let ?c1 = "CalcCondenserFlow env k (CalcFouling env k (CalcZeroOutputs (chiller s)))"
  let ?s0 = "s\<lparr>chiller := CalcZeroOutputs (chiller s)\<rparr>"
  have c1: "CondMassFlowRate ?c1 = CondenserFlowGranted env k"
    using wc by (simp add: CalcCondenserFlow_def CondenserFlowGranted_def)
  let ?s4 = "StateAtFlowCheck env k s sp T"
  let ?s5 = "StateAtLockBranch env k s sp T MyLoad"
  have f5: "\<not> CondMassFlowRate (chiller ?s5) > MassFlowTolerance env"
    using wc low by simp
  have run: "CalcReformEIRChillerModel env k s MyLoad RunFlag FirstIteration EquipFlowCtrl T =
      (if CondenserFlowGranted env k < MassFlowTolerance env then Inr (s\<lparr>chiller := ?c1\<rparr>, MyLoad)
       else if EvapMassFlowRate (chiller ?s4) = 0 then Inr (?s4, 0)
       else if FlowLock (PlantLoop env (CWLoopNum k)) = 0
       then CalcUnlocked env k ?s5 (EvapCp env k)
              (CalcPartLoadRat k (AvailCapAt env k s sp T) (LoadCapped env k sp MyLoad))
              (AvailCapAt env k s sp T) (LoadCapped env k sp MyLoad)
       else CalcLocked env k ?s5 (EvapCp env k) (CalcSWTSetPoint env k sp) (AvailCapAt env k s sp T)
              (LoadCapped env k sp MyLoad))"
    using on wc sp c1
    by (simp add: CalcReformEIRChillerModel_def CalcRunning_def CalcLoaded_def Let_def StateAtFlowCheck_def
        StateAtLockBranch_def AvailCapAt_def LoadCapped_def)
  show ?thesis
    unfolding run
    using CalcUnlocked_returns [OF scheme f5] CalcLocked_returns [OF f5]
    by auto
qed

section \<open>No flow in the condenser\<close>

text \<open>
  Claim C7, as the code has it. A water-cooled chiller is running and the plant grants
  its condenser a flow at or below the tolerance. Below the tolerance the evaluation
  returns at once (line 2047): the load is handed back as it came, and the state is the
  state it was called in with the outputs zeroed, the outlet temperature of the
  evaporator node and the flow granted; the messages are those it was called with. At
  the tolerance, the chilled-water loop having one of the two demand schemes that the
  evaluator handles, the evaluation returns as well: with flow in the evaporator it runs
  to its end, writes the severe error and its time stamp as its last two messages (lines
  2431--2432) and leaves the condenser outlet temperature of the previous call in place;
  without flow in the evaporator it returns a load of 0 and writes no message.
\<close>

theorem condenser_flow_at_or_below_tolerance:
  assumes on: "MyLoad < 0" "RunFlag"
    and wc: "CondenserType k = WaterCooled"
  shows "(CondenserFlowGranted env k < MassFlowTolerance env \<longrightarrow>
            CalcReformEIRChillerModel env k s MyLoad RunFlag FirstIteration EquipFlowCtrl FalsiCondOutTemp =
              Inr (s\<lparr>chiller := CalcCondenserFlow env k (CalcFouling env k (CalcZeroOutputs (chiller s)))\<rparr>, MyLoad)
          \<and> messages (s\<lparr>chiller := CalcCondenserFlow env k (CalcFouling env k (CalcZeroOutputs (chiller s)))\<rparr>)
              = messages s)
    \<and> (CondenserFlowGranted env k = MassFlowTolerance env
         \<and> LoopDemandCalcScheme (PlantLoop env (CWLoopNum k)) \<noteq> OtherScheme \<longrightarrow>
          (\<exists>s' MyLoad'.
              CalcReformEIRChillerModel env k s MyLoad RunFlag FirstIteration EquipFlowCtrl FalsiCondOutTemp
                = Inr (s', MyLoad')
            \<and> (if MassFlowRate (Node env (EvapInletNodeNum k)) \<noteq> 0
                  \<and> (FlowLock (PlantLoop env (CWLoopNum k)) = 0 \<or> EvaporatorFlowLocked env k \<noteq> 0)
               then (\<exists>ms. messages s' = messages s @ ms @
                       [ShowSevereError DiagCondFlowZero, ShowContinueErrorTimeStamp DiagCondFlowZero []])
                  \<and> CondOutletTemp (chiller s') = CondOutletTemp (chiller s)
               else MyLoad' = 0 \<and> messages s' = messages s)))"
proof (intro conjI impI)
  assume below: "CondenserFlowGranted env k < MassFlowTolerance env"
  have "CondMassFlowRate (CalcCondenserFlow env k (CalcFouling env k (CalcZeroOutputs (chiller s))))
      = CondenserFlowGranted env k"
    using wc by (simp add: CalcCondenserFlow_def CondenserFlowGranted_def)
  with below on wc show "CalcReformEIRChillerModel env k s MyLoad RunFlag FirstIteration EquipFlowCtrl FalsiCondOutTemp =
      Inr (s\<lparr>chiller := CalcCondenserFlow env k (CalcFouling env k (CalcZeroOutputs (chiller s)))\<rparr>, MyLoad)"
    by (simp add: CalcReformEIRChillerModel_def CalcRunning_def Let_def)
  show "messages (s\<lparr>chiller := CalcCondenserFlow env k (CalcFouling env k (CalcZeroOutputs (chiller s)))\<rparr>)
      = messages s"
    by simp
next
  assume at: "CondenserFlowGranted env k = MassFlowTolerance env
    \<and> LoopDemandCalcScheme (PlantLoop env (CWLoopNum k)) \<noteq> OtherScheme"
  then have low: "CondenserFlowGranted env k \<le> MassFlowTolerance env"
    and nb: "\<not> CondenserFlowGranted env k < MassFlowTolerance env"
    and scheme: "LoopDemandCalcScheme (PlantLoop env (CWLoopNum k)) \<noteq> OtherScheme"
    by simp_all
  from Calc_returns_at_tolerance [OF on wc low scheme] obtain s' MyLoad' where
    run: "CalcReformEIRChillerModel env k s MyLoad RunFlag FirstIteration EquipFlowCtrl FalsiCondOutTemp = Inr (s', MyLoad')"
    by blast
  have "if MassFlowRate (Node env (EvapInletNodeNum k)) \<noteq> 0
          \<and> (FlowLock (PlantLoop env (CWLoopNum k)) = 0 \<or> EvaporatorFlowLocked env k \<noteq> 0)
       then (\<exists>ms. messages s' = messages s @ ms @
               [ShowSevereError DiagCondFlowZero, ShowContinueErrorTimeStamp DiagCondFlowZero []])
          \<and> CondOutletTemp (chiller s') = CondOutletTemp (chiller s)
       else MyLoad' = 0 \<and> messages s' = messages s"
    using run on
  proof (cases rule: Calc_cases)
    case NoCondFlow
    with nb show ?thesis by simp
  next
    case (NoEvapFlow sp')
    then show ?thesis by simp
  next
    case (Unlocked sp' s6 p6)
    let ?s = "fst (CalcUnlockedSWT env k s6 (EvapCp env k) p6 (AvailCapAt env k s sp' FalsiCondOutTemp))"
    have f: "CondMassFlowRate (chiller ?s) = CondenserFlowGranted env k"
      using CalcUnlockedFlow_later(2) [OF Unlocked(6)] wc by simp
    have t: "CondOutletTemp (chiller ?s) = CondOutletTemp (chiller s)"
      using LaterOutputsD(6) [OF CalcUnlockedFlow_later(1) [OF Unlocked(6)]] by simp
    have "\<exists>ms. messages ?s = messages s @ ms"
      using CalcUnlockedFlow_messages [OF Unlocked(6)] by simp
    with CalcEnergyBalance_messages(2,3) [OF Unlocked(7)] f t low Unlocked(3,4) show ?thesis
      by auto
  next
    case (LockedNoFlow sp')
    then show ?thesis by simp
  next
    case (Locked sp')
    let ?s = "fst (CalcCycling env k (StateAtCycling env k s sp' FalsiCondOutTemp MyLoad) (AvailCapAt env k s sp' FalsiCondOutTemp))"
    have f: "CondMassFlowRate (chiller ?s) = CondenserFlowGranted env k"
      using wc by simp
    have t: "CondOutletTemp (chiller ?s) = CondOutletTemp (chiller s)"
      by simp
    have "\<exists>ms. messages ?s = messages s @ ms"
      by simp
    with CalcEnergyBalance_messages(2,3) [OF Locked(7)] f t low Locked(3,4,5) show ?thesis
      by auto
  qed
  with run show "\<exists>s' MyLoad'.
      CalcReformEIRChillerModel env k s MyLoad RunFlag FirstIteration EquipFlowCtrl FalsiCondOutTemp = Inr (s', MyLoad')
    \<and> (if MassFlowRate (Node env (EvapInletNodeNum k)) \<noteq> 0
          \<and> (FlowLock (PlantLoop env (CWLoopNum k)) = 0 \<or> EvaporatorFlowLocked env k \<noteq> 0)
       then (\<exists>ms. messages s' = messages s @ ms @
               [ShowSevereError DiagCondFlowZero, ShowContinueErrorTimeStamp DiagCondFlowZero []])
          \<and> CondOutletTemp (chiller s') = CondOutletTemp (chiller s)
       else MyLoad' = 0 \<and> messages s' = messages s)"
    by blast
qed

section \<open>The heat balance of the condenser\<close>

lemma HeatRecovery_sum:
  assumes "ReformEIRChillerHeatRecovery env k s q m T = Inr (s', q', r)"
  shows "q' + r = q" "QHeatRecovery (chiller s') = QHeatRecovery (chiller s)" "QCondenser (chiller s') = QCondenser (chiller s)"
  using assms
  by (auto simp add: ReformEIRChillerHeatRecovery_def Let_def dividing_def split: if_splits sum.splits)

lemma CalcCondenser_heat:
  assumes c: "CalcCondenser env k s = Inr s'" and z: "QHeatRecovery (chiller s) = 0"
  shows "QCondenser (chiller s') + QHeatRecovery (chiller s') = QCondenser (chiller s)"
    "HeatRecActive k \<or> QHeatRecovery (chiller s') = 0"
  using c z
  by (auto simp add: CalcCondenser_def Let_def dividing_def say_def split: if_splits sum.splits
      dest: HeatRecovery_sum)

lemma CalcPower_heat:
  assumes "0 \<le> a" "0 \<le> f" "0 \<le> CompPowerToCondenserFrac k" "0 \<le> ChillerEIRFPLR (chiller s)"
    "0 \<le> ChillerEIRFT (chiller s)"
  shows "QEvaporator (chiller s) + ChillerFalseLoadRate (chiller s) \<le> QCondenser (chiller (CalcPower env k s f a))"
    "0 \<le> Power (chiller (CalcPower env k s f a))"
proof -
  let ?COP = "if ReferenceCOP env k \<le> 0 then 5.5 else ReferenceCOP env k"
  have "0 < ?COP" by simp
  then have "0 \<le> a / ?COP" using assms(1) by simp
  then have p: "0 \<le> (a / ?COP) * ChillerEIRFPLR (chiller s) * ChillerEIRFT (chiller s) * f"
    using assms by simp
  then have "0 \<le> (a / ?COP) * ChillerEIRFPLR (chiller s) * ChillerEIRFT (chiller s) * f * CompPowerToCondenserFrac k"
    using assms(3) by (rule mult_nonneg_nonneg)
  then show "QEvaporator (chiller s) + ChillerFalseLoadRate (chiller s) \<le> QCondenser (chiller (CalcPower env k s f a))"
    by (simp add: CalcPower_def Let_def)
  from p show "0 \<le> Power (chiller (CalcPower env k s f a))"
    by (simp add: CalcPower_def Let_def)
qed

lemma CalcEIR_nonneg:
  "0 \<le> ChillerEIRFT (CalcEIRFT env k c)"
  "0 \<le> ChillerEIRFPLR (chiller s) \<Longrightarrow> 0 \<le> ChillerEIRFPLR (chiller (CalcEIRFPLR env k s p))"
  "ChillerEIRFT (chiller (CalcEIRFPLR env k s p)) = ChillerEIRFT (chiller s)"
  "ChillerEIRFPLR (CalcEIRFT env k c) = ChillerEIRFPLR c"
  by (simp_all add: CalcEIRFT_def CalcEIRFPLR_def dividing_def Let_def)

lemma CalcEnergyBalance_heat:
  assumes b: "CalcEnergyBalance env k s p f a = Inr s'"
    and z: "QHeatRecovery (chiller s) = 0" "0 \<le> ChillerEIRFPLR (chiller s)"
    and pos: "0 \<le> a" "0 \<le> f" "0 \<le> CompPowerToCondenserFrac k"
  shows "QEvaporator (chiller s') + ChillerFalseLoadRate (chiller s') \<le> QCondenser (chiller s') + QHeatRecovery (chiller s')"
    "HeatRecActive k \<or> QHeatRecovery (chiller s') = 0"
proof -
  let ?s2 = "CalcEIRFPLR env k (s\<lparr>chiller := CalcEIRFT env k (chiller s)\<rparr>) p"
  let ?s = "CalcPower env k ?s2 f a"
  have c: "CalcCondenser env k ?s = Inr s'"
    using b by (simp add: CalcEnergyBalance_def)
  have z': "QHeatRecovery (chiller ?s) = 0"
    using z(1) by simp
  have e: "0 \<le> ChillerEIRFPLR (chiller ?s2)" "0 \<le> ChillerEIRFT (chiller ?s2)"
    using z(2) by (simp_all add: CalcEIR_nonneg)
  have "QEvaporator (chiller ?s2) + ChillerFalseLoadRate (chiller ?s2) \<le> QCondenser (chiller ?s)"
    using CalcPower_heat(1) [OF pos e] .
  then have "QEvaporator (chiller s) + ChillerFalseLoadRate (chiller s) \<le> QCondenser (chiller ?s)"
    by simp
  moreover have "QEvaporator (chiller s') = QEvaporator (chiller s)"
    "ChillerFalseLoadRate (chiller s') = ChillerFalseLoadRate (chiller s)"
    using CalcEnergyBalance_kept(4,5) [OF b] by simp_all
  ultimately show "QEvaporator (chiller s') + ChillerFalseLoadRate (chiller s') \<le> QCondenser (chiller s') + QHeatRecovery (chiller s')"
    using CalcCondenser_heat(1) [OF c z'] by simp
  show "HeatRecActive k \<or> QHeatRecovery (chiller s') = 0"
    using CalcCondenser_heat(2) [OF c z'] .
qed

lemma AvailCapAt_nonneg: "0 \<le> ChillerRefCap env k \<Longrightarrow> 0 \<le> AvailCapAt env k s sp_ff T"
  by (simp add: AvailCapAt_def AvailChillerCap_def StateAtFlowCheck_def CalcAvailable_def CalcCapacity_def Let_def)

lemma CalcCycling_nonneg: "0 \<le> snd (snd (CalcCycling env k s a))"
proof -
  have "0 \<le> OperatingPartLoadRat k (chiller s) a"
    by (simp add: OperatingPartLoadRat_def)
  then show ?thesis
    by (auto simp add: CalcCycling_def Let_def min_def intro!: divide_nonneg_pos)
qed

lemma CalcIdle_heat:
  "QEvaporator (CalcIdle env k (CalcZeroOutputs c) f) = 0"
  "ChillerFalseLoadRate (CalcIdle env k (CalcZeroOutputs c) f) = 0"
  "QCondenser (CalcIdle env k (CalcZeroOutputs c) f) = 0"
  "QHeatRecovery (CalcIdle env k (CalcZeroOutputs c) f) = 0"
  by (simp_all add: CalcIdle_def CalcZeroOutputs_def Let_def)

lemma EIRFPLR_at_branch:
  "ChillerEIRFPLR (chiller (StateAtLockBranch env k s sp_ff T l)) = 0"
  "ChillerEIRFPLR (chiller (StateAtCycling env k s sp_ff T l)) = 0"
  using StateAtCycling_fields(5) [of env k s sp_ff T l, unfolded LaterOutputs_def]
    StateAtLockBranch_later(1) [of env k s sp_ff T l, unfolded LaterOutputs_def]
  by simp_all

lemma CalcCycling_EIRFPLR [simp]:
  "ChillerEIRFPLR (chiller (fst (CalcCycling env k s a))) = ChillerEIRFPLR (chiller s)"
  by (simp add: CalcCycling_def Let_def dividing_def)

lemma Calc_load_settles:
  assumes run: "CalcReformEIRChillerModel env k s MyLoad RunFlag FirstIteration EquipFlowCtrl T = Inr (s', MyLoad')"
  shows "NoLockedReturn env k MyLoad' RunFlag"
proof (cases "MyLoad < 0 \<and> RunFlag")
  case False
  with run have "MyLoad' = MyLoad"
    by (auto simp add: CalcReformEIRChillerModel_def Let_def)
  with False show ?thesis by (auto simp add: NoLockedReturn_def)
next
  case True
  then have on: "MyLoad < 0" "RunFlag" by simp_all
  from run on show ?thesis
    by (cases rule: Calc_cases) (simp_all add: NoLockedReturn_def)
qed

lemma Calc_heat_balance:
  assumes run: "CalcReformEIRChillerModel env k s MyLoad RunFlag FirstIteration EquipFlowCtrl T = Inr (s', MyLoad')"
    and cap: "0 \<le> ChillerRefCap env k" and frac: "0 \<le> CompPowerToCondenserFrac k"
    and flow: "NoLockedReturn env k MyLoad RunFlag"
  shows "HeatBalanced k (chiller s')"
proof (cases "MyLoad < 0 \<and> RunFlag")
  case False
  with run have "s' = s\<lparr>chiller := CalcIdle env k (CalcZeroOutputs (chiller s)) EquipFlowCtrl\<rparr>"
    by (auto simp add: CalcReformEIRChillerModel_def Let_def)
  then show ?thesis by (simp add: CalcIdle_heat HeatBalanced_def)
next
  case True
  then have on: "MyLoad < 0" "RunFlag" by simp_all
  from run on show ?thesis
  proof (cases rule: Calc_cases)
    case NoCondFlow
    then show ?thesis
      by (simp add: HeatBalanced_def CalcCondenserFlow_def CalcFouling_def CalcZeroOutputs_def Let_def)
  next
    case (NoEvapFlow sp_ff)
    then show ?thesis by (simp add: HeatBalanced_def)
  next
    case (Unlocked sp_ff s6 p6)
    let ?s = "fst (CalcUnlockedSWT env k s6 (EvapCp env k) p6 (AvailCapAt env k s sp_ff T))"
    have z: "QHeatRecovery (chiller ?s) = 0"
      using CalcUnlockedFlow_kept [OF Unlocked(6)] by simp
    have "LaterOutputs (chiller ?s) = LaterOutputs (chiller (StateAtLockBranch env k s sp_ff T MyLoad))"
      using CalcUnlockedFlow_later(1) [OF Unlocked(6)] by simp
    from LaterOutputsD(5) [OF this] have e: "0 \<le> ChillerEIRFPLR (chiller ?s)"
      by (simp add: EIRFPLR_at_branch)
    show ?thesis
      using CalcEnergyBalance_heat [OF Unlocked(7) z e AvailCapAt_nonneg [OF cap] _ frac]
      by (simp add: HeatBalanced_def)
  next
    case (LockedNoFlow sp_ff)
    with flow on show ?thesis by (simp add: NoLockedReturn_def)
  next
    case (Locked sp_ff)
    let ?s = "fst (CalcCycling env k (StateAtCycling env k s sp_ff T MyLoad) (AvailCapAt env k s sp_ff T))"
    have z: "QHeatRecovery (chiller ?s) = 0" by simp
    have e: "0 \<le> ChillerEIRFPLR (chiller ?s)" by (simp add: EIRFPLR_at_branch)
    show ?thesis
      using CalcEnergyBalance_heat [OF Locked(7) z e AvailCapAt_nonneg [OF cap] CalcCycling_nonneg frac]
      by (simp add: HeatBalanced_def)
  qed
qed

lemma SolveRootRun_invariant:
  assumes "SolveRootRun n policy f seen st = Inr (Flag, X, st')"
    and "Q st"
    and "\<And>X st Y st'. Q st \<Longrightarrow> f X st = Inr (Y, st') \<Longrightarrow> Q st'"
  shows "Q st'"
  using assms
proof (induction n arbitrary: seen st)
  case 0
  then show ?case by simp
next
  case (Suc n)
  show ?case
  proof (cases "policy seen")
    case (Stop fl x)
    with Suc.prems show ?thesis by simp
  next
    case (Probe x)
    with Suc.prems(1) obtain Y st1 where f: "f x st = Inr (Y, st1)"
      and r: "SolveRootRun n policy f (seen @ [(x, Y)]) st1 = Inr (Flag, X, st')"
      by (auto split: sum.splits)
    from Suc.prems(3) [OF Suc.prems(2) f] have "Q st1" .
    from Suc.IH [OF r this Suc.prems(3)] show ?thesis by simp
  qed
qed

lemma CalcTraced_result:
  assumes "CalcTraced env k st MyLoad RunFlag FirstIteration EquipFlowCtrl T = Inr (st', MyLoad')"
  shows "CalcReformEIRChillerModel env k (fst st) MyLoad RunFlag FirstIteration EquipFlowCtrl T = Inr (fst st', MyLoad')"
    "snd st' = snd st @ [CalcCall T]"
  using assms by (auto simp add: CalcTraced_def split: sum.splits)

lemma CondOutTempResidual_result:
  assumes "CondOutTempResidual env k P T st = Inr (Y, st')"
  shows "\<exists>l. CalcTraced env k st (Par2 P) (trunc (Par3 P) = 1) (trunc (Par4 P) = 1)
            (if trunc (Par6 P) \<noteq> 0 then 1 else 0) T = Inr (st', l)"
    "Y = T - CondOutletTemp (chiller (fst st'))"
  using assms by (auto simp add: CondOutTempResidual_def Let_def split: sum.splits)

lemma Warn_heat [simp]:
  "HeatBalanced k (chiller (WarnIterLimit env s)) = HeatBalanced k (chiller s)"
  "HeatBalanced k (chiller (WarnIterFailed env s)) = HeatBalanced k (chiller s)"
  by (simp_all add: HeatBalanced_def WarnIterLimit_def WarnIterFailed_def say_def Let_def)

lemma Check_heat [simp]:
  "HeatBalanced k (chiller (CheckCAPFTX k s)) = HeatBalanced k (chiller s)"
  "HeatBalanced k (chiller (CheckEIRFTX k s)) = HeatBalanced k (chiller s)"
  "HeatBalanced k (chiller (CheckCAPFTY k s)) = HeatBalanced k (chiller s)"
  "HeatBalanced k (chiller (CheckEIRFTY k s)) = HeatBalanced k (chiller s)"
  "HeatBalanced k (chiller (CheckEIRFPLRT k s)) = HeatBalanced k (chiller s)"
  "HeatBalanced k (chiller (CheckEIRFPLRPLR k s)) = HeatBalanced k (chiller s)"
  "HeatBalanced k (chiller (CheckCapFT env k s sp)) = HeatBalanced k (chiller s)"
  "HeatBalanced k (chiller (CheckEIRFT env k s)) = HeatBalanced k (chiller s)"
  "HeatBalanced k (chiller (CheckEIRFPLR env k s)) = HeatBalanced k (chiller s)"
  by (simp_all add: HeatBalanced_def CheckCAPFTX_def CheckEIRFTX_def CheckCAPFTY_def CheckEIRFTY_def
      CheckEIRFPLRT_def CheckEIRFPLRPLR_def CheckCapFT_def CheckEIRFT_def CheckEIRFPLR_def CheckEIRFPLRValue_def
      say_def dividing_def Let_def)

lemma CheckMinMax_heat:
  assumes "CheckMinMaxCurveBoundaries env k s FirstIteration = Inr s'"
  shows "HeatBalanced k (chiller s') = HeatBalanced k (chiller s)"
  using assms by (auto simp add: CheckMinMaxCurveBoundaries_def CheckRanges_def Let_def split: if_splits sum.splits)

lemma CalcTraced_heat:
  assumes "CalcTraced env k st MyLoad RunFlag FirstIteration EquipFlowCtrl T = Inr (st', MyLoad')"
    and "0 \<le> ChillerRefCap env k" "0 \<le> CompPowerToCondenserFrac k"
  shows "NoLockedReturn env k MyLoad RunFlag \<Longrightarrow> HeatBalanced k (chiller (fst st'))"
    "NoLockedReturn env k MyLoad' RunFlag"
  using Calc_heat_balance [OF CalcTraced_result(1) [OF assms(1)] assms(2,3)]
    Calc_load_settles [OF CalcTraced_result(1) [OF assms(1)]]
  by simp_all

lemma trunc_flag [simp]: "trunc (if b then 1 else 0) = 1 \<longleftrightarrow> b"
  by (simp add: trunc_def)

lemma ControlSolve_heat:
  assumes run: "ControlSolve env k st MyLoad RunFlag FirstIteration EquipFlowCtrl Tmin Tmax = Inr (st', MyLoad')"
    and st: "HeatBalanced k (chiller (fst st))"
    and pos: "0 \<le> ChillerRefCap env k" "0 \<le> CompPowerToCondenserFrac k"
    and load: "NoLockedReturn env k MyLoad RunFlag"
  shows "HeatBalanced k (chiller (fst st'))"
proof -
  let ?P = "\<lparr>Par2 = MyLoad, Par3 = (if RunFlag then 1 else 0), Par4 = (if FirstIteration then 1 else 0),
              Par6 = real_of_int EquipFlowCtrl\<rparr>"
  let ?st0 = "(fst st, snd st @ [SolveRootCall 0.0001 500 Tmin Tmax])"
  from run obtain SolFla X st1 where
    sr: "SolveRoot env 0.0001 500 (CondOutTempResidual env k ?P) Tmin Tmax ?st0 = Inr (SolFla, X, st1)"
    and rest: "(if SolFla = - 1 then Inr ((WarnIterLimit env (fst st1), snd st1), MyLoad)
            else if SolFla = - 2
            then CalcTraced env k (WarnIterFailed env (fst st1), snd st1) MyLoad RunFlag FirstIteration EquipFlowCtrl
                   (Temp (Node env (CondInletNodeNum k)))
            else Inr (st1, MyLoad)) = Inr (st', MyLoad')"
    by (auto simp add: ControlSolve_def Let_def split: sum.splits)
  have step: "HeatBalanced k (chiller (fst b))"
    if "HeatBalanced k (chiller (fst a))" "CondOutTempResidual env k ?P T a = Inr (Y, b)" for a b T Y
  proof -
    from CondOutTempResidual_result(1) [OF that(2)] obtain l where
      "CalcTraced env k a MyLoad RunFlag FirstIteration (if trunc (real_of_int EquipFlowCtrl) \<noteq> 0 then 1 else 0) T
        = Inr (b, l)"
      by auto
    from CalcTraced_heat(1) [OF this pos load] show ?thesis .
  qed
  have "HeatBalanced k (chiller (fst st1))"
    using SolveRootRun_invariant [OF sr [unfolded SolveRoot_def], where Q = "\<lambda>a. HeatBalanced k (chiller (fst a))"]
      st step by simp
  with rest load show ?thesis
    by (auto split: if_splits dest: CalcTraced_heat(1) [OF _ pos])
qed

lemma ControlAverage_heat:
  assumes run: "ControlAverage env k st MyLoad RunFlag FirstIteration EquipFlowCtrl Tlo Thi = Inr (st', MyLoad')"
    and pos: "0 \<le> ChillerRefCap env k" "0 \<le> CompPowerToCondenserFrac k"
    and load: "NoLockedReturn env k MyLoad RunFlag"
  shows "HeatBalanced k (chiller (fst st'))"
proof -
  from run obtain sta la where
    a1: "CalcTraced env k st MyLoad RunFlag FirstIteration EquipFlowCtrl ((Tlo + Thi) / 2) = Inr (sta, la)"
    and a2: "CalcTraced env k sta la RunFlag FirstIteration EquipFlowCtrl (CondOutletTemp (chiller (fst sta)))
           = Inr (st', MyLoad')"
    by (auto simp add: ControlAverage_def split: sum.splits)
  from CalcTraced_heat(1) [OF a2 pos CalcTraced_heat(2) [OF a1 pos]] show ?thesis .
qed

section \<open>The heat balance after the solver\<close>

text \<open>
  Claim C2, as the code has it. The reference capacity in effect and the fraction of the
  compressor power that goes to the condenser are not negative. Then in the state that
  the solver leaves, the condenser heat flow and the recovered heat flow together are at
  least the evaporator heat flow plus the false-load rate; and a chiller without heat
  recovery recovers nothing, so that there the condenser heat flow alone is at least that
  sum. With heat recovery active the condenser heat flow alone may be smaller.
\<close>

theorem condenser_heat_balance:
  assumes run: "ControlReformEIRChillerModel env k st MyLoad RunFlag FirstIteration EquipFlowCtrl = Inr (st', MyLoad')"
    and cap: "0 \<le> ChillerRefCap env k"
    and frac: "0 \<le> CompPowerToCondenserFrac k"
  shows "QEvaporator (chiller (fst st')) + ChillerFalseLoadRate (chiller (fst st'))
       \<le> QCondenser (chiller (fst st')) + QHeatRecovery (chiller (fst st'))
    \<and> (HeatRecActive k \<or> QHeatRecovery (chiller (fst st')) = 0)"
proof -
  note pos = cap frac
  have "HeatBalanced k (chiller (fst st'))"
  proof (cases "MyLoad \<ge> 0 \<or> \<not> RunFlag")
    case True
    then have "NoLockedReturn env k MyLoad RunFlag"
      by (auto simp add: NoLockedReturn_def)
    with run True show ?thesis
      by (auto simp add: ControlReformEIRChillerModel_def dest: CalcTraced_heat(1) [OF _ pos])
  next
    case False
    with run obtain st1 l1 st2 l2 st3 where
      c1: "CalcTraced env k st MyLoad RunFlag FirstIteration EquipFlowCtrl (CondTempMinAllowed k) = Inr (st1, l1)"
      and c2: "CalcTraced env k st1 l1 RunFlag FirstIteration EquipFlowCtrl (CondTempMaxAllowed k) = Inr (st2, l2)"
      and c3: "(if CondOutletTemp (chiller (fst st1)) > CondTempMinAllowed k
                 \<and> CondOutletTemp (chiller (fst st2)) < CondTempMaxAllowed k
              then ControlSolve env k st2 l2 RunFlag FirstIteration EquipFlowCtrl (CondTempMinAllowed k) (CondTempMaxAllowed k)
              else ControlAverage env k st2 l2 RunFlag FirstIteration EquipFlowCtrl
                     (CondOutletTemp (chiller (fst st1))) (CondOutletTemp (chiller (fst st2)))) = Inr (st3, MyLoad')"
      and c4: "CheckMinMaxCurveBoundaries env k (fst st3) FirstIteration = Inr (fst st')"
      by (auto simp add: ControlReformEIRChillerModel_def Let_def split: sum.splits)
    note l1 = CalcTraced_heat(2) [OF c1 pos]
    note l2 = CalcTraced_heat(2) [OF c2 pos]
    have "HeatBalanced k (chiller (fst st2))"
      using CalcTraced_heat(1) [OF c2 pos l1] .
    with c3 l2 have "HeatBalanced k (chiller (fst st3))"
      by (auto split: if_splits dest: ControlSolve_heat [OF _ _ pos] ControlAverage_heat [OF _ pos])
    then show ?thesis
      using CheckMinMax_heat [OF c4] by simp
  qed
  then show ?thesis by (simp add: HeatBalanced_def)
qed









section \<open>No flow in the evaporator\<close>


section \<open>The concrete plant at work\<close>

lemma demo_state_outputs [simp]:
  "FaultyChillerFoulingFactor demo_state = 1" "FaultyChillerSWTOffset demo_state = 0"
  "ChillerPartLoadRatio demo_state = 0" "ChillerCyclingRatio demo_state = 0" "ChillerFalseLoadRate demo_state = 0"
  "Power demo_state = 0" "ChillerCapFT demo_state = 0" "ChillerEIRFT demo_state = 0" "ChillerEIRFPLR demo_state = 0"
  by (simp_all add: demo_state_def)

lemma demo_sim_fields [simp]:
  "chiller demo_sim = demo_state" "messages demo_sim = []" "denominators demo_sim = []"
  by (simp_all add: demo_sim_def)

lemma demo_calc_unlocked:
  "CalcReformEIRChillerModel (demo_env 0) demo_chiller demo_sim (- 60000) True False 0 25 =
    Inr (demo_sim\<lparr>chiller := demo_state
            \<lparr>PossibleSubcooling := True, EvapMassFlowRate := 5, CondMassFlowRate := 8, EvapOutletTemp := 9,
              CondOutletTemp := 65 / 2, ChillerCondAvgTemp := 25, ChillerPartLoadRatio := 3 / 5,
              Power := 20000, QEvaporator := 60000, QCondenser := 80000,
              ChillerCapFT := 1, ChillerEIRFT := 1, ChillerEIRFPLR := 1\<rparr>,
          denominators := [(OtherQuantity, 100000), (MassFlow, 5), (SpecificHeat, 4000),
              (OtherQuantity, 5), (MassFlow, 8), (SpecificHeat, 4000)]\<rparr>, - 60000)"
  by code_simp

lemma demo_calc_locked:
  "CalcReformEIRChillerModel (demo_env 1) demo_chiller demo_sim (- 5000) True False 0 25 =
    Inr (demo_sim\<lparr>chiller := demo_state
            \<lparr>EvapMassFlowRate := 5, CondMassFlowRate := 8, EvapOutletTemp := 47 / 4,
              CondOutletTemp := 245 / 8, ChillerCondAvgTemp := 25, ChillerPartLoadRatio := 1 / 5,
              ChillerCyclingRatio := 1 / 2, ChillerFalseLoadRate := 5000,
              Power := 10000, QEvaporator := 5000, QCondenser := 20000,
              ChillerCapFT := 1, ChillerEIRFT := 1, ChillerEIRFPLR := 1\<rparr>,
          denominators := [(OtherQuantity, 100000), (MassFlow, 5), (SpecificHeat, 4000),
              (OtherQuantity, 100000), (OtherQuantity, 1 / 10),
              (OtherQuantity, 5), (MassFlow, 8), (SpecificHeat, 4000)]\<rparr>, - 5000)"
  by code_simp

lemma demo_calc_hr:
  "CalcReformEIRChillerModel (demo_env 0) demo_hr_chiller demo_sim (- 60000) True False 0 25 =
    Inr (demo_hr_sim\<lparr>denominators := [(OtherQuantity, 100000), (MassFlow, 5), (SpecificHeat, 4000),
            (OtherQuantity, 5), (HeatCapacityRate, 36000), (HeatCapacityRate, 36000), (HeatCapacityRate, 4000),
            (MassFlow, 8), (SpecificHeat, 4000)]\<rparr>, - 60000)"
  by code_simp

lemma demo_calc_hr_again:
  "CalcReformEIRChillerModel (demo_env 0) demo_hr_chiller demo_hr_sim (- 60000) True False 0 25 =
    Inr (demo_hr_sim\<lparr>denominators := [(OtherQuantity, 100000), (MassFlow, 5), (SpecificHeat, 4000),
            (OtherQuantity, 5), (HeatCapacityRate, 36000), (HeatCapacityRate, 36000), (HeatCapacityRate, 4000),
            (MassFlow, 8), (SpecificHeat, 4000)]\<rparr>, - 60000)"
  by code_simp



lemma demo_calc_dry:
  "CalcReformEIRChillerModel (demo_env 0) demo_dry_chiller demo_sim (- 60000) True False 0 25 =
    Inr (demo_sim\<lparr>chiller := demo_state\<lparr>EvapOutletTemp := 7\<rparr>\<rparr>, - 60000)"
  by code_simp

lemma demo_calc_tol:
  "CalcReformEIRChillerModel (demo_env 0) demo_tol_chiller demo_sim (- 60000) True False 0 25 =
    Inr (demo_sim\<lparr>chiller := demo_state
            \<lparr>PossibleSubcooling := True, EvapMassFlowRate := 5, CondMassFlowRate := 1 / 1000000000,
              EvapOutletTemp := 9, ChillerCondAvgTemp := 25, ChillerPartLoadRatio := 3 / 5,
              Power := 20000, QEvaporator := 60000, QCondenser := 80000,
              ChillerCapFT := 1, ChillerEIRFT := 1, ChillerEIRFPLR := 1\<rparr>,
          messages := [ShowSevereError DiagCondFlowZero, ShowContinueErrorTimeStamp DiagCondFlowZero []],
          denominators := [(OtherQuantity, 100000), (MassFlow, 5), (SpecificHeat, 4000), (OtherQuantity, 5)]\<rparr>,
         - 60000)"
  by code_simp

theorem cycling_ratio_by_flow_lock_witness:
  "\<exists>s'. CalcReformEIRChillerModel (demo_env 1) demo_chiller demo_sim (- 5000) True False 0 25 = Inr (s', - 5000)
     \<and> CondenserType demo_chiller = WaterCooled
     \<and> CondenserFlowGranted (demo_env 1) demo_chiller = 8
     \<and> MassFlowRate (Node (demo_env 1) (EvapInletNodeNum demo_chiller)) = 5
     \<and> FlowLock (PlantLoop (demo_env 1) (CWLoopNum demo_chiller)) = 1
     \<and> EvaporatorFlowLocked (demo_env 1) demo_chiller = 5
     \<and> OperatingPartLoadRat demo_chiller (chiller s') (AvailChillerCap (demo_env 1) demo_chiller (chiller s')) = 1 / 20
     \<and> MinPartLoadRat demo_chiller = 1 / 10
     \<and> ChillerCyclingRatio (chiller s') = 1 / 2"
proof -
  have cond: "CondenserType demo_chiller = WaterCooled"
    "CondenserFlowGranted (demo_env 1) demo_chiller > MassFlowTolerance (demo_env 1)"
    by (simp_all add: CondenserFlowGranted_def consts_defs)
  have evap: "MassFlowRate (Node (demo_env 1) (EvapInletNodeNum demo_chiller)) \<noteq> 0"
    "FlowLock (PlantLoop (demo_env 1) (CWLoopNum demo_chiller)) = 0 \<or> EvaporatorFlowLocked (demo_env 1) demo_chiller \<noteq> 0"
    by (simp_all add: EvaporatorFlowLocked_def)
  from cycling_ratio_by_flow_lock [OF demo_calc_locked _ _ cond evap] demo_calc_locked
  show ?thesis
    by (simp add: CondenserFlowGranted_def EvaporatorFlowLocked_def OperatingPartLoadRat_def AvailChillerCap_def
        ChillerRefCap_def consts_defs)
qed

text \<open>
  Claim C9 as stated fails when the flow is not locked: the chiller runs at a part-load
  ratio of 3/5, above the minimum of 1/10, with flow in evaporator and condenser, and the
  cycling ratio it stores is 0, not 1.
\<close>

theorem cycling_ratio_unlocked_counterexample:
  "\<exists>s'. CalcReformEIRChillerModel (demo_env 0) demo_chiller demo_sim (- 60000) True False 0 25 = Inr (s', - 60000)
     \<and> FlowLock (PlantLoop (demo_env 0) (CWLoopNum demo_chiller)) = 0
     \<and> EvapMassFlowRate (chiller s') = 5 \<and> CondMassFlowRate (chiller s') = 8
     \<and> ChillerPartLoadRatio (chiller s') = 3 / 5 \<and> MinPartLoadRat demo_chiller = 1 / 10
     \<and> ChillerCyclingRatio (chiller s') = 0"
  using demo_calc_unlocked by simp

theorem cond_avg_temp_is_assumed_temp_witness:
  "\<exists>s'. CalcReformEIRChillerModel (demo_env 0) demo_hr_chiller demo_hr_sim (- 60000) True False 0 25
            = Inr (s', - 60000)
     \<and> HeatRecActive demo_hr_chiller
     \<and> QHeatRecovery (chiller demo_hr_sim) = 400000 / 9 \<and> QCondenser (chiller demo_hr_sim) = 320000 / 9
     \<and> (QHeatRecovery (chiller demo_hr_sim) * HeatRecOutletTemp (chiller demo_hr_sim)
          + QCondenser (chiller demo_hr_sim) * CondOutletTemp (chiller demo_hr_sim))
         / (QHeatRecovery (chiller demo_hr_sim) + QCondenser (chiller demo_hr_sim)) = 280 / 9
     \<and> CondenserFlowGranted (demo_env 0) demo_hr_chiller = 8
     \<and> ChillerCondAvgTemp (chiller s') = 25"
proof -
  have flow: "\<not> (CondenserType demo_hr_chiller = WaterCooled
      \<and> CondenserFlowGranted (demo_env 0) demo_hr_chiller < MassFlowTolerance (demo_env 0))"
    by (simp add: CondenserFlowGranted_def demo_hr_chiller_eq)
  from cond_avg_temp_is_assumed_temp [OF demo_calc_hr_again _ _ flow] demo_calc_hr_again
  show ?thesis
    by (simp add: CondenserFlowGranted_def demo_hr_chiller_eq demo_hr_sim_def)
qed



theorem condenser_flow_at_or_below_tolerance_witness:
  "CondenserType demo_tol_chiller = WaterCooled
   \<and> CondenserFlowGranted (demo_env 0) demo_tol_chiller = MassFlowTolerance (demo_env 0)
   \<and> LoopDemandCalcScheme (PlantLoop (demo_env 0) (CWLoopNum demo_tol_chiller)) = SingleSetPoint
   \<and> MassFlowRate (Node (demo_env 0) (EvapInletNodeNum demo_tol_chiller)) = 5
   \<and> FlowLock (PlantLoop (demo_env 0) (CWLoopNum demo_tol_chiller)) = 0
   \<and> (\<exists>s'. CalcReformEIRChillerModel (demo_env 0) demo_tol_chiller demo_sim (- 60000) True False 0 25
              = Inr (s', - 60000)
        \<and> messages s' = [ShowSevereError DiagCondFlowZero, ShowContinueErrorTimeStamp DiagCondFlowZero []]
        \<and> CondOutletTemp (chiller s') = CondOutletTemp (chiller demo_sim))
   \<and> CondenserType demo_dry_chiller = WaterCooled
   \<and> CondenserFlowGranted (demo_env 0) demo_dry_chiller < MassFlowTolerance (demo_env 0)
   \<and> CalcReformEIRChillerModel (demo_env 0) demo_dry_chiller demo_sim (- 60000) True False 0 25
       = Inr (demo_sim\<lparr>chiller := CalcCondenserFlow (demo_env 0) demo_dry_chiller
               (CalcFouling (demo_env 0) demo_dry_chiller (CalcZeroOutputs (chiller demo_sim)))\<rparr>, - 60000)"
proof -
  have on: "(- 60000 :: real) < 0" "True"
    by simp_all
  have wc: "CondenserType demo_tol_chiller = WaterCooled" "CondenserType demo_dry_chiller = WaterCooled"
    by (simp_all add: demo_tol_chiller_def demo_dry_chiller_def consts_defs)
  have facts: "CondenserFlowGranted (demo_env 0) demo_tol_chiller = MassFlowTolerance (demo_env 0)"
    "LoopDemandCalcScheme (PlantLoop (demo_env 0) (CWLoopNum demo_tol_chiller)) = SingleSetPoint"
    "MassFlowRate (Node (demo_env 0) (EvapInletNodeNum demo_tol_chiller)) = 5"
    "FlowLock (PlantLoop (demo_env 0) (CWLoopNum demo_tol_chiller)) = 0"
    "CondenserFlowGranted (demo_env 0) demo_dry_chiller < MassFlowTolerance (demo_env 0)"
    by (simp_all add: CondenserFlowGranted_def demo_tol_chiller_def demo_dry_chiller_def)
  from condenser_flow_at_or_below_tolerance [OF on wc(1), where env = "demo_env 0" and s = demo_sim
      and FirstIteration = False and EquipFlowCtrl = 0 and FalsiCondOutTemp = 25]
    condenser_flow_at_or_below_tolerance [OF on wc(2), where env = "demo_env 0" and s = demo_sim
      and FirstIteration = False and EquipFlowCtrl = 0 and FalsiCondOutTemp = 25]
    demo_calc_tol wc facts
  show ?thesis
    by simp
qed

text \<open>
  Claim C7 as stated fails: the condenser is granted no flow at all, the chiller is
  commanded on with a load of -60 kW, and the evaluation returns to its caller with the
  load as it came, the outputs at zero and not one message written.
\<close>

theorem condenser_flow_zero_counterexample:
  "CalcReformEIRChillerModel (demo_env 0) demo_dry_chiller demo_sim (- 60000) True False 0 25 =
     Inr (demo_sim\<lparr>chiller := demo_state\<lparr>EvapOutletTemp := 7\<rparr>\<rparr>, - 60000)
   \<and> CondenserType demo_dry_chiller = WaterCooled
   \<and> CondenserFlowGranted (demo_env 0) demo_dry_chiller = 0
   \<and> MassFlowTolerance (demo_env 0) = 1 / 1000000000
   \<and> messages (demo_sim\<lparr>chiller := demo_state\<lparr>EvapOutletTemp := 7\<rparr>\<rparr>) = []"
  using demo_calc_dry by (simp add: CondenserFlowGranted_def demo_dry_chiller_def consts_defs)

lemma demo_control_solve_aux:
  "case ControlReformEIRChillerModel (demo_env 1) demo_chiller (demo_sim, []) (- 5000) True False 0 of
     Inl e \<Rightarrow> False
   | Inr ((s, tr), l) \<Rightarrow>
       tr = [CalcCall 10, CalcCall 40, SolveRootCall (1 / 10000) 500 10 40, CalcCall 10, CalcCall 40,
             CalcCall (2425 / 79)]
     \<and> l = - 5000 \<and> CondOutletTemp (chiller s) = 2425 / 79
     \<and> QEvaporator (chiller s) = 5000 \<and> ChillerFalseLoadRate (chiller s) = 5000
     \<and> QCondenser (chiller s) = 1760000 / 79 \<and> QHeatRecovery (chiller s) = 0"
  by code_simp

lemma demo_control_solve:
  "\<exists>s. ControlReformEIRChillerModel (demo_env 1) demo_chiller (demo_sim, []) (- 5000) True False 0 =
      Inr ((s, [CalcCall 10, CalcCall 40, SolveRootCall (1 / 10000) 500 10 40, CalcCall 10, CalcCall 40,
                CalcCall (2425 / 79)]), - 5000)
     \<and> CondOutletTemp (chiller s) = 2425 / 79
     \<and> QEvaporator (chiller s) = 5000 \<and> ChillerFalseLoadRate (chiller s) = 5000
     \<and> QCondenser (chiller s) = 1760000 / 79 \<and> QHeatRecovery (chiller s) = 0"
  using demo_control_solve_aux by (auto split: sum.splits prod.splits)

lemma demo_control_hr_aux:
  "case ControlReformEIRChillerModel (demo_env 0) demo_hr_chiller (demo_sim, []) (- 60000) True False 0 of
     Inl e \<Rightarrow> False
   | Inr ((s, tr), l) \<Rightarrow>
       tr = [CalcCall 10, CalcCall 40, SolveRootCall (1 / 10000) 500 10 40, CalcCall 10, CalcCall 40,
             CalcCall (125 / 4)]
     \<and> l = - 60000 \<and> CondOutletTemp (chiller s) = 125 / 4
     \<and> QEvaporator (chiller s) = 60000 \<and> ChillerFalseLoadRate (chiller s) = 0
     \<and> QCondenser (chiller s) = 40000 \<and> QHeatRecovery (chiller s) = 45000"
  by code_simp

lemma demo_control_narrow_aux:
  "case ControlReformEIRChillerModel (demo_env 1) demo_narrow_chiller (demo_sim, []) (- 5000) True False 0 of
     Inl e \<Rightarrow> False
   | Inr ((s, tr), l) \<Rightarrow>
       tr = [CalcCall 10, CalcCall 30, CalcCall (489 / 16), CalcCall (39289 / 1280)] \<and> l = - 5000"
  by code_simp

theorem condenser_heat_balance_witness:
  "\<exists>st'. ControlReformEIRChillerModel (demo_env 1) demo_chiller (demo_sim, []) (- 5000) True False 0
            = Inr (st', - 5000)
     \<and> ChillerRefCap (demo_env 1) demo_chiller = 100000 \<and> CompPowerToCondenserFrac demo_chiller = 1
     \<and> QEvaporator (chiller (fst st')) = 5000 \<and> ChillerFalseLoadRate (chiller (fst st')) = 5000
     \<and> QCondenser (chiller (fst st')) = 1760000 / 79 \<and> QHeatRecovery (chiller (fst st')) = 0
     \<and> QEvaporator (chiller (fst st')) + ChillerFalseLoadRate (chiller (fst st'))
         \<le> QCondenser (chiller (fst st')) + QHeatRecovery (chiller (fst st'))"
proof -
  from demo_control_solve obtain st' where
    run: "ControlReformEIRChillerModel (demo_env 1) demo_chiller (demo_sim, []) (- 5000) True False 0 = Inr (st', - 5000)"
    and q: "QEvaporator (chiller (fst st')) = 5000" "ChillerFalseLoadRate (chiller (fst st')) = 5000"
      "QCondenser (chiller (fst st')) = 1760000 / 79" "QHeatRecovery (chiller (fst st')) = 0"
    by auto
  have cap: "0 \<le> ChillerRefCap (demo_env 1) demo_chiller" and frac: "0 \<le> CompPowerToCondenserFrac demo_chiller"
    by (simp_all add: ChillerRefCap_def)
  from condenser_heat_balance [OF run cap frac] run q show ?thesis
    by (simp add: ChillerRefCap_def)
qed

text \<open>
  Claim C2 as stated fails with heat recovery active. The solver converges at a
  condenser outlet temperature of 31.25 C (the last evaluation is made at the temperature
  it returns); the evaporator takes up 60 kW, the compressor adds 25 kW, the
  heat-recovery bundle takes 45 kW of the 85 kW and the condenser is left with 40 kW,
  less than the evaporator heat flow plus the false-load rate.
\<close>

theorem condenser_heat_below_evaporator_counterexample:
  "\<exists>s. ControlReformEIRChillerModel (demo_env 0) demo_hr_chiller (demo_sim, []) (- 60000) True False 0 =
      Inr ((s, [CalcCall 10, CalcCall 40, SolveRootCall (1 / 10000) 500 10 40, CalcCall 10, CalcCall 40,
                CalcCall (125 / 4)]), - 60000)
     \<and> HeatRecActive demo_hr_chiller
     \<and> CondOutletTemp (chiller s) = 125 / 4
     \<and> QEvaporator (chiller s) = 60000 \<and> ChillerFalseLoadRate (chiller s) = 0
     \<and> QCondenser (chiller s) = 40000 \<and> QHeatRecovery (chiller s) = 45000
     \<and> QCondenser (chiller s) < QEvaporator (chiller s) + ChillerFalseLoadRate (chiller s)"
  using demo_control_hr_aux by (auto simp add: demo_hr_chiller_eq split: sum.splits prod.splits)

section \<open>The branches of the solver\<close>

lemma CondOutTempResidual_trace:
  assumes "CondOutTempResidual env k P T st = Inr (Y, st')"
  shows "snd st' = snd st @ [CalcCall T]"
  using CondOutTempResidual_result(1) [OF assms] by (auto dest: CalcTraced_result(2))

lemma SolveRoot_trace:
  assumes "SolveRoot env Epsilon MaxIte (CondOutTempResidual env' k P) X_0 X_1 st = Inr (Flag, X, st')"
  shows "\<exists>rest. snd st' = snd st @ rest"
proof -
  have step: "\<exists>rest. snd b = snd st @ rest"
    if "\<exists>rest. snd a = snd st @ rest" "CondOutTempResidual env' k P T a = Inr (Y, b)" for a b T Y
    using that(1) CondOutTempResidual_trace [OF that(2)] by auto
  show ?thesis
    using SolveRootRun_invariant [OF assms [unfolded SolveRoot_def], where Q = "\<lambda>a. \<exists>rest. snd a = snd st @ rest"]
      step by simp
qed

lemma ControlSolve_trace:
  assumes "ControlSolve env k st MyLoad RunFlag FirstIteration EquipFlowCtrl Tmin Tmax = Inr (st', MyLoad')"
  shows "\<exists>rest. snd st' = snd st @ [SolveRootCall (1 / 10000) 500 Tmin Tmax] @ rest"
proof -
  let ?P = "\<lparr>Par2 = MyLoad, Par3 = (if RunFlag then 1 else 0), Par4 = (if FirstIteration then 1 else 0),
              Par6 = real_of_int EquipFlowCtrl\<rparr>"
  let ?st0 = "(fst st, snd st @ [SolveRootCall 0.0001 500 Tmin Tmax])"
  from assms obtain SolFla X st1 where
    sr: "SolveRoot env 0.0001 500 (CondOutTempResidual env k ?P) Tmin Tmax ?st0 = Inr (SolFla, X, st1)"
    and rest: "(if SolFla = - 1 then Inr ((WarnIterLimit env (fst st1), snd st1), MyLoad)
            else if SolFla = - 2
            then CalcTraced env k (WarnIterFailed env (fst st1), snd st1) MyLoad RunFlag FirstIteration EquipFlowCtrl
                   (Temp (Node env (CondInletNodeNum k)))
            else Inr (st1, MyLoad)) = Inr (st', MyLoad')"
    by (auto simp add: ControlSolve_def Let_def split: sum.splits)
  from SolveRoot_trace [OF sr] obtain r where r: "snd st1 = snd st @ [SolveRootCall 0.0001 500 Tmin Tmax] @ r"
    by auto
  from rest r show ?thesis
    by (auto split: if_splits dest!: CalcTraced_result(2))
qed

lemma CheckMinMax_skipped:
  "FirstIteration \<or> WarmupFlag env \<or> FlowLock (PlantLoop env (CWLoopNum k)) = 0 \<Longrightarrow>
    CheckMinMaxCurveBoundaries env k s FirstIteration = Inr s"
  by (simp add: CheckMinMaxCurveBoundaries_def)

lemma Control_running:
  assumes run: "ControlReformEIRChillerModel env k st MyLoad RunFlag FirstIteration EquipFlowCtrl = Inr (st', MyLoad')"
    and nz: "\<not> (MyLoad \<ge> 0 \<or> \<not> RunFlag)"
  shows "\<exists>st1 l1 st2 l2 st3.
      CalcTraced env k st MyLoad RunFlag FirstIteration EquipFlowCtrl (CondTempMinAllowed k) = Inr (st1, l1)
    \<and> CalcTraced env k st1 l1 RunFlag FirstIteration EquipFlowCtrl (CondTempMaxAllowed k) = Inr (st2, l2)
    \<and> (if CondOutletTemp (chiller (fst st1)) > CondTempMinAllowed k
                 \<and> CondOutletTemp (chiller (fst st2)) < CondTempMaxAllowed k
        then ControlSolve env k st2 l2 RunFlag FirstIteration EquipFlowCtrl (CondTempMinAllowed k) (CondTempMaxAllowed k)
        else ControlAverage env k st2 l2 RunFlag FirstIteration EquipFlowCtrl
               (CondOutletTemp (chiller (fst st1))) (CondOutletTemp (chiller (fst st2)))) = Inr (st3, MyLoad')
    \<and> CheckMinMaxCurveBoundaries env k (fst st3) FirstIteration = Inr (fst st')
    \<and> snd st' = snd st3"
proof -
  let ?c1 = "CalcTraced env k st MyLoad RunFlag FirstIteration EquipFlowCtrl (CondTempMinAllowed k)"
  from run nz obtain st1 l1 where c1: "?c1 = Inr (st1, l1)"
    unfolding ControlReformEIRChillerModel_def Let_def by (cases ?c1) auto
  let ?c2 = "CalcTraced env k st1 l1 RunFlag FirstIteration EquipFlowCtrl (CondTempMaxAllowed k)"
  from run nz c1 obtain st2 l2 where c2: "?c2 = Inr (st2, l2)"
    unfolding ControlReformEIRChillerModel_def Let_def by (cases ?c2) auto
  let ?c3 = "if CondOutletTemp (chiller (fst st1)) > CondTempMinAllowed k
                 \<and> CondOutletTemp (chiller (fst st2)) < CondTempMaxAllowed k
        then ControlSolve env k st2 l2 RunFlag FirstIteration EquipFlowCtrl (CondTempMinAllowed k) (CondTempMaxAllowed k)
        else ControlAverage env k st2 l2 RunFlag FirstIteration EquipFlowCtrl
               (CondOutletTemp (chiller (fst st1))) (CondOutletTemp (chiller (fst st2)))"
  from run nz c1 c2 have r3: "(case ?c3 of Inl e \<Rightarrow> Inl e
      | Inr (st3, MyLoad3) \<Rightarrow>
          (case CheckMinMaxCurveBoundaries env k (fst st3) FirstIteration of
             Inl e \<Rightarrow> Inl e
           | Inr s4 \<Rightarrow> Inr ((s4, snd st3), MyLoad3))) = Inr (st', MyLoad')"
    unfolding ControlReformEIRChillerModel_def Let_def by simp
  then obtain st3 l3 where c3: "?c3 = Inr (st3, l3)"
    by (cases ?c3) auto
  with r3 have "l3 = MyLoad'" "CheckMinMaxCurveBoundaries env k (fst st3) FirstIteration = Inr (fst st')"
    "snd st' = snd st3"
    by (auto split: sum.splits)
  with c1 c2 c3 show ?thesis by blast
qed

lemma ControlSolve_result:
  assumes "ControlSolve env k st MyLoad RunFlag FirstIteration EquipFlowCtrl Tmin Tmax = Inr (st', MyLoad')"
  shows "\<exists>Flag X st1.
      SolveRoot env (1 / 10000) 500
        (CondOutTempResidual env k
           \<lparr>Par2 = MyLoad, Par3 = (if RunFlag then 1 else 0), Par4 = (if FirstIteration then 1 else 0),
            Par6 = real_of_int EquipFlowCtrl\<rparr>)
        Tmin Tmax (fst st, snd st @ [SolveRootCall (1 / 10000) 500 Tmin Tmax]) = Inr (Flag, X, st1)
    \<and> (\<exists>rest. snd st1 = snd st @ [SolveRootCall (1 / 10000) 500 Tmin Tmax] @ rest)
    \<and> (if Flag = - 1 then st' = (WarnIterLimit env (fst st1), snd st1) \<and> MyLoad' = MyLoad
       else if Flag = - 2
       then CalcReformEIRChillerModel env k (WarnIterFailed env (fst st1)) MyLoad RunFlag FirstIteration EquipFlowCtrl
              (Temp (Node env (CondInletNodeNum k))) = Inr (fst st', MyLoad')
          \<and> snd st' = snd st1 @ [CalcCall (Temp (Node env (CondInletNodeNum k)))]
       else st' = st1 \<and> MyLoad' = MyLoad)"
proof -
  let ?P = "\<lparr>Par2 = MyLoad, Par3 = (if RunFlag then 1 else 0), Par4 = (if FirstIteration then 1 else 0),
              Par6 = real_of_int EquipFlowCtrl\<rparr>"
  let ?st0 = "(fst st, snd st @ [SolveRootCall 0.0001 500 Tmin Tmax])"
  from assms obtain SolFla X st1 where
    sr: "SolveRoot env 0.0001 500 (CondOutTempResidual env k ?P) Tmin Tmax ?st0 = Inr (SolFla, X, st1)"
    and rest: "(if SolFla = - 1 then Inr ((WarnIterLimit env (fst st1), snd st1), MyLoad)
            else if SolFla = - 2
            then CalcTraced env k (WarnIterFailed env (fst st1), snd st1) MyLoad RunFlag FirstIteration EquipFlowCtrl
                   (Temp (Node env (CondInletNodeNum k)))
            else Inr (st1, MyLoad)) = Inr (st', MyLoad')"
    by (auto simp add: ControlSolve_def Let_def split: sum.splits)
  from SolveRoot_trace [OF sr] obtain r where r: "snd st1 = snd st @ [SolveRootCall 0.0001 500 Tmin Tmax] @ r"
    by auto
  have fin: "if SolFla = - 1 then st' = (WarnIterLimit env (fst st1), snd st1) \<and> MyLoad' = MyLoad
       else if SolFla = - 2
       then CalcReformEIRChillerModel env k (WarnIterFailed env (fst st1)) MyLoad RunFlag FirstIteration EquipFlowCtrl
              (Temp (Node env (CondInletNodeNum k))) = Inr (fst st', MyLoad')
          \<and> snd st' = snd st1 @ [CalcCall (Temp (Node env (CondInletNodeNum k)))]
       else st' = st1 \<and> MyLoad' = MyLoad"
    using rest by (auto split: if_splits dest: CalcTraced_result)
  from sr r fin show ?thesis
    by (intro exI [of _ SolFla] exI [of _ X] exI [of _ st1]) simp
qed

text \<open>
  Claim C1, as the code has it. A running chiller is probed at the lowest and at the
  highest condenser temperature of its curves. The root finder is called exactly when
  the first probe put out a condenser temperature above the lower bound and the second
  one below the upper bound. It is called with accuracy 0.0001, at most 500 iterations,
  these two bounds, and the residual function of this chiller with the load that the
  probes handed back; the residual at a temperature is that temperature minus the
  condenser outlet temperature of an evaluation made there. What the solver leaves is
  what the root finder leaves, after the warning of its flag (and one more evaluation at
  the condenser inlet temperature when the flag is -2) and the validator. In every other
  case no root finder is called: the chiller is evaluated once at the mean of the two
  condenser outlet temperatures that the probes put out, and once more at the condenser
  outlet temperature of that evaluation. The trace lists the calls in their order.
\<close>

theorem solver_branches:
  assumes run: "ControlReformEIRChillerModel env k (s, tr) MyLoad RunFlag FirstIteration EquipFlowCtrl = Inr (st', MyLoad')"
    and on: "MyLoad < 0" "RunFlag"
  shows "\<exists>s1 l1 s2 l2.
      CalcReformEIRChillerModel env k s MyLoad RunFlag FirstIteration EquipFlowCtrl (CondTempMinAllowed k) = Inr (s1, l1)
    \<and> CalcReformEIRChillerModel env k s1 l1 RunFlag FirstIteration EquipFlowCtrl (CondTempMaxAllowed k) = Inr (s2, l2)
    \<and> (if CondOutletTemp (chiller s1) > CondTempMinAllowed k \<and> CondOutletTemp (chiller s2) < CondTempMaxAllowed k
       then \<exists>Flag X st1.
              SolveRoot env (1 / 10000) 500
                (CondOutTempResidual env k
                   \<lparr>Par2 = l2, Par3 = (if RunFlag then 1 else 0), Par4 = (if FirstIteration then 1 else 0),
                    Par6 = real_of_int EquipFlowCtrl\<rparr>)
                (CondTempMinAllowed k) (CondTempMaxAllowed k)
                (s2, tr @ [CalcCall (CondTempMinAllowed k), CalcCall (CondTempMaxAllowed k),
                           SolveRootCall (1 / 10000) 500 (CondTempMinAllowed k) (CondTempMaxAllowed k)])
                = Inr (Flag, X, st1)
            \<and> (\<exists>rest. snd st1 = tr @ [CalcCall (CondTempMinAllowed k), CalcCall (CondTempMaxAllowed k),
                                  SolveRootCall (1 / 10000) 500 (CondTempMinAllowed k) (CondTempMaxAllowed k)] @ rest)
            \<and> (if Flag = - 1
               then CheckMinMaxCurveBoundaries env k (WarnIterLimit env (fst st1)) FirstIteration = Inr (fst st')
                  \<and> snd st' = snd st1 \<and> MyLoad' = l2
               else if Flag = - 2
               then \<exists>s4. CalcReformEIRChillerModel env k (WarnIterFailed env (fst st1)) l2 RunFlag FirstIteration
                            EquipFlowCtrl (Temp (Node env (CondInletNodeNum k))) = Inr (s4, MyLoad')
                        \<and> CheckMinMaxCurveBoundaries env k s4 FirstIteration = Inr (fst st')
                        \<and> snd st' = snd st1 @ [CalcCall (Temp (Node env (CondInletNodeNum k)))]
               else CheckMinMaxCurveBoundaries env k (fst st1) FirstIteration = Inr (fst st')
                  \<and> snd st' = snd st1 \<and> MyLoad' = l2)
       else \<exists>s3 l3 s4.
              CalcReformEIRChillerModel env k s2 l2 RunFlag FirstIteration EquipFlowCtrl
                ((CondOutletTemp (chiller s1) + CondOutletTemp (chiller s2)) / 2) = Inr (s3, l3)
            \<and> CalcReformEIRChillerModel env k s3 l3 RunFlag FirstIteration EquipFlowCtrl
                (CondOutletTemp (chiller s3)) = Inr (s4, MyLoad')
            \<and> CheckMinMaxCurveBoundaries env k s4 FirstIteration = Inr (fst st')
            \<and> snd st' = tr @ [CalcCall (CondTempMinAllowed k), CalcCall (CondTempMaxAllowed k),
                              CalcCall ((CondOutletTemp (chiller s1) + CondOutletTemp (chiller s2)) / 2),
                              CalcCall (CondOutletTemp (chiller s3))])
    \<and> (\<forall>P T a Y b. CondOutTempResidual env k P T a = Inr (Y, b) \<longrightarrow>
          (\<exists>l. CalcReformEIRChillerModel env k (fst a) (Par2 P) (trunc (Par3 P) = 1) (trunc (Par4 P) = 1)
                  (if trunc (Par6 P) \<noteq> 0 then 1 else 0) T = Inr (fst b, l))
        \<and> Y = T - CondOutletTemp (chiller (fst b)) \<and> snd b = snd a @ [CalcCall T])"
proof -
  let ?lo = "CondTempMinAllowed k" and ?hi = "CondTempMaxAllowed k"
  have nz: "\<not> (MyLoad \<ge> 0 \<or> \<not> RunFlag)"
    using on by simp
  from Control_running [OF run nz] obtain st1 l1 st2 l2 st3 where
    c1: "CalcTraced env k (s, tr) MyLoad RunFlag FirstIteration EquipFlowCtrl ?lo = Inr (st1, l1)"
    and c2: "CalcTraced env k st1 l1 RunFlag FirstIteration EquipFlowCtrl ?hi = Inr (st2, l2)"
    and c3: "(if CondOutletTemp (chiller (fst st1)) > ?lo \<and> CondOutletTemp (chiller (fst st2)) < ?hi
              then ControlSolve env k st2 l2 RunFlag FirstIteration EquipFlowCtrl ?lo ?hi
              else ControlAverage env k st2 l2 RunFlag FirstIteration EquipFlowCtrl
                     (CondOutletTemp (chiller (fst st1))) (CondOutletTemp (chiller (fst st2)))) = Inr (st3, MyLoad')"
    and c4: "CheckMinMaxCurveBoundaries env k (fst st3) FirstIteration = Inr (fst st')"
    and c5: "snd st' = snd st3"
    by blast
  note r1 = CalcTraced_result [OF c1, simplified]
  note r2 = CalcTraced_result [OF c2]
  have t2: "snd st2 = tr @ [CalcCall ?lo, CalcCall ?hi]"
    using r1(2) r2(2) by simp
  have st2: "st2 = (fst st2, tr @ [CalcCall ?lo, CalcCall ?hi])"
    using t2 by (cases st2) simp
  have branch: "if CondOutletTemp (chiller (fst st1)) > ?lo \<and> CondOutletTemp (chiller (fst st2)) < ?hi
       then \<exists>Flag X stA.
              SolveRoot env (1 / 10000) 500
                (CondOutTempResidual env k
                   \<lparr>Par2 = l2, Par3 = (if RunFlag then 1 else 0), Par4 = (if FirstIteration then 1 else 0),
                    Par6 = real_of_int EquipFlowCtrl\<rparr>)
                ?lo ?hi (fst st2, tr @ [CalcCall ?lo, CalcCall ?hi, SolveRootCall (1 / 10000) 500 ?lo ?hi])
                = Inr (Flag, X, stA)
            \<and> (\<exists>rest. snd stA = tr @ [CalcCall ?lo, CalcCall ?hi, SolveRootCall (1 / 10000) 500 ?lo ?hi] @ rest)
            \<and> (if Flag = - 1
               then CheckMinMaxCurveBoundaries env k (WarnIterLimit env (fst stA)) FirstIteration = Inr (fst st')
                  \<and> snd st' = snd stA \<and> MyLoad' = l2
               else if Flag = - 2
               then \<exists>s4. CalcReformEIRChillerModel env k (WarnIterFailed env (fst stA)) l2 RunFlag FirstIteration
                            EquipFlowCtrl (Temp (Node env (CondInletNodeNum k))) = Inr (s4, MyLoad')
                        \<and> CheckMinMaxCurveBoundaries env k s4 FirstIteration = Inr (fst st')
                        \<and> snd st' = snd stA @ [CalcCall (Temp (Node env (CondInletNodeNum k)))]
               else CheckMinMaxCurveBoundaries env k (fst stA) FirstIteration = Inr (fst st')
                  \<and> snd st' = snd stA \<and> MyLoad' = l2)
       else \<exists>s3 l3 s4.
              CalcReformEIRChillerModel env k (fst st2) l2 RunFlag FirstIteration EquipFlowCtrl
                ((CondOutletTemp (chiller (fst st1)) + CondOutletTemp (chiller (fst st2))) / 2) = Inr (s3, l3)
            \<and> CalcReformEIRChillerModel env k s3 l3 RunFlag FirstIteration EquipFlowCtrl
                (CondOutletTemp (chiller s3)) = Inr (s4, MyLoad')
            \<and> CheckMinMaxCurveBoundaries env k s4 FirstIteration = Inr (fst st')
            \<and> snd st' = tr @ [CalcCall ?lo, CalcCall ?hi,
                              CalcCall ((CondOutletTemp (chiller (fst st1)) + CondOutletTemp (chiller (fst st2))) / 2),
                              CalcCall (CondOutletTemp (chiller s3))]"
  proof (cases "CondOutletTemp (chiller (fst st1)) > ?lo \<and> CondOutletTemp (chiller (fst st2)) < ?hi")
    case True
    with c3 have "ControlSolve env k st2 l2 RunFlag FirstIteration EquipFlowCtrl ?lo ?hi = Inr (st3, MyLoad')"
      by simp
    from ControlSolve_result [OF this] obtain Flag X stA where
      sr: "SolveRoot env (1 / 10000) 500
          (CondOutTempResidual env k
             \<lparr>Par2 = l2, Par3 = (if RunFlag then 1 else 0), Par4 = (if FirstIteration then 1 else 0),
              Par6 = real_of_int EquipFlowCtrl\<rparr>)
          ?lo ?hi (fst st2, snd st2 @ [SolveRootCall (1 / 10000) 500 ?lo ?hi]) = Inr (Flag, X, stA)"
      and pre: "\<exists>rest. snd stA = snd st2 @ [SolveRootCall (1 / 10000) 500 ?lo ?hi] @ rest"
      and fin: "if Flag = - 1 then st3 = (WarnIterLimit env (fst stA), snd stA) \<and> MyLoad' = l2
         else if Flag = - 2
         then CalcReformEIRChillerModel env k (WarnIterFailed env (fst stA)) l2 RunFlag FirstIteration EquipFlowCtrl
                (Temp (Node env (CondInletNodeNum k))) = Inr (fst st3, MyLoad')
            \<and> snd st3 = snd stA @ [CalcCall (Temp (Node env (CondInletNodeNum k)))]
         else st3 = stA \<and> MyLoad' = l2"
      by blast
    have fin': "if Flag = - 1
               then CheckMinMaxCurveBoundaries env k (WarnIterLimit env (fst stA)) FirstIteration = Inr (fst st')
                  \<and> snd st' = snd stA \<and> MyLoad' = l2
               else if Flag = - 2
               then \<exists>s4. CalcReformEIRChillerModel env k (WarnIterFailed env (fst stA)) l2 RunFlag FirstIteration
                            EquipFlowCtrl (Temp (Node env (CondInletNodeNum k))) = Inr (s4, MyLoad')
                        \<and> CheckMinMaxCurveBoundaries env k s4 FirstIteration = Inr (fst st')
                        \<and> snd st' = snd stA @ [CalcCall (Temp (Node env (CondInletNodeNum k)))]
               else CheckMinMaxCurveBoundaries env k (fst stA) FirstIteration = Inr (fst st')
                  \<and> snd st' = snd stA \<and> MyLoad' = l2"
      using fin c4 c5 by (auto split: if_splits)
    have sr': "SolveRoot env (1 / 10000) 500
          (CondOutTempResidual env k
             \<lparr>Par2 = l2, Par3 = (if RunFlag then 1 else 0), Par4 = (if FirstIteration then 1 else 0),
              Par6 = real_of_int EquipFlowCtrl\<rparr>)
          ?lo ?hi (fst st2, tr @ [CalcCall ?lo, CalcCall ?hi, SolveRootCall (1 / 10000) 500 ?lo ?hi])
          = Inr (Flag, X, stA)"
      using sr t2 by simp
    have pre': "\<exists>rest. snd stA = tr @ [CalcCall ?lo, CalcCall ?hi, SolveRootCall (1 / 10000) 500 ?lo ?hi] @ rest"
      using pre t2 by simp
    show ?thesis
      unfolding if_P [OF True] using sr' pre' fin' by blast
  next
    case False
    with c3 have "ControlAverage env k st2 l2 RunFlag FirstIteration EquipFlowCtrl
        (CondOutletTemp (chiller (fst st1))) (CondOutletTemp (chiller (fst st2))) = Inr (st3, MyLoad')"
      by auto
    then obtain sta la where
      a1: "CalcTraced env k st2 l2 RunFlag FirstIteration EquipFlowCtrl
             ((CondOutletTemp (chiller (fst st1)) + CondOutletTemp (chiller (fst st2))) / 2) = Inr (sta, la)"
      and a2: "CalcTraced env k sta la RunFlag FirstIteration EquipFlowCtrl (CondOutletTemp (chiller (fst sta)))
             = Inr (st3, MyLoad')"
      by (auto simp add: ControlAverage_def split: sum.splits)
    note b1 = CalcTraced_result [OF a1]
    note b2 = CalcTraced_result [OF a2]
    have tr3: "snd st' = tr @ [CalcCall ?lo, CalcCall ?hi,
        CalcCall ((CondOutletTemp (chiller (fst st1)) + CondOutletTemp (chiller (fst st2))) / 2),
        CalcCall (CondOutletTemp (chiller (fst sta)))]"
      using b1(2) b2(2) c5 t2 by simp
    show ?thesis
      unfolding if_not_P [OF False] using b1(1) b2(1) c4 tr3 by blast
  qed
  have res: "\<forall>P T a Y b. CondOutTempResidual env k P T a = Inr (Y, b) \<longrightarrow>
          (\<exists>l. CalcReformEIRChillerModel env k (fst a) (Par2 P) (trunc (Par3 P) = 1) (trunc (Par4 P) = 1)
                  (if trunc (Par6 P) \<noteq> 0 then 1 else 0) T = Inr (fst b, l))
        \<and> Y = T - CondOutletTemp (chiller (fst b)) \<and> snd b = snd a @ [CalcCall T]"
  proof (intro allI impI)
    fix P T a Y b
    assume r: "CondOutTempResidual env k P T a = Inr (Y, b)"
    from CondOutTempResidual_result(1) [OF r] obtain l where
      c: "CalcTraced env k a (Par2 P) (trunc (Par3 P) = 1) (trunc (Par4 P) = 1)
            (if trunc (Par6 P) \<noteq> 0 then 1 else 0) T = Inr (b, l)"
      by blast
    show "(\<exists>l. CalcReformEIRChillerModel env k (fst a) (Par2 P) (trunc (Par3 P) = 1) (trunc (Par4 P) = 1)
                  (if trunc (Par6 P) \<noteq> 0 then 1 else 0) T = Inr (fst b, l))
        \<and> Y = T - CondOutletTemp (chiller (fst b)) \<and> snd b = snd a @ [CalcCall T]"
      using CalcTraced_result(1) [OF c] CondOutTempResidual_result(2) [OF r] CondOutTempResidual_trace [OF r]
      by blast
  qed
  show ?thesis
    by (rule exI [of _ "fst st1"], rule exI [of _ l1], rule exI [of _ "fst st2"], rule exI [of _ l2])
      (use r1(1) r2(1) branch res in blast)
qed

lemma demo_probes_aux:
  "case CalcReformEIRChillerModel (demo_env 1) demo_chiller demo_sim (- 5000) True False 0 10 of
     Inl e \<Rightarrow> False
   | Inr (s1, l1) \<Rightarrow> l1 = - 5000 \<and> CondOutletTemp (chiller s1) = 487 / 16
       \<and> (case CalcReformEIRChillerModel (demo_env 1) demo_chiller s1 (- 5000) True False 0 40 of
            Inl e \<Rightarrow> False
          | Inr (s2, l2) \<Rightarrow> l2 = - 5000 \<and> CondOutletTemp (chiller s2) = 493 / 16)"
  by code_simp

lemma demo_probes:
  "\<exists>s1 s2.
      CalcReformEIRChillerModel (demo_env 1) demo_chiller demo_sim (- 5000) True False 0 10 = Inr (s1, - 5000)
    \<and> CalcReformEIRChillerModel (demo_env 1) demo_chiller s1 (- 5000) True False 0 40 = Inr (s2, - 5000)
    \<and> CondOutletTemp (chiller s1) = 487 / 16 \<and> CondOutletTemp (chiller s2) = 493 / 16"
  using demo_probes_aux by (auto split: sum.splits prod.splits)

lemma demo_cond_temp_bounds:
  "CondTempMinAllowed demo_chiller = 10" "CondTempMaxAllowed demo_chiller = 40"
  "CondTempMinAllowed demo_narrow_chiller = 10" "CondTempMaxAllowed demo_narrow_chiller = 30"
  by (simp_all add: CondTempMinAllowed_def CondTempMaxAllowed_def demo_narrow_chiller_def consts_defs)

theorem solver_branches_witness:
  "\<exists>s' s1 s2.
      ControlReformEIRChillerModel (demo_env 1) demo_chiller (demo_sim, []) (- 5000) True False 0 =
        Inr ((s', [CalcCall 10, CalcCall 40, SolveRootCall (1 / 10000) 500 10 40, CalcCall 10, CalcCall 40,
                   CalcCall (2425 / 79)]), - 5000)
    \<and> CondTempMinAllowed demo_chiller = 10 \<and> CondTempMaxAllowed demo_chiller = 40
    \<and> CalcReformEIRChillerModel (demo_env 1) demo_chiller demo_sim (- 5000) True False 0 10 = Inr (s1, - 5000)
    \<and> CalcReformEIRChillerModel (demo_env 1) demo_chiller s1 (- 5000) True False 0 40 = Inr (s2, - 5000)
    \<and> CondOutletTemp (chiller s1) = 487 / 16 \<and> CondOutletTemp (chiller s2) = 493 / 16
    \<and> CondOutletTemp (chiller s') = 2425 / 79"
proof -
  from demo_control_solve obtain s' where
    run: "ControlReformEIRChillerModel (demo_env 1) demo_chiller (demo_sim, []) (- 5000) True False 0 =
        Inr ((s', [CalcCall 10, CalcCall 40, SolveRootCall (1 / 10000) 500 10 40, CalcCall 10, CalcCall 40,
                   CalcCall (2425 / 79)]), - 5000)"
    and out: "CondOutletTemp (chiller s') = 2425 / 79"
    by auto
  from demo_probes obtain s1 s2 where
    p: "CalcReformEIRChillerModel (demo_env 1) demo_chiller demo_sim (- 5000) True False 0 10 = Inr (s1, - 5000)"
      "CalcReformEIRChillerModel (demo_env 1) demo_chiller s1 (- 5000) True False 0 40 = Inr (s2, - 5000)"
      "CondOutletTemp (chiller s1) = 487 / 16" "CondOutletTemp (chiller s2) = 493 / 16"
    by auto
  have on: "(- 5000 :: real) < 0" "True" by simp_all
  from solver_branches [OF run on] run out p show ?thesis
    by (intro exI [of _ s'] exI [of _ s1] exI [of _ s2]) (simp add: demo_cond_temp_bounds)
qed

text \<open>
  Claim C1 as stated fails on the path without the root finder. The curves of the
  chiller end at 30 C, the probe at 30 C puts out 30.6875 C, so no root is looked for.
  The next evaluation is made at 30.5625 C, the mean of the two condenser outlet
  temperatures of the probes, not at 20 C, the midpoint of the interval from 10 C to
  30 C.
\<close>

theorem solver_midpoint_counterexample:
  "\<exists>s'. ControlReformEIRChillerModel (demo_env 1) demo_narrow_chiller (demo_sim, []) (- 5000) True False 0 =
        Inr ((s', [CalcCall 10, CalcCall 30, CalcCall (489 / 16), CalcCall (39289 / 1280)]), - 5000)
    \<and> CondTempMinAllowed demo_narrow_chiller = 10 \<and> CondTempMaxAllowed demo_narrow_chiller = 30
    \<and> (CondTempMinAllowed demo_narrow_chiller + CondTempMaxAllowed demo_narrow_chiller) / 2 = 20"
  using demo_control_narrow_aux by (auto simp add: demo_cond_temp_bounds split: sum.splits prod.splits)

section \<open>Divisions\<close>

lemma Nonzero_dividing [simp]:
  "NonzeroDenominators (dividing ds s) \<longleftrightarrow> NonzeroDenominators s \<and> list_all (\<lambda>d. snd d \<noteq> 0) ds"
  "NonzeroDenominators (say ms s) = NonzeroDenominators s"
  "NonzeroDenominators (s\<lparr>chiller := c\<rparr>) = NonzeroDenominators s"
  by (simp_all add: NonzeroDenominators_def dividing_def say_def)

lemma Nonzero_blocks:
  assumes "NonzeroDenominators s"
  shows "NonzeroDenominators (CalcCondAvgTemp k s T)"
    "NonzeroDenominators (CalcEvaporatorLoad env k s a l)"
    "NonzeroDenominators (fst (CalcUnlockedSWT env k s Cp p a))"
    "NonzeroDenominators (fst (CalcCycling env k s a))"
    "NonzeroDenominators (CalcEIRFPLR env k s p)"
    "NonzeroDenominators (CalcPower env k s f a)"
    "NonzeroDenominators (CalcAvailable env k s sp_ff sp T)"
  using assms
  by (simp_all add: CalcCondAvgTemp_def CalcEvaporatorLoad_def CalcUnlockedSWT_def CalcCycling_def
      CalcEIRFPLR_def CalcPower_def CalcAvailable_def OperatingPartLoadRat_def Let_def split: prod.splits)

lemma Nonzero_locked:
  assumes "NonzeroDenominators s" "0 \<le> MassFlowTolerance env" "Cp \<noteq> 0"
  shows "NonzeroDenominators (CalcLimitLoad env k s Cp B)"
    "EvapMassFlowRate (chiller s) \<noteq> 0 \<Longrightarrow> NonzeroDenominators (CalcLockedLoad env k s Cp sp l)"
  using assms by (simp_all add: CalcLimitLoad_def CalcLockedLoad_def Let_def)

lemma CalcLockedClamps_nonzero:
  assumes "NonzeroDenominators s" "0 \<le> MassFlowTolerance env" "Cp \<noteq> 0" "EvapMassFlowRate (chiller s) \<noteq> 0"
  shows "NonzeroDenominators (CalcLockedClamps env k s Cp sp a l)"
proof -
  let ?s3 = "CalcLockedLoad env k s Cp sp l"
  let ?c5 = "CalcLowLimit env k (CalcLowLimit env k (chiller ?s3) Cp (TempLowLimitEvapOut k)) Cp
               (TempMin (Node env (EvapOutletNodeNum k)))"
  let ?s5 = "CalcLimitLoad env k (?s3\<lparr>chiller := ?c5\<rparr>) Cp \<bar>l\<bar>"
  have 1: "NonzeroDenominators ?s3"
    using Nonzero_locked(2) [OF assms(1-3) assms(4)] .
  have 2: "NonzeroDenominators ?s5"
    by (rule Nonzero_locked(1) [OF _ assms(2,3)]) (simp add: 1)
  have "NonzeroDenominators (CalcLimitLoad env k (?s5\<lparr>chiller := CalcLockedSWT env k (chiller ?s5) Cp\<rparr>) Cp
          (a * MaxPartLoadRat k))"
    by (rule Nonzero_locked(1) [OF _ assms(2,3)]) (simp add: 2)
  then show ?thesis
    by (simp add: CalcLockedClamps_def Let_def)
qed

lemma CalcUnlockedFlow_nonzero_aux:
  "NonzeroDenominators s \<Longrightarrow> Cp \<noteq> 0 \<Longrightarrow>
    (case CalcUnlockedFlow env k s Cp p of Inl e \<Rightarrow> True | Inr (s', p') \<Rightarrow> NonzeroDenominators s')"
  by (simp add: CalcUnlockedFlow_def Let_def split: DemandCalcScheme.split)

lemma CalcUnlockedFlow_nonzero:
  assumes "CalcUnlockedFlow env k s Cp p = Inr (s', p')" "NonzeroDenominators s" "Cp \<noteq> 0"
  shows "NonzeroDenominators s'"
  using CalcUnlockedFlow_nonzero_aux [OF assms(2,3), where env = env and k = k and p = p] assms(1) by simp

lemma HeatRecovery_nonzero:
  assumes run: "ReformEIRChillerHeatRecovery env k s q m T = Inr (s', q', r)"
    and s: "NonzeroDenominators s"
    and tol: "0 \<le> MassFlowTolerance env" and m: "MassFlowTolerance env < m"
    and cp: "\<And>l T. 0 < GetSpecificHeatGlycol env l T"
    and hr: "0 \<le> MassFlowRate (Node env (HeatRecInletNodeNum k))"
  shows "NonzeroDenominators s'"
proof -
  let ?mh = "MassFlowRate (Node env (HeatRecInletNodeNum k))"
  let ?ch = "GetSpecificHeatGlycol env (HRLoopNum k) (Temp (Node env (HeatRecInletNodeNum k)))"
  let ?cc = "GetSpecificHeatGlycol env (CDLoopNum k) T"
  have "0 < m * ?cc" using tol m cp [of "CDLoopNum k" T] by simp
  moreover have "0 \<le> ?mh * ?ch"
    using hr cp [of "HRLoopNum k" "Temp (Node env (HeatRecInletNodeNum k))"] by (simp add: less_imp_le)
  ultimately have sum: "?mh * ?ch + m * ?cc \<noteq> 0" by linarith
  have prod: "?mh * ?ch \<noteq> 0" if "0 < ?mh"
    using that cp [of "HRLoopNum k" "Temp (Node env (HeatRecInletNodeNum k))"] by simp
  from run s sum prod show ?thesis
    by (auto simp add: ReformEIRChillerHeatRecovery_def Let_def split: if_splits sum.splits)
qed

lemma CalcCondenser_nonzero:
  assumes run: "CalcCondenser env k s = Inr s'"
    and s: "NonzeroDenominators s"
    and tol: "0 \<le> MassFlowTolerance env"
    and cp: "\<And>l T. 0 < GetSpecificHeatGlycol env l T"
    and hr: "0 \<le> MassFlowRate (Node env (HeatRecInletNodeNum k))"
  shows "NonzeroDenominators s'"
proof (cases "CondMassFlowRate (chiller s) > MassFlowTolerance env")
  case False
  with run s show ?thesis by (auto simp add: CalcCondenser_def Let_def)
next
  case True
  have c: "GetSpecificHeatGlycol env (CDLoopNum k) (Temp (Node env (CondInletNodeNum k))) \<noteq> 0"
    using cp [of "CDLoopNum k" "Temp (Node env (CondInletNodeNum k))"] by simp
  have m: "CondMassFlowRate (chiller s) \<noteq> 0" using True tol by simp
  show ?thesis
  proof (cases "HeatRecActive k")
    case False
    with run s True c m show ?thesis by (auto simp add: CalcCondenser_def Let_def)
  next
    case active: True
    with run True obtain s1 q r where
      h: "ReformEIRChillerHeatRecovery env k s (QCondenser (chiller s)) (CondMassFlowRate (chiller s))
            (Temp (Node env (CondInletNodeNum k))) = Inr (s1, q, r)"
      and s': "s' = (dividing [(MassFlow, CondMassFlowRate (chiller s1)),
                   (SpecificHeat, GetSpecificHeatGlycol env (CDLoopNum k) (Temp (Node env (CondInletNodeNum k))))]
                 (s1\<lparr>chiller := (chiller s1)\<lparr>QCondenser := q, QHeatRecovery := r\<rparr>\<rparr>))
              \<lparr>chiller := (chiller s1)\<lparr>QCondenser := q, QHeatRecovery := r,
                  CondOutletTemp := q / CondMassFlowRate (chiller s1) /
                    GetSpecificHeatGlycol env (CDLoopNum k) (Temp (Node env (CondInletNodeNum k)))
                    + Temp (Node env (CondInletNodeNum k))\<rparr>\<rparr>"
      by (auto simp add: CalcCondenser_def Let_def split: sum.splits)
    have f: "CondMassFlowRate (chiller s1) = CondMassFlowRate (chiller s)"
      using h by (auto simp add: ReformEIRChillerHeatRecovery_def Let_def dividing_def split: if_splits sum.splits)
    from HeatRecovery_nonzero [OF h s tol True cp hr] s' f c m show ?thesis by simp
  qed
qed

lemma CalcEnergyBalance_nonzero:
  assumes run: "CalcEnergyBalance env k s p f a = Inr s'"
    and s: "NonzeroDenominators s"
    and tol: "0 \<le> MassFlowTolerance env"
    and cp: "\<And>l T. 0 < GetSpecificHeatGlycol env l T"
    and hr: "0 \<le> MassFlowRate (Node env (HeatRecInletNodeNum k))"
  shows "NonzeroDenominators s'"
proof -
  have "NonzeroDenominators (CalcPower env k (CalcEIRFPLR env k (s\<lparr>chiller := CalcEIRFT env k (chiller s)\<rparr>) p) f a)"
    using s by (intro Nonzero_blocks) simp
  from CalcCondenser_nonzero [OF run [unfolded CalcEnergyBalance_def] this tol cp hr] show ?thesis .
qed

lemma Stations_nonzero:
  assumes "NonzeroDenominators s"
  shows "NonzeroDenominators (StateAtFlowCheck env k s sp_ff T)"
    "NonzeroDenominators (StateAtLockBranch env k s sp_ff T l)"
  using assms by (simp_all add: StateAtFlowCheck_def StateAtLockBranch_def Nonzero_blocks)

lemma Calc_nonzero:
  assumes run: "CalcReformEIRChillerModel env k s MyLoad RunFlag FirstIteration EquipFlowCtrl T = Inr (s', MyLoad')"
    and s: "NonzeroDenominators s"
    and tol: "0 \<le> MassFlowTolerance env"
    and cp: "\<And>l T. 0 < GetSpecificHeatGlycol env l T"
    and hr: "0 \<le> MassFlowRate (Node env (HeatRecInletNodeNum k))"
  shows "NonzeroDenominators s'"
proof (cases "MyLoad < 0 \<and> RunFlag")
  case False
  with run have "s' = s\<lparr>chiller := CalcIdle env k (CalcZeroOutputs (chiller s)) EquipFlowCtrl\<rparr>"
    by (auto simp add: CalcReformEIRChillerModel_def Let_def)
  with s show ?thesis by simp
next
  case True
  then have on: "MyLoad < 0" "RunFlag" by simp_all
  have ecp: "EvapCp env k \<noteq> 0"
    using cp [of "CWLoopNum k" "Temp (Node env (EvapInletNodeNum k))"] by (simp add: EvapCp_def)
  from run on show ?thesis
  proof (cases rule: Calc_cases)
    case NoCondFlow
    with s show ?thesis by simp
  next
    case (NoEvapFlow sp_ff)
    with s show ?thesis by (simp add: Stations_nonzero)
  next
    case (Unlocked sp_ff s6 p6)
    have "NonzeroDenominators s6"
      using CalcUnlockedFlow_nonzero [OF Unlocked(6) Stations_nonzero(2) [OF s] ecp] .
    then have "NonzeroDenominators (fst (CalcUnlockedSWT env k s6 (EvapCp env k) p6 (AvailCapAt env k s sp_ff T)))"
      by (rule Nonzero_blocks)
    from CalcEnergyBalance_nonzero [OF Unlocked(7) this tol cp hr] show ?thesis .
  next
    case (LockedNoFlow sp_ff)
    with s show ?thesis by (simp add: Stations_nonzero)
  next
    case (Locked sp_ff)
    let ?b = "StateAtLockBranch env k s sp_ff T MyLoad"
    have m: "EvapMassFlowRate (chiller (?b\<lparr>chiller := CalcLockedFlow env k (chiller ?b)\<rparr>)) \<noteq> 0"
      using Locked(5) by (simp add: CalcLockedFlow_def EvaporatorFlowLocked_def)
    have "NonzeroDenominators (?b\<lparr>chiller := CalcLockedFlow env k (chiller ?b)\<rparr>)"
      using s by (simp add: Stations_nonzero)
    from CalcLockedClamps_nonzero [OF this tol ecp m]
    have "NonzeroDenominators (StateAtCycling env k s sp_ff T MyLoad)"
      by (simp add: StateAtCycling_def)
    then have "NonzeroDenominators (fst (CalcCycling env k (StateAtCycling env k s sp_ff T MyLoad) (AvailCapAt env k s sp_ff T)))"
      by (rule Nonzero_blocks)
    from CalcEnergyBalance_nonzero [OF Locked(7) this tol cp hr] show ?thesis .
  qed
qed


lemma HeatRecovery_returns:
  assumes "HeatRecSetPointNodeNum k = 0 \<or> LoopDemandCalcScheme (PlantLoop env (HRLoopNum k)) \<noteq> OtherScheme"
  shows "\<exists>s' q' r. ReformEIRChillerHeatRecovery env k s q m T = Inr (s', q', r)"
  using assms
  by (cases "LoopDemandCalcScheme (PlantLoop env (HRLoopNum k))")
    (auto simp add: ReformEIRChillerHeatRecovery_def HeatRecToSetPoint_def Let_def)

lemma CalcEnergyBalance_total:
  assumes "HeatRecActive k \<longrightarrow>
      HeatRecSetPointNodeNum k = 0 \<or> LoopDemandCalcScheme (PlantLoop env (HRLoopNum k)) \<noteq> OtherScheme"
  shows "\<exists>s'. CalcEnergyBalance env k s p f a = Inr s'"
proof (cases "HeatRecActive k")
  case False
  then show ?thesis by (simp add: CalcEnergyBalance_def CalcCondenser_def Let_def)
next
  case True
  let ?s = "CalcPower env k (CalcEIRFPLR env k (s\<lparr>chiller := CalcEIRFT env k (chiller s)\<rparr>) p) f a"
  from True assms HeatRecovery_returns obtain s1 q r where
    "ReformEIRChillerHeatRecovery env k ?s (QCondenser (chiller ?s)) (CondMassFlowRate (chiller ?s))
       (Temp (Node env (CondInletNodeNum k))) = Inr (s1, q, r)"
    by blast
  with True show ?thesis by (simp add: CalcEnergyBalance_def CalcCondenser_def Let_def)
qed

lemma Calc_total:
  assumes cw: "LoopDemandCalcScheme (PlantLoop env (CWLoopNum k)) \<noteq> OtherScheme"
    and hr: "HeatRecActive k \<longrightarrow>
      HeatRecSetPointNodeNum k = 0 \<or> LoopDemandCalcScheme (PlantLoop env (HRLoopNum k)) \<noteq> OtherScheme"
  shows "\<exists>s' MyLoad'. CalcReformEIRChillerModel env k s MyLoad RunFlag FirstIteration EquipFlowCtrl T = Inr (s', MyLoad')"
proof (cases "MyLoad \<ge> 0 \<or> \<not> RunFlag")
  case True
  then show ?thesis by (auto simp add: CalcReformEIRChillerModel_def Let_def)
next
  case False
  from PlantSetPoint_returns [OF cw] obtain sp where sp: "PlantSetPoint env k = Inr sp"
    by blast
  have u: "\<exists>r. CalcUnlocked env k s0 Cp p a l = Inr r" for s0 Cp p a l
  proof -
    from CalcUnlockedFlow_returns [OF cw] obtain s6 p6 where
      f: "CalcUnlockedFlow env k s0 Cp p = Inr (s6, p6)"
      by blast
    from CalcEnergyBalance_total [OF hr] obtain s' where
      "CalcEnergyBalance env k (fst (CalcUnlockedSWT env k s6 Cp p6 a)) (snd (CalcUnlockedSWT env k s6 Cp p6 a)) 1 a = Inr s'"
      by blast
    with f show ?thesis
      by (auto simp add: CalcUnlocked_def split: prod.splits)
  qed
  have l: "\<exists>r. CalcLocked env k s0 Cp sp' a l = Inr r" for s0 Cp sp' a l
  proof (cases "EvapMassFlowRate (CalcLockedFlow env k (chiller s0)) = 0")
    case True
    then show ?thesis by (simp add: CalcLocked_def Let_def)
  next
    case False
    let ?s7 = "CalcLockedClamps env k (s0\<lparr>chiller := CalcLockedFlow env k (chiller s0)\<rparr>) Cp sp' a l"
    from CalcEnergyBalance_total [OF hr] obtain s' where
      "CalcEnergyBalance env k (fst (CalcCycling env k ?s7 a)) (fst (snd (CalcCycling env k ?s7 a)))
         (snd (snd (CalcCycling env k ?s7 a))) a = Inr s'"
      by blast
    with False show ?thesis
      by (auto simp add: CalcLocked_def Let_def split: prod.splits)
  qed
  from False sp u l show ?thesis
    by (simp add: CalcReformEIRChillerModel_def CalcRunning_def CalcLoaded_def Let_def)
qed

text \<open>
  Claim C10. The state keeps a log of the denominator of every division that the
  evaluator and the heat-recovery split make. The flow tolerance is not negative, the
  specific heat of the fluids is positive and the heat-recovery inlet has no negative
  flow. Then an evaluation that starts with a log without a zero ends with a log
  without a zero, and so does a heat-recovery split that is called with a condenser flow
  above the tolerance. Both return whenever the demand schemes of the loops are among
  the two that the code handles.
\<close>

theorem no_division_by_zero:
  assumes tol: "0 \<le> MassFlowTolerance env"
    and cp: "\<And>l T. 0 < GetSpecificHeatGlycol env l T"
    and hr: "0 \<le> MassFlowRate (Node env (HeatRecInletNodeNum k))"
    and s: "NonzeroDenominators s"
  shows "(\<forall>s' MyLoad'.
            CalcReformEIRChillerModel env k s MyLoad RunFlag FirstIteration EquipFlowCtrl FalsiCondOutTemp
              = Inr (s', MyLoad') \<longrightarrow> NonzeroDenominators s')
       \<and> (\<forall>s' QCond' QHeatRec.
            MassFlowTolerance env < CondMassFlow
          \<and> ReformEIRChillerHeatRecovery env k s QCond CondMassFlow CondInletTemp = Inr (s', QCond', QHeatRec)
           \<longrightarrow> NonzeroDenominators s')
       \<and> (LoopDemandCalcScheme (PlantLoop env (CWLoopNum k)) \<noteq> OtherScheme
          \<and> (HeatRecActive k \<longrightarrow> HeatRecSetPointNodeNum k = 0
                \<or> LoopDemandCalcScheme (PlantLoop env (HRLoopNum k)) \<noteq> OtherScheme) \<longrightarrow>
           (\<exists>s' MyLoad'.
              CalcReformEIRChillerModel env k s MyLoad RunFlag FirstIteration EquipFlowCtrl FalsiCondOutTemp
                = Inr (s', MyLoad')))
       \<and> (HeatRecSetPointNodeNum k = 0 \<or> LoopDemandCalcScheme (PlantLoop env (HRLoopNum k)) \<noteq> OtherScheme \<longrightarrow>
           (\<exists>s' QCond' QHeatRec.
              ReformEIRChillerHeatRecovery env k s QCond CondMassFlow CondInletTemp = Inr (s', QCond', QHeatRec)))"
  using Calc_nonzero [OF _ s tol cp hr] HeatRecovery_nonzero [OF _ s tol _ cp hr]
    Calc_total [of env k s MyLoad RunFlag FirstIteration EquipFlowCtrl FalsiCondOutTemp]
    HeatRecovery_returns [of k env s QCond CondMassFlow CondInletTemp]
  by blast

theorem no_division_by_zero_witness:
  "NonzeroDenominators demo_sim
   \<and> MassFlowTolerance (demo_env 0) = 1 / 1000000000
   \<and> GetSpecificHeatGlycol (demo_env 0) = (\<lambda>l T. 4000)
   \<and> MassFlowRate (Node (demo_env 0) (HeatRecInletNodeNum demo_hr_chiller)) = 1
   \<and> (\<exists>s'. CalcReformEIRChillerModel (demo_env 0) demo_hr_chiller demo_sim (- 60000) True False 0 25
               = Inr (s', - 60000)
          \<and> denominators s' =
              [(OtherQuantity, 100000), (MassFlow, 5), (SpecificHeat, 4000), (OtherQuantity, 5),
               (HeatCapacityRate, 36000), (HeatCapacityRate, 36000), (HeatCapacityRate, 4000),
               (MassFlow, 8), (SpecificHeat, 4000)]
          \<and> NonzeroDenominators s')
   \<and> (\<exists>s' QCond' QHeatRec.
         ReformEIRChillerHeatRecovery (demo_env 0) demo_hr_chiller demo_sim 4000 8 30 = Inr (s', QCond', QHeatRec)
       \<and> denominators s' = [(HeatCapacityRate, 36000), (HeatCapacityRate, 36000), (HeatCapacityRate, 4000)]
       \<and> NonzeroDenominators s')"
proof -
  have tol: "0 \<le> MassFlowTolerance (demo_env 0)"
    and cp: "\<And>l T. 0 < GetSpecificHeatGlycol (demo_env 0) l T"
    and hr: "0 \<le> MassFlowRate (Node (demo_env 0) (HeatRecInletNodeNum demo_hr_chiller))"
    and s: "NonzeroDenominators demo_sim"
    by (simp_all add: demo_hr_chiller_eq NonzeroDenominators_def)
  from no_division_by_zero [OF tol cp hr s, where MyLoad = "- 60000" and RunFlag = True and FirstIteration = False
      and EquipFlowCtrl = 0 and FalsiCondOutTemp = 25 and QCond = 4000 and CondMassFlow = 8 and CondInletTemp = 30]
    demo_calc_hr demo_heat_recovery s
  show ?thesis
    by (simp add: demo_hr_chiller_eq demo_hr_sim_def NonzeroDenominators_def)
qed

section \<open>The effect of the validator\<close>



lemma CheckEIRFPLRValue_effect:
  "chiller (CheckEIRFPLRValue env k s) = (chiller s)\<lparr>ChillerEIRFPLR := ChillerEIRFPLR (chiller (CheckEIRFPLRValue env k s))\<rparr>"
  by (simp add: CheckEIRFPLRValue_def dividing_def Let_def)























end
